theory Spec2Isabelle
  imports Complex_Main
begin

section \<open>Continuous finite-element assembly with a nonlinear reaction operator\<close>

text \<open>
  A shallow embedding of \<^verbatim>\<open>discretize_cg_with_nonlinear_reactionoperator.py\<close>.
  Numbers are real numbers (exact arithmetic); an array of rank one is a list, an array of
  rank two a list of rows. A Python exception is the left summand of a sum type.
\<close>

subsection \<open>Reference elements and exceptions\<close>

datatype reference_element = line | triangle | square

datatype error = AssertionError | NotImplementedError | ValueError | IndexError | AttributeError | TypeError

text \<open>The number of coordinates of a point of the reference element.\<close>

fun ref_dim :: "reference_element \<Rightarrow> nat" where
  "ref_dim line = 1"
| "ref_dim triangle = 2"
| "ref_dim square = 2"

subsection \<open>Shape functions and their gradients\<close>

text \<open>
  \<^verbatim>\<open>LagrangeShapeFunctions[r][1]\<close>: the list of the order-1 shape functions of the
  reference element \<open>r\<close>. A point \<open>X\<close> is the list of its coordinates, \<open>X[..., i]\<close> is
  \<open>X ! i\<close>.
\<close>

fun LagrangeShapeFunctions :: "reference_element \<Rightarrow> (real list \<Rightarrow> real) list" where
  "LagrangeShapeFunctions line =
     [\<lambda>X. 1 - X ! 0,
      \<lambda>X. X ! 0]"
| "LagrangeShapeFunctions square =
     [\<lambda>X. (1 - X ! 0) * (1 - X ! 1),
      \<lambda>X. (1 - X ! 1) * (X ! 0),
      \<lambda>X. (X ! 0) * (X ! 1),
      \<lambda>X. (X ! 1) * (1 - X ! 0)]"
| "LagrangeShapeFunctions triangle =
     [\<lambda>X. 1 - X ! 0 - X ! 1,
      \<lambda>X. X ! 0,
      \<lambda>X. X ! 1]"

text \<open>
  \<^verbatim>\<open>LagrangeShapeFunctionsGrads[r][1]\<close> is a constant array for the line and the
  triangle and a function of the point for the square.
\<close>

datatype shape_grads = GradArray "real list list" | GradFun "real list \<Rightarrow> real list list"

fun LagrangeShapeFunctionsGrads :: "reference_element \<Rightarrow> shape_grads" where
  "LagrangeShapeFunctionsGrads line = GradArray [[-1], [1]]"
| "LagrangeShapeFunctionsGrads square = GradFun (\<lambda>X.
     [[X ! 1 - 1, X ! 0 - 1],
      [1 - X ! 1, - X ! 0],
      [X ! 1, X ! 0],
      [- X ! 1, 1 - X ! 0]])"
| "LagrangeShapeFunctionsGrads triangle = GradArray [[-1, -1], [1, 0], [0, 1]]"

text \<open>
  Evaluation at one point. Python raises \<^verbatim>\<open>IndexError\<close> when the point has fewer
  coordinates than the shape functions read.
\<close>

definition shape_values :: "reference_element \<Rightarrow> real list \<Rightarrow> error + real list" where
  "shape_values r X =
     (if length X < ref_dim r then Inl IndexError
      else Inr (map (\<lambda>f. f X) (LagrangeShapeFunctions r)))"

definition shape_gradients :: "reference_element \<Rightarrow> real list \<Rightarrow> error + real list list" where
  "shape_gradients r X =
     (case LagrangeShapeFunctionsGrads r of
        GradArray G \<Rightarrow> Inr G
      | GradFun f \<Rightarrow> if length X < ref_dim r then Inl IndexError else Inr (f X))"

text \<open>The sum of a list of vectors with \<open>d\<close> components.\<close>

definition vec_sum :: "nat \<Rightarrow> real list list \<Rightarrow> real list" where
  "vec_sum d vs = map (\<lambda>j. sum_list (map (\<lambda>v. v ! j) vs)) [0..<d]"

definition partition_of_unity :: "reference_element \<Rightarrow> real list \<Rightarrow> bool" where
  "partition_of_unity r X =
     ((case shape_values r X of Inl e \<Rightarrow> False | Inr vs \<Rightarrow> sum_list vs = 1)
      \<and> (case shape_gradients r X of Inl e \<Rightarrow> False
         | Inr G \<Rightarrow> (\<forall>g \<in> set G. length g = ref_dim r) \<and> vec_sum (ref_dim r) G = replicate (ref_dim r) 0))"

subsection \<open>Grid, boundary information and problem data\<close>

text \<open>
  The grid, the quadrature rules of its reference element, the boundary information and the
  problem data functions are supplied by the caller; their fields hold what the methods of
  the Python objects return. \<open>size_of g c\<close> is \<^verbatim>\<open>g.size(c)\<close>, \<open>subentities g\<close> is
  \<^verbatim>\<open>g.subentities(0, g.dim)\<close>, \<open>centers g\<close>, \<open>volumes g\<close>, \<open>integration_elements g\<close>
  and \<open>jacobian_inverse_transposed g\<close> are the arrays for codimension 0,
  \<open>centers1 g\<close>, \<open>integration_elements1 g\<close> and \<open>subentities1 g\<close> are \<^verbatim>\<open>g.centers(1)\<close>,
  \<^verbatim>\<open>g.integration_elements(1)\<close> and \<^verbatim>\<open>g.subentities(1, g.dim)\<close>, and
  \<open>quadrature g r order\<close> is \<^verbatim>\<open>r.quadrature(order=order)\<close> for the reference element
  \<open>r\<close>, the pair of the points and the weights.
\<close>

record grid =
  dim :: nat
  reference_element :: reference_element
  size_of :: "nat \<Rightarrow> nat"
  subentities :: "nat list list"
  centers :: "real list list"
  volumes :: "real list"
  integration_elements :: "real list"
  jacobian_inverse_transposed :: "real list list list"
  centers1 :: "real list list"
  integration_elements1 :: "real list"
  subentities1 :: "nat list list"
  quadrature :: "reference_element \<Rightarrow> nat \<Rightarrow> real list list \<times> real list"

text \<open>
  \<open>dirichlet_mask bi\<close> is \<^verbatim>\<open>bi.dirichlet_mask(g.dim)\<close>, \<open>dirichlet_boundaries bi\<close>
  is \<^verbatim>\<open>bi.dirichlet_boundaries(g.dim)\<close> and \<open>robin_boundaries bi\<close> is
  \<^verbatim>\<open>bi.robin_boundaries(1)\<close>, for a boundary information object that has these
  boundary types. \<open>missing_type_error bi\<close> is the exception that the object raises when it
  is asked for the mask or the boundaries of a type it does not have.
\<close>

record boundary_info =
  has_dirichlet :: bool
  has_robin :: bool
  dirichlet_mask :: "bool list"
  dirichlet_boundaries :: "nat list"
  robin_boundaries :: "nat list"
  missing_type_error :: error

text \<open>
  The call \<^verbatim>\<open>bi.dirichlet_boundaries(g.dim)\<close> where no test of
  \<^verbatim>\<open>bi.has_dirichlet\<close> guards it.
\<close>

definition call_dirichlet_boundaries :: "boundary_info \<Rightarrow> error + nat list" where
  "call_dirichlet_boundaries bi =
     (if has_dirichlet bi then Inr (dirichlet_boundaries bi) else Inl (missing_type_error bi))"

text \<open>
  A problem data function: whether it is an instance of \<^verbatim>\<open>Function\<close>, its
  \<^verbatim>\<open>dim_domain\<close> and \<^verbatim>\<open>shape_range\<close>, and its value at a point for a parameter
  \<open>mu\<close>, read as a scalar, a vector or a matrix according to \<^verbatim>\<open>shape_range\<close>.
\<close>

record function_data =
  is_Function :: bool
  dim_domain :: nat
  shape_range :: "nat list"
  scalar_value :: "real list \<Rightarrow> real list \<Rightarrow> real"
  vector_value :: "real list \<Rightarrow> real list \<Rightarrow> real list"
  matrix_value :: "real list \<Rightarrow> real list \<Rightarrow> real list list"

text \<open>
  The call \<^verbatim>\<open>f(x, mu=mu)\<close> of a scalar-valued function for an array \<open>x\<close> of points
  with \<open>d\<close> coordinates each (\<open>d\<close> is \<^verbatim>\<open>x.shape[-1]\<close>): the evaluation asserts
  that \<open>d\<close> is the \<^verbatim>\<open>dim_domain\<close> of the function and returns one value for each
  point.
\<close>

definition evaluate :: "function_data \<Rightarrow> nat \<Rightarrow> real list list \<Rightarrow> real list \<Rightarrow> error + real list" where
  "evaluate f d x mu =
     (if d \<noteq> dim_domain f then Inl AssertionError
      else Inr (map (\<lambda>p. scalar_value f p mu) x))"

type_synonym matrix = "real list list"

subsection \<open>Array operations\<close>

text \<open>The shape functions at the quadrature points: \<^verbatim>\<open>np.array(tuple(f(q) for f in SF))\<close>.\<close>

definition shape_functions_at :: "reference_element \<Rightarrow> real list list \<Rightarrow> real list list" where
  "shape_functions_at r q = map (\<lambda>f. map f q) (LagrangeShapeFunctions r)"

text \<open>\<^verbatim>\<open>np.repeat(a, k, axis=1).ravel()\<close> and \<^verbatim>\<open>np.tile(a, [1, k]).ravel()\<close>.\<close>

definition repeat_ravel :: "nat list list \<Rightarrow> nat \<Rightarrow> nat list" where
  "repeat_ravel a k = concat (map (\<lambda>row. concat (map (replicate k) row)) a)"

definition tile_ravel :: "nat list list \<Rightarrow> nat \<Rightarrow> nat list" where
  "tile_ravel a k = concat (map (\<lambda>row. concat (replicate k row)) a)"

text \<open>\<^verbatim>\<open>a.ravel()\<close> for an array of rank three.\<close>

definition ravel3 :: "real list list list \<Rightarrow> real list" where
  "ravel3 a = concat (map concat a)"

text \<open>
  \<^verbatim>\<open>np.where(mask[I], 0, data)\<close>: the contributions whose index is a Dirichlet DOF are
  set to zero.
\<close>

definition dirichlet_clear :: "bool list \<Rightarrow> nat list \<Rightarrow> real list \<Rightarrow> real list" where
  "dirichlet_clear msk I data = map2 (\<lambda>i v. if msk ! i then 0 else v) I data"

text \<open>
  \<^verbatim>\<open>coo_matrix((data, (I0, I1)), shape=(m, n))\<close> followed by
  \<^verbatim>\<open>eliminate_zeros()\<close> and the conversion to compressed columns: contributions with
  the same row and column are summed. The sparse matrix is given by its entries, as the
  list of its rows.
\<close>

definition coo_entry :: "real list \<Rightarrow> nat list \<Rightarrow> nat list \<Rightarrow> nat \<Rightarrow> nat \<Rightarrow> real" where
  "coo_entry data I0 I1 i j =
     sum_list (map (\<lambda>(v, r, c). if r = i \<and> c = j then v else 0) (zip data (zip I0 I1)))"

definition coo_matrix :: "real list \<Rightarrow> nat list \<Rightarrow> nat list \<Rightarrow> nat \<Rightarrow> nat \<Rightarrow> matrix" where
  "coo_matrix data I0 I1 m n = map (\<lambda>i. map (\<lambda>j. coo_entry data I0 I1 i j) [0..<n]) [0..<m]"

subsection \<open>Boundary treatment and assembly of the system matrix\<close>

text \<open>
  The statements from \<^verbatim>\<open>'Boundary treatment ...'\<close> to the end of \<^verbatim>\<open>_assemble\<close>,
  the same in \<^verbatim>\<open>L2ProductP1\<close>, \<^verbatim>\<open>L2ProductQ1\<close>, \<^verbatim>\<open>DiffusionOperatorP1\<close>,
  \<^verbatim>\<open>DiffusionOperatorQ1\<close>, \<^verbatim>\<open>AdvectionOperatorP1\<close> and \<^verbatim>\<open>AdvectionOperatorQ1\<close>.
  The diffusion and advection operators have no flag \<^verbatim>\<open>dirichlet_clear_rows\<close>: they
  always clear the rows, which is \<open>rows = True\<close> here.
\<close>

definition boundary_treatment ::
  "boundary_info \<Rightarrow> bool \<Rightarrow> bool \<Rightarrow> bool \<Rightarrow> real list \<times> nat list \<times> nat list
     \<Rightarrow> real list \<times> nat list \<times> nat list" where
  "boundary_treatment bi rows cols diag = (\<lambda>(SF_INTS, SF_I0, SF_I1).
     if has_dirichlet bi then
       let SF_INTS = (if rows then dirichlet_clear (dirichlet_mask bi) SF_I0 SF_INTS else SF_INTS);
           SF_INTS = (if cols then dirichlet_clear (dirichlet_mask bi) SF_I1 SF_INTS else SF_INTS)
       in if \<not> diag \<and> (rows \<or> cols)
          then (SF_INTS @ replicate (length (dirichlet_boundaries bi)) 1,
                SF_I0 @ dirichlet_boundaries bi,
                SF_I1 @ dirichlet_boundaries bi)
          else (SF_INTS, SF_I0, SF_I1)
     else (SF_INTS, SF_I0, SF_I1))"

text \<open>The matrix of a list of contributions, without boundary treatment.\<close>

definition contributions_matrix :: "grid \<Rightarrow> real list \<times> nat list \<times> nat list \<Rightarrow> matrix" where
  "contributions_matrix g contributions =
     (case contributions of
        (SF_INTS, SF_I0, SF_I1) \<Rightarrow>
          coo_matrix SF_INTS SF_I0 SF_I1 (size_of g (dim g)) (size_of g (dim g)))"

definition assemble_system_matrix ::
  "grid \<Rightarrow> boundary_info \<Rightarrow> bool \<Rightarrow> bool \<Rightarrow> bool \<Rightarrow> real list \<times> nat list \<times> nat list \<Rightarrow> matrix" where
  "assemble_system_matrix g bi rows cols diag contributions =
     contributions_matrix g (boundary_treatment bi rows cols diag contributions)"

subsection \<open>Element-local integrals\<close>

text \<open>
  An array of rank three built from its entries; every \<^verbatim>\<open>np.einsum\<close> of the assembly
  routines with output \<^verbatim>\<open>eij\<close>, \<^verbatim>\<open>epq\<close> or \<^verbatim>\<open>eqp\<close> is such an array, whose entry
  is the sum over the contracted indices of the product of the operands. The lengths of
  the axes are read from the operands; where an operand may be empty (no element), the
  number \<open>P\<close> of shape functions and the dimension \<open>d\<close> are passed along.
\<close>

definition tensor3 :: "nat \<Rightarrow> nat \<Rightarrow> nat \<Rightarrow> (nat \<Rightarrow> nat \<Rightarrow> nat \<Rightarrow> real) \<Rightarrow> real list list list" where
  "tensor3 E P Q f = map (\<lambda>e. map (\<lambda>p. map (\<lambda>q. f e p q) [0..<Q]) [0..<P]) [0..<E]"

text \<open>\<^verbatim>\<open>np.einsum('iq,jq,q,e->eij', SF, SF, w, ie)\<close>\<close>

definition einsum_iq_jq_q_e :: "real list list \<Rightarrow> real list \<Rightarrow> real list \<Rightarrow> real list list list" where
  "einsum_iq_jq_q_e SF w ie =
     tensor3 (length ie) (length SF) (length SF)
       (\<lambda>e i j. \<Sum>q\<leftarrow>[0..<length w]. SF ! i ! q * SF ! j ! q * w ! q * ie ! e)"

text \<open>\<^verbatim>\<open>np.einsum('iq,jq,q,e,e->eij', SF, SF, w, ie, C)\<close>\<close>

definition einsum_iq_jq_q_e_e ::
  "real list list \<Rightarrow> real list \<Rightarrow> real list \<Rightarrow> real list \<Rightarrow> real list list list" where
  "einsum_iq_jq_q_e_e SF w ie C =
     tensor3 (length ie) (length SF) (length SF)
       (\<lambda>e i j. \<Sum>q\<leftarrow>[0..<length w]. SF ! i ! q * SF ! j ! q * w ! q * ie ! e * C ! e)"

text \<open>\<^verbatim>\<open>np.einsum('eij,pj->epi', JIT, SF_GRAD)\<close>\<close>

definition einsum_eij_pj :: "real list list list \<Rightarrow> real list list \<Rightarrow> real list list list" where
  "einsum_eij_pj JIT SF_GRAD =
     map (\<lambda>e. map (\<lambda>p. map (\<lambda>i. \<Sum>j\<leftarrow>[0..<length (SF_GRAD ! p)]. JIT ! e ! i ! j * SF_GRAD ! p ! j)
                              [0..<length (JIT ! e)])
                    [0..<length SF_GRAD])
         [0..<length JIT]"

text \<open>\<^verbatim>\<open>np.einsum('epi,eqi,e,e->epq', SF_GRADS, SF_GRADS, vol, D)\<close>\<close>

definition einsum_epi_eqi_e_e ::
  "nat \<Rightarrow> nat \<Rightarrow> real list list list \<Rightarrow> real list \<Rightarrow> real list \<Rightarrow> real list list list" where
  "einsum_epi_eqi_e_e P d SF_GRADS vol D =
     tensor3 (length SF_GRADS) P P
       (\<lambda>e p q. \<Sum>i\<leftarrow>[0..<d]. SF_GRADS ! e ! p ! i * SF_GRADS ! e ! q ! i * vol ! e * D ! e)"

text \<open>\<^verbatim>\<open>np.einsum('epi,eqj,e,eij->epq', SF_GRADS, SF_GRADS, vol, D)\<close>\<close>

definition einsum_epi_eqj_e_eij ::
  "nat \<Rightarrow> nat \<Rightarrow> real list list list \<Rightarrow> real list \<Rightarrow> real list list list \<Rightarrow> real list list list" where
  "einsum_epi_eqj_e_eij P d SF_GRADS vol D =
     tensor3 (length SF_GRADS) P P
       (\<lambda>e p q. \<Sum>i\<leftarrow>[0..<d]. \<Sum>j\<leftarrow>[0..<d].
           SF_GRADS ! e ! p ! i * SF_GRADS ! e ! q ! j * vol ! e * D ! e ! i ! j)"

text \<open>\<^verbatim>\<open>np.einsum('epi,eqi,e->epq', SF_GRADS, SF_GRADS, vol)\<close>\<close>

definition einsum_epi_eqi_e :: "nat \<Rightarrow> nat \<Rightarrow> real list list list \<Rightarrow> real list \<Rightarrow> real list list list" where
  "einsum_epi_eqi_e P d SF_GRADS vol =
     tensor3 (length SF_GRADS) P P
       (\<lambda>e p q. \<Sum>i\<leftarrow>[0..<d]. SF_GRADS ! e ! p ! i * SF_GRADS ! e ! q ! i * vol ! e)"

subsection \<open>The assembled operators\<close>

record grid_operator =
  grid :: grid

record operator_base = grid_operator +
  boundary_info :: "boundary_info option"

record dirichlet_operator = operator_base +
  dirichlet_clear_columns :: bool
  dirichlet_clear_diag :: bool

record L2Product = dirichlet_operator +
  dirichlet_clear_rows :: bool
  coefficient_function :: "function_data option"

record DiffusionOperator = dirichlet_operator +
  diffusion_function :: "function_data option"
  diffusion_constant :: "real option"

text \<open>\<^verbatim>\<open>L2ProductP1.__init__\<close> and \<^verbatim>\<open>L2ProductQ1.__init__\<close>\<close>

definition L2ProductP1_init ::
  "grid \<Rightarrow> boundary_info option \<Rightarrow> bool \<Rightarrow> bool \<Rightarrow> bool \<Rightarrow> function_data option \<Rightarrow> error + L2Product" where
  "L2ProductP1_init g bi rows cols diag cf =
     (if reference_element g \<notin> {line, triangle} then Inl AssertionError
      else Inr \<lparr>grid = g, boundary_info = bi, dirichlet_clear_columns = cols,
                dirichlet_clear_diag = diag, dirichlet_clear_rows = rows,
                coefficient_function = cf\<rparr>)"

definition L2ProductQ1_init ::
  "grid \<Rightarrow> boundary_info option \<Rightarrow> bool \<Rightarrow> bool \<Rightarrow> bool \<Rightarrow> function_data option \<Rightarrow> error + L2Product" where
  "L2ProductQ1_init g bi rows cols diag cf =
     (if reference_element g \<notin> {square} then Inl AssertionError
      else Inr \<lparr>grid = g, boundary_info = bi, dirichlet_clear_columns = cols,
                dirichlet_clear_diag = diag, dirichlet_clear_rows = rows,
                coefficient_function = cf\<rparr>)"

text \<open>
  The flat contributions \<^verbatim>\<open>SF_INTS\<close> of the mass matrix for the quadrature rule
  \<open>(q, w)\<close>, common to \<^verbatim>\<open>L2ProductP1._assemble\<close> and \<^verbatim>\<open>L2ProductQ1._assemble\<close>.
\<close>

definition L2Product_SF_INTS :: "L2Product \<Rightarrow> real list list \<times> real list \<Rightarrow> real list \<Rightarrow> real list" where
  "L2Product_SF_INTS op qw mu =
     (let g = grid op;
          (q, w) = qw;
          SF = shape_functions_at (reference_element g) q
      in case coefficient_function op of
           Some cf \<Rightarrow>
             (let C = map (\<lambda>x. scalar_value cf x mu) (centers g)
              in ravel3 (einsum_iq_jq_q_e_e SF w (integration_elements g) C))
         | None \<Rightarrow> ravel3 (einsum_iq_jq_q_e SF w (integration_elements g)))"

text \<open>
  \<^verbatim>\<open>L2ProductP1._assemble\<close>. Without a boundary information object the attribute access
  \<^verbatim>\<open>bi.has_dirichlet\<close> raises.
\<close>

definition L2ProductP1_assemble :: "L2Product \<Rightarrow> real list \<Rightarrow> error + matrix" where
  "L2ProductP1_assemble op mu =
     (let g = grid op;
          SF_INTS = L2Product_SF_INTS op (quadrature g (reference_element g) 2) mu;
          SF_I0 = repeat_ravel (subentities g) (dim g + 1);
          SF_I1 = tile_ravel (subentities g) (dim g + 1)
      in case boundary_info op of
           None \<Rightarrow> Inl AttributeError
         | Some bi \<Rightarrow>
             Inr (assemble_system_matrix g bi (dirichlet_clear_rows op) (dirichlet_clear_columns op)
                    (dirichlet_clear_diag op) (SF_INTS, SF_I0, SF_I1)))"

text \<open>\<^verbatim>\<open>L2ProductQ1._assemble\<close>\<close>

definition L2ProductQ1_assemble :: "L2Product \<Rightarrow> real list \<Rightarrow> error + matrix" where
  "L2ProductQ1_assemble op mu =
     (let g = grid op;
          SF_INTS = L2Product_SF_INTS op (quadrature g square 2) mu;
          SF_I0 = repeat_ravel (subentities g) 4;
          SF_I1 = tile_ravel (subentities g) 4
      in case boundary_info op of
           None \<Rightarrow> Inl AttributeError
         | Some bi \<Rightarrow>
             Inr (assemble_system_matrix g bi (dirichlet_clear_rows op) (dirichlet_clear_columns op)
                    (dirichlet_clear_diag op) (SF_INTS, SF_I0, SF_I1)))"

text \<open>
  The assembly of the mass matrix of the class chosen by the discretizer:
  \<^verbatim>\<open>Prod = L2ProductQ1 if grid.reference_element is square else L2ProductP1\<close>.
\<close>

definition Prod_assemble :: "L2Product \<Rightarrow> real list \<Rightarrow> error + matrix" where
  "Prod_assemble op mu =
     (if reference_element (grid op) = square then L2ProductQ1_assemble op mu
      else L2ProductP1_assemble op mu)"

text \<open>
  \<^verbatim>\<open>DiffusionOperatorP1.__init__\<close>. In the second assertion \<^verbatim>\<open>and\<close> binds tighter
  than \<^verbatim>\<open>or\<close>.
\<close>

definition DiffusionOperatorP1_init ::
  "grid \<Rightarrow> boundary_info option \<Rightarrow> function_data option \<Rightarrow> real option \<Rightarrow> bool \<Rightarrow> bool
     \<Rightarrow> error + DiffusionOperator" where
  "DiffusionOperatorP1_init g bi df dc cols diag =
     (if reference_element g \<notin> {triangle, line} then Inl AssertionError
      else if \<not> (case df of None \<Rightarrow> True
                  | Some f \<Rightarrow> (is_Function f \<and> dim_domain f = dim g \<and> shape_range f = [])
                             \<or> shape_range f = [dim g, dim g])
        then Inl AssertionError
      else Inr \<lparr>grid = g, boundary_info = bi, dirichlet_clear_columns = cols,
                dirichlet_clear_diag = diag, diffusion_function = df, diffusion_constant = dc\<rparr>)"

text \<open>
  The flat contributions \<^verbatim>\<open>SF_INTS\<close> of \<^verbatim>\<open>DiffusionOperatorP1._assemble\<close>, scaled by
  the diffusion constant, before the boundary treatment. The gradient table of the square is
  a function, an operand without axes for which \<^verbatim>\<open>np.einsum\<close> raises
  \<^verbatim>\<open>ValueError\<close>.
\<close>

definition DiffusionOperatorP1_SF_INTS :: "DiffusionOperator \<Rightarrow> real list \<Rightarrow> error + real list" where
  "DiffusionOperatorP1_SF_INTS op mu =
     (let g = grid op
      in case LagrangeShapeFunctionsGrads (reference_element g) of
           GradFun f \<Rightarrow> Inl ValueError
         | GradArray SF_GRAD \<Rightarrow>
            (let SF_GRADS = einsum_eij_pj (jacobian_inverse_transposed g) SF_GRAD;
                 SF_INTS =
                   (case diffusion_function op of
                      None \<Rightarrow> ravel3 (einsum_epi_eqi_e (length SF_GRAD) (dim g) SF_GRADS (volumes g))
                    | Some df \<Rightarrow>
                        if shape_range df = []
                        then ravel3 (einsum_epi_eqi_e_e (length SF_GRAD) (dim g) SF_GRADS (volumes g)
                                       (map (\<lambda>x. scalar_value df x mu) (centers g)))
                        else ravel3 (einsum_epi_eqj_e_eij (length SF_GRAD) (dim g) SF_GRADS (volumes g)
                                       (map (\<lambda>x. matrix_value df x mu) (centers g))))
             in Inr (case diffusion_constant op of
                       None \<Rightarrow> SF_INTS
                     | Some c \<Rightarrow> map (\<lambda>v. v * c) SF_INTS)))"

text \<open>
  The contributions and their global row and column indices in
  \<^verbatim>\<open>DiffusionOperatorP1._assemble\<close>, before the boundary treatment.
\<close>

definition DiffusionOperatorP1_contributions ::
  "DiffusionOperator \<Rightarrow> real list \<Rightarrow> error + real list \<times> nat list \<times> nat list" where
  "DiffusionOperatorP1_contributions op mu =
     (let g = grid op
      in case DiffusionOperatorP1_SF_INTS op mu of
           Inl err \<Rightarrow> Inl err
         | Inr SF_INTS \<Rightarrow>
            (let SF_I0 = repeat_ravel (subentities g) (dim g + 1);
                 SF_I1 = tile_ravel (subentities g) (dim g + 1)
             in Inr (SF_INTS, SF_I0, SF_I1)))"

text \<open>\<^verbatim>\<open>DiffusionOperatorP1._assemble\<close>\<close>

definition DiffusionOperatorP1_assemble :: "DiffusionOperator \<Rightarrow> real list \<Rightarrow> error + matrix" where
  "DiffusionOperatorP1_assemble op mu =
     (let g = grid op
      in case DiffusionOperatorP1_contributions op mu of
           Inl err \<Rightarrow> Inl err
         | Inr contributions \<Rightarrow>
            (case boundary_info op of
               None \<Rightarrow> Inl AttributeError
             | Some bi \<Rightarrow>
                 Inr (assemble_system_matrix g bi True (dirichlet_clear_columns op)
                        (dirichlet_clear_diag op) contributions)))"

text \<open>\<^verbatim>\<open>DiffusionOperatorQ1.__init__\<close>\<close>

definition DiffusionOperatorQ1_init ::
  "grid \<Rightarrow> boundary_info option \<Rightarrow> function_data option \<Rightarrow> real option \<Rightarrow> bool \<Rightarrow> bool
     \<Rightarrow> error + DiffusionOperator" where
  "DiffusionOperatorQ1_init g bi df dc cols diag =
     (if reference_element g \<notin> {square} then Inl AssertionError
      else if \<not> (case df of None \<Rightarrow> True
                  | Some f \<Rightarrow> (is_Function f \<and> dim_domain f = dim g \<and> shape_range f = [])
                             \<or> shape_range f = [dim g, dim g])
        then Inl AssertionError
      else Inr \<lparr>grid = g, boundary_info = bi, dirichlet_clear_columns = cols,
                dirichlet_clear_diag = diag, diffusion_function = df, diffusion_constant = dc\<rparr>)"

text \<open>
  \<^verbatim>\<open>SF_GRAD(q)\<close> for the gradient table \<open>f\<close> of the square: the array whose entry
  \<open>[p, j, c]\<close> is the component \<open>j\<close> of the gradient of the shape function \<open>p\<close> at the
  quadrature point \<open>c\<close>.
\<close>

definition gradients_at :: "(real list \<Rightarrow> real list list) \<Rightarrow> real list list \<Rightarrow> real list list list" where
  "gradients_at f q = map (\<lambda>p. map (\<lambda>j. map (\<lambda>x. f x ! p ! j) q) [0..<2]) [0..<4]"

text \<open>\<^verbatim>\<open>np.einsum('eij,pjc->epic', JIT, SF_GRAD)\<close> for \<open>C\<close> quadrature points\<close>

definition einsum_eij_pjc ::
  "real list list list \<Rightarrow> real list list list \<Rightarrow> nat \<Rightarrow> real list list list list" where
  "einsum_eij_pjc JIT SF_GRAD C =
     map (\<lambda>e. map (\<lambda>p. map (\<lambda>i. map (\<lambda>c. \<Sum>j\<leftarrow>[0..<length (SF_GRAD ! p)].
                                              JIT ! e ! i ! j * SF_GRAD ! p ! j ! c)
                                        [0..<C])
                              [0..<length (JIT ! e)])
                    [0..<length SF_GRAD])
         [0..<length JIT]"

text \<open>\<^verbatim>\<open>np.einsum('epic,eqic,c,e,e->epq', SF_GRADS, SF_GRADS, w, ie, D)\<close>\<close>

definition einsum_epic_eqic_c_e_e ::
  "nat \<Rightarrow> nat \<Rightarrow> real list list list list \<Rightarrow> real list \<Rightarrow> real list \<Rightarrow> real list
     \<Rightarrow> real list list list" where
  "einsum_epic_eqic_c_e_e P d SF_GRADS w ie D =
     tensor3 (length SF_GRADS) P P
       (\<lambda>e p q. \<Sum>i\<leftarrow>[0..<d]. \<Sum>c\<leftarrow>[0..<length w].
           SF_GRADS ! e ! p ! i ! c * SF_GRADS ! e ! q ! i ! c * w ! c * ie ! e * D ! e)"

text \<open>\<^verbatim>\<open>np.einsum('epic,eqjc,c,e,eij->epq', SF_GRADS, SF_GRADS, w, ie, D)\<close>\<close>

definition einsum_epic_eqjc_c_e_eij ::
  "nat \<Rightarrow> nat \<Rightarrow> real list list list list \<Rightarrow> real list \<Rightarrow> real list \<Rightarrow> real list list list
     \<Rightarrow> real list list list" where
  "einsum_epic_eqjc_c_e_eij P d SF_GRADS w ie D =
     tensor3 (length SF_GRADS) P P
       (\<lambda>e p q. \<Sum>i\<leftarrow>[0..<d]. \<Sum>j\<leftarrow>[0..<d]. \<Sum>c\<leftarrow>[0..<length w].
           SF_GRADS ! e ! p ! i ! c * SF_GRADS ! e ! q ! j ! c * w ! c * ie ! e * D ! e ! i ! j)"

text \<open>\<^verbatim>\<open>np.einsum('epic,eqic,c,e->epq', SF_GRADS, SF_GRADS, w, ie)\<close>\<close>

definition einsum_epic_eqic_c_e ::
  "nat \<Rightarrow> nat \<Rightarrow> real list list list list \<Rightarrow> real list \<Rightarrow> real list \<Rightarrow> real list list list" where
  "einsum_epic_eqic_c_e P d SF_GRADS w ie =
     tensor3 (length SF_GRADS) P P
       (\<lambda>e p q. \<Sum>i\<leftarrow>[0..<d]. \<Sum>c\<leftarrow>[0..<length w].
           SF_GRADS ! e ! p ! i ! c * SF_GRADS ! e ! q ! i ! c * w ! c * ie ! e)"

text \<open>
  The flat contributions \<^verbatim>\<open>SF_INTS\<close> of \<^verbatim>\<open>DiffusionOperatorQ1._assemble\<close>, scaled by
  the diffusion constant, before the boundary treatment. The gradient tables of the line and
  of the triangle are arrays, which cannot be called.
\<close>

definition DiffusionOperatorQ1_SF_INTS :: "DiffusionOperator \<Rightarrow> real list \<Rightarrow> error + real list" where
  "DiffusionOperatorQ1_SF_INTS op mu =
     (let g = grid op;
          (q, w) = quadrature g (reference_element g) 2
      in case LagrangeShapeFunctionsGrads (reference_element g) of
           GradArray G \<Rightarrow> Inl TypeError
         | GradFun f \<Rightarrow>
            (let SF_GRAD = gradients_at f q;
                 SF_GRADS = einsum_eij_pjc (jacobian_inverse_transposed g) SF_GRAD (length q);
                 SF_INTS =
                   (case diffusion_function op of
                      None \<Rightarrow> ravel3 (einsum_epic_eqic_c_e (length SF_GRAD) (dim g) SF_GRADS w
                                         (integration_elements g))
                    | Some df \<Rightarrow>
                        if shape_range df = []
                        then ravel3 (einsum_epic_eqic_c_e_e (length SF_GRAD) (dim g) SF_GRADS w
                                       (integration_elements g)
                                       (map (\<lambda>x. scalar_value df x mu) (centers g)))
                        else ravel3 (einsum_epic_eqjc_c_e_eij (length SF_GRAD) (dim g) SF_GRADS w
                                       (integration_elements g)
                                       (map (\<lambda>x. matrix_value df x mu) (centers g))))
             in Inr (case diffusion_constant op of
                       None \<Rightarrow> SF_INTS
                     | Some c \<Rightarrow> map (\<lambda>v. v * c) SF_INTS)))"

text \<open>
  The contributions and their global row and column indices in
  \<^verbatim>\<open>DiffusionOperatorQ1._assemble\<close>, before the boundary treatment.
\<close>

definition DiffusionOperatorQ1_contributions ::
  "DiffusionOperator \<Rightarrow> real list \<Rightarrow> error + real list \<times> nat list \<times> nat list" where
  "DiffusionOperatorQ1_contributions op mu =
     (let g = grid op
      in case DiffusionOperatorQ1_SF_INTS op mu of
           Inl err \<Rightarrow> Inl err
         | Inr SF_INTS \<Rightarrow>
            (let SF_I0 = repeat_ravel (subentities g) 4;
                 SF_I1 = tile_ravel (subentities g) 4
             in Inr (SF_INTS, SF_I0, SF_I1)))"

text \<open>\<^verbatim>\<open>DiffusionOperatorQ1._assemble\<close>\<close>

definition DiffusionOperatorQ1_assemble :: "DiffusionOperator \<Rightarrow> real list \<Rightarrow> error + matrix" where
  "DiffusionOperatorQ1_assemble op mu =
     (let g = grid op
      in case DiffusionOperatorQ1_contributions op mu of
           Inl err \<Rightarrow> Inl err
         | Inr contributions \<Rightarrow>
            (case boundary_info op of
               None \<Rightarrow> Inl AttributeError
             | Some bi \<Rightarrow>
                 Inr (assemble_system_matrix g bi True (dirichlet_clear_columns op)
                        (dirichlet_clear_diag op) contributions)))"

subsection \<open>The advection operators\<close>

record AdvectionOperator = dirichlet_operator +
  advection_function :: "function_data option"
  advection_constant :: "real option"

text \<open>\<^verbatim>\<open>ConstantFunction(np.ones((grid.dim,)), grid.dim)\<close>\<close>

definition constant_ones :: "grid \<Rightarrow> function_data" where
  "constant_ones g =
     \<lparr>is_Function = True, dim_domain = dim g, shape_range = [dim g],
      scalar_value = (\<lambda>x mu. 1), vector_value = (\<lambda>x mu. replicate (dim g) 1),
      matrix_value = (\<lambda>x mu. [])\<rparr>"

text \<open>
  \<^verbatim>\<open>AdvectionOperatorP1.__init__\<close>, which replaces a missing advection function by the
  constant one, and \<^verbatim>\<open>AdvectionOperatorQ1.__init__\<close>, which stores \<^verbatim>\<open>None\<close>.
\<close>

definition AdvectionOperatorP1_init ::
  "grid \<Rightarrow> boundary_info option \<Rightarrow> function_data option \<Rightarrow> real option \<Rightarrow> bool \<Rightarrow> bool
     \<Rightarrow> error + AdvectionOperator" where
  "AdvectionOperatorP1_init g bi af ac cols diag =
     (if reference_element g \<notin> {triangle, line} then Inl AssertionError
      else
       (let f = (case af of None \<Rightarrow> constant_ones g | Some f \<Rightarrow> f)
        in if \<not> is_Function f then Inl AssertionError
           else if dim_domain f \<noteq> dim g then Inl AssertionError
           else if shape_range f \<noteq> [dim g] then Inl AssertionError
           else Inr \<lparr>grid = g, boundary_info = bi, dirichlet_clear_columns = cols,
                     dirichlet_clear_diag = diag, advection_function = Some f,
                     advection_constant = ac\<rparr>))"

definition AdvectionOperatorQ1_init ::
  "grid \<Rightarrow> boundary_info option \<Rightarrow> function_data option \<Rightarrow> real option \<Rightarrow> bool \<Rightarrow> bool
     \<Rightarrow> error + AdvectionOperator" where
  "AdvectionOperatorQ1_init g bi af ac cols diag =
     (if reference_element g \<notin> {square} then Inl AssertionError
      else if \<not> (case af of None \<Rightarrow> True
                  | Some f \<Rightarrow> is_Function f \<and> dim_domain f = dim g \<and> shape_range f = [dim g])
        then Inl AssertionError
      else Inr \<lparr>grid = g, boundary_info = bi, dirichlet_clear_columns = cols,
                dirichlet_clear_diag = diag, advection_function = af, advection_constant = ac\<rparr>)"

text \<open>\<^verbatim>\<open>np.einsum('pc,eqi,c,e,ei->eqp', SFQ, SF_GRADS, w, ie, D)\<close>\<close>

definition einsum_pc_eqi_c_e_ei ::
  "nat \<Rightarrow> real list list \<Rightarrow> real list list list \<Rightarrow> real list \<Rightarrow> real list \<Rightarrow> real list list
     \<Rightarrow> real list list list" where
  "einsum_pc_eqi_c_e_ei d SFQ SF_GRADS w ie D =
     tensor3 (length SF_GRADS) (length SFQ) (length SFQ)
       (\<lambda>e q p. \<Sum>c\<leftarrow>[0..<length w]. \<Sum>i\<leftarrow>[0..<d].
           SFQ ! p ! c * SF_GRADS ! e ! q ! i * w ! c * ie ! e * D ! e ! i)"

text \<open>\<^verbatim>\<open>np.einsum('pc,eqic,c,e,ei->eqp', SFQ, SF_GRADS, w, ie, D)\<close>\<close>

definition einsum_pc_eqic_c_e_ei ::
  "nat \<Rightarrow> real list list \<Rightarrow> real list list list list \<Rightarrow> real list \<Rightarrow> real list \<Rightarrow> real list list
     \<Rightarrow> real list list list" where
  "einsum_pc_eqic_c_e_ei d SFQ SF_GRADS w ie D =
     tensor3 (length SF_GRADS) (length SFQ) (length SFQ)
       (\<lambda>e q p. \<Sum>c\<leftarrow>[0..<length w]. \<Sum>i\<leftarrow>[0..<d].
           SFQ ! p ! c * SF_GRADS ! e ! q ! i ! c * w ! c * ie ! e * D ! e ! i)"

text \<open>
  \<^verbatim>\<open>AdvectionOperatorP1._assemble\<close>. An advection function that is \<^verbatim>\<open>None\<close> cannot
  be called.
\<close>

definition AdvectionOperatorP1_assemble :: "AdvectionOperator \<Rightarrow> real list \<Rightarrow> error + matrix" where
  "AdvectionOperatorP1_assemble op mu =
     (let g = grid op;
          (q, w) = quadrature g (reference_element g) 1
      in case LagrangeShapeFunctionsGrads (reference_element g) of
           GradFun f \<Rightarrow> Inl ValueError
         | GradArray SF_GRAD \<Rightarrow>
            (let SF_GRADS = einsum_eij_pj (jacobian_inverse_transposed g) SF_GRAD;
                 SFQ = shape_functions_at (reference_element g) q
             in case advection_function op of
                  None \<Rightarrow> Inl TypeError
                | Some af \<Rightarrow>
                   (let D = map (\<lambda>x. vector_value af x mu) (centers g);
                        SF_INTS = map uminus (ravel3 (einsum_pc_eqi_c_e_ei (dim g) SFQ SF_GRADS w
                                                        (integration_elements g) D));
                        SF_INTS = (case advection_constant op of
                                     None \<Rightarrow> SF_INTS
                                   | Some c \<Rightarrow> map (\<lambda>v. v * c) SF_INTS);
                        SF_I0 = repeat_ravel (subentities g) (dim g + 1);
                        SF_I1 = tile_ravel (subentities g) (dim g + 1)
                    in case boundary_info op of
                         None \<Rightarrow> Inl AttributeError
                       | Some bi \<Rightarrow>
                           Inr (assemble_system_matrix g bi True (dirichlet_clear_columns op)
                                  (dirichlet_clear_diag op) (SF_INTS, SF_I0, SF_I1)))))"

text \<open>\<^verbatim>\<open>AdvectionOperatorQ1._assemble\<close>\<close>

definition AdvectionOperatorQ1_assemble :: "AdvectionOperator \<Rightarrow> real list \<Rightarrow> error + matrix" where
  "AdvectionOperatorQ1_assemble op mu =
     (let g = grid op;
          (q, w) = quadrature g (reference_element g) 2
      in case LagrangeShapeFunctionsGrads (reference_element g) of
           GradArray G \<Rightarrow> Inl TypeError
         | GradFun f \<Rightarrow>
            (let SF_GRAD = gradients_at f q;
                 SF_GRADS = einsum_eij_pjc (jacobian_inverse_transposed g) SF_GRAD (length q);
                 SFQ = shape_functions_at (reference_element g) q
             in case advection_function op of
                  None \<Rightarrow> Inl TypeError
                | Some af \<Rightarrow>
                   (let D = map (\<lambda>x. vector_value af x mu) (centers g);
                        SF_INTS = map uminus (ravel3 (einsum_pc_eqic_c_e_ei (dim g) SFQ SF_GRADS w
                                                        (integration_elements g) D));
                        SF_INTS = (case advection_constant op of
                                     None \<Rightarrow> SF_INTS
                                   | Some c \<Rightarrow> map (\<lambda>v. v * c) SF_INTS);
                        SF_I0 = repeat_ravel (subentities g) 4;
                        SF_I1 = tile_ravel (subentities g) 4
                    in case boundary_info op of
                         None \<Rightarrow> Inl AttributeError
                       | Some bi \<Rightarrow>
                           Inr (assemble_system_matrix g bi True (dirichlet_clear_columns op)
                                  (dirichlet_clear_diag op) (SF_INTS, SF_I0, SF_I1)))))"

text \<open>
  \<^verbatim>\<open>coo_matrix((data, (I0, I1)), shape=(m, n))\<close> with its failures: arrays of
  different lengths, and an index outside the shape.
\<close>

definition coo_matrix_checked ::
  "real list \<Rightarrow> nat list \<Rightarrow> nat list \<Rightarrow> nat \<Rightarrow> nat \<Rightarrow> error + matrix" where
  "coo_matrix_checked data I0 I1 m n =
     (if length data \<noteq> length I0 \<or> length I1 \<noteq> length I0
         \<or> (\<exists>i \<in> set I0. m \<le> i) \<or> (\<exists>j \<in> set I1. n \<le> j)
      then Inl ValueError
      else Inr (coo_matrix data I0 I1 m n))"

text \<open>\<^verbatim>\<open>a[idx]\<close>: the entries of an array at a list of indices.\<close>

definition take_rows :: "'a list \<Rightarrow> nat list \<Rightarrow> error + 'a list" where
  "take_rows a idx =
     (if \<forall>i \<in> set idx. i < length a then Inr (map (\<lambda>i. a ! i) idx) else Inl IndexError)"

subsection \<open>The Robin boundary operator\<close>

record RobinBoundaryOperator = operator_base +
  robin_data :: "(function_data \<times> function_data) option"

text \<open>\<^verbatim>\<open>RobinBoundaryOperator.__init__\<close>; the Robin data are a pair, or \<^verbatim>\<open>None\<close>.\<close>

definition RobinBoundaryOperator_init ::
  "grid \<Rightarrow> boundary_info option \<Rightarrow> (function_data \<times> function_data) option
     \<Rightarrow> error + RobinBoundaryOperator" where
  "RobinBoundaryOperator_init g bi rd =
     (if \<not> (case rd of None \<Rightarrow> True
              | Some (c, v) \<Rightarrow>
                  list_all (\<lambda>f. is_Function f \<and> dim_domain f = dim g
                                  \<and> (shape_range f = [] \<or> shape_range f = [dim g])) [c, v])
      then Inl AssertionError
      else Inr \<lparr>grid = g, boundary_info = bi, robin_data = rd\<rparr>)"

text \<open>\<^verbatim>\<open>np.einsum('e,pi,pj,e,p->eij', robin_c, SF, SF, ie, w)\<close>\<close>

definition einsum_e_pi_pj_e_p ::
  "real list \<Rightarrow> real list list \<Rightarrow> real list \<Rightarrow> real list \<Rightarrow> error + real list list list" where
  "einsum_e_pi_pj_e_p robin_c SF ie w =
     (if length ie = length robin_c \<and> length w = length SF
      then Inr (tensor3 (length robin_c) (length (hd SF)) (length (hd SF))
                  (\<lambda>e i j. \<Sum>p\<leftarrow>[0..<length SF]. robin_c ! e * SF ! p ! i * SF ! p ! j * ie ! e * w ! p))
      else Inl ValueError)"

text \<open>
  \<^verbatim>\<open>RobinBoundaryOperator._assemble\<close>. The zero matrix is the matrix without
  contributions. With a vector-valued Robin parameter the product with the normals has two
  axes, which the subscript \<^verbatim>\<open>e\<close> of the second \<^verbatim>\<open>np.einsum\<close> does not accept.
\<close>

definition RobinBoundaryOperator_assemble :: "RobinBoundaryOperator \<Rightarrow> real list \<Rightarrow> error + matrix" where
  "RobinBoundaryOperator_assemble op mu =
     (let g = grid op; n = size_of g (dim g)
      in if dim g > 2 then Inl NotImplementedError
         else
          (case boundary_info op of
             None \<Rightarrow> Inr (coo_matrix [] [] [] n n)
           | Some bi \<Rightarrow>
          (case robin_data op of
             None \<Rightarrow> Inr (coo_matrix [] [] [] n n)
           | Some (c, v) \<Rightarrow>
               if \<not> has_robin bi then Inr (coo_matrix [] [] [] n n)
               else
                (case take_rows (centers1 g) (robin_boundaries bi) of
                   Inl err \<Rightarrow> Inl err
                 | Inr xref \<Rightarrow>
                     if dim g = 1
                     then coo_matrix_checked (map (\<lambda>x. scalar_value c x mu) xref)
                            (robin_boundaries bi) (robin_boundaries bi) n n
                     else if shape_range c \<noteq> [] then Inl ValueError
                     else
                      (let robin_c = map (\<lambda>x. scalar_value c x mu) xref;
                           (q, w) = quadrature g line 2;
                           q0 = map (\<lambda>x. x ! 0) q;
                           SF = [map (\<lambda>x. 1 - x) q0, q0]
                       in (case take_rows (integration_elements1 g) (robin_boundaries bi) of
                             Inl err \<Rightarrow> Inl err
                           | Inr ie \<Rightarrow>
                          (case einsum_e_pi_pj_e_p robin_c SF ie w of
                             Inl err \<Rightarrow> Inl err
                           | Inr T \<Rightarrow>
                          (case take_rows (subentities1 g) (robin_boundaries bi) of
                             Inl err \<Rightarrow> Inl err
                           | Inr sub \<Rightarrow>
                               coo_matrix_checked (ravel3 T) (repeat_ravel sub 2)
                                 (tile_ravel sub 2) n n))))))))"

subsection \<open>The linear functionals\<close>

text \<open>The field \<open>func\<close> is the attribute \<^verbatim>\<open>function\<close>.\<close>

record L2ProductFunctional = operator_base +
  func :: function_data
  dirichlet_clear_dofs :: bool

text \<open>\<^verbatim>\<open>L2ProductFunctionalP1.__init__\<close> and \<^verbatim>\<open>L2ProductFunctionalQ1.__init__\<close>\<close>

definition L2ProductFunctionalP1_init ::
  "grid \<Rightarrow> function_data \<Rightarrow> bool \<Rightarrow> boundary_info option \<Rightarrow> error + L2ProductFunctional" where
  "L2ProductFunctionalP1_init g f clear bi =
     (if reference_element g \<notin> {line, triangle} then Inl AssertionError
      else if shape_range f \<noteq> [] then Inl AssertionError
      else if \<not> (\<not> clear \<or> bi \<noteq> None) then Inl AssertionError
      else Inr \<lparr>grid = g, boundary_info = bi, func = f, dirichlet_clear_dofs = clear\<rparr>)"

definition L2ProductFunctionalQ1_init ::
  "grid \<Rightarrow> function_data \<Rightarrow> bool \<Rightarrow> boundary_info option \<Rightarrow> error + L2ProductFunctional" where
  "L2ProductFunctionalQ1_init g f clear bi =
     (if reference_element g \<notin> {square} then Inl AssertionError
      else if shape_range f \<noteq> [] then Inl AssertionError
      else if \<not> (\<not> clear \<or> bi \<noteq> None) then Inl AssertionError
      else Inr \<lparr>grid = g, boundary_info = bi, func = f, dirichlet_clear_dofs = clear\<rparr>)"

subsection \<open>The nonlinear reaction operator\<close>

record NonlinearReactionOperator = operator_base +
  reaction_coefficient :: function_data
  reaction_function :: function_data
  reaction_function_derivative :: function_data

record element_NonlinearReactionOperator = NonlinearReactionOperator +
  rho :: "real list"

text \<open>
  \<^verbatim>\<open>NonlinearReactionOperator.__init__\<close> and
  \<^verbatim>\<open>element_NonlinearReactionOperator.__init__\<close> store their arguments and assert nothing.
\<close>

definition NonlinearReactionOperator_init ::
  "grid \<Rightarrow> boundary_info option \<Rightarrow> function_data \<Rightarrow> function_data \<Rightarrow> function_data
     \<Rightarrow> error + NonlinearReactionOperator" where
  "NonlinearReactionOperator_init g bi rc rf rfd =
     Inr \<lparr>grid = g, boundary_info = bi, reaction_coefficient = rc, reaction_function = rf,
          reaction_function_derivative = rfd\<rparr>"

definition element_NonlinearReactionOperator_init ::
  "grid \<Rightarrow> boundary_info option \<Rightarrow> function_data \<Rightarrow> function_data \<Rightarrow> function_data
     \<Rightarrow> real list \<Rightarrow> error + element_NonlinearReactionOperator" where
  "element_NonlinearReactionOperator_init g bi rc rf rfd r =
     Inr \<lparr>grid = g, boundary_info = bi, reaction_coefficient = rc, reaction_function = rf,
          reaction_function_derivative = rfd, rho = r\<rparr>"

text \<open>\<^verbatim>\<open>U[idx]\<close>: an index out of range raises.\<close>

definition take_indices :: "real list \<Rightarrow> nat list \<Rightarrow> error + real list" where
  "take_indices U idx =
     (if \<forall>i \<in> set idx. i < length U then Inr (map (\<lambda>i. U ! i) idx) else Inl IndexError)"

text \<open>
  \<^verbatim>\<open>np.dot(u_dofs, SF)\<close> for the array \<open>SF\<close> of the shape functions at the quadrature
  points, which has at least two rows: the lengths must agree.
\<close>

definition np_dot :: "real list \<Rightarrow> real list list \<Rightarrow> error + real list" where
  "np_dot u SF =
     (if length u \<noteq> length SF then Inl ValueError
      else Inr (map (\<lambda>c. \<Sum>i\<leftarrow>[0..<length SF]. u ! i * SF ! i ! c) [0..<length (hd SF)]))"

text \<open>\<^verbatim>\<open>np.reshape(wert, (3, 1))\<close>: three points with one coordinate each.\<close>

definition reshape_3_1 :: "real list \<Rightarrow> error + real list" where
  "reshape_3_1 wert = (if length wert = 3 then Inr wert else Inl ValueError)"

text \<open>
  The first three statements of the element loops: the state at the quadrature points of
  element \<open>e\<close>.
\<close>

definition wert_of :: "real list \<Rightarrow> real list list \<Rightarrow> nat list list \<Rightarrow> nat \<Rightarrow> error + real list" where
  "wert_of U SF sub e =
     (if length sub \<le> e then Inl IndexError
      else case take_indices U (sub ! e) of
             Inl err \<Rightarrow> Inl err
           | Inr u_dofs \<Rightarrow>
               (case np_dot u_dofs SF of
                  Inl err \<Rightarrow> Inl err
                | Inr wert \<Rightarrow> reshape_3_1 wert))"

text \<open>
  The element loop \<^verbatim>\<open>for e in ...: ...; c_nl[e] = f(wert, mu=mu)\<close> over the elements
  \<open>es\<close>; \<open>c\<close> is the array being filled. The function is evaluated at the three points,
  which have one coordinate each; the assignment of its three values to a row of another
  length raises.
\<close>

fun element_loop ::
  "function_data \<Rightarrow> real list \<Rightarrow> real list \<Rightarrow> real list list \<Rightarrow> nat list list
     \<Rightarrow> nat list \<Rightarrow> real list list \<Rightarrow> error + real list list" where
  "element_loop f mu U SF sub [] c = Inr c"
| "element_loop f mu U SF sub (e # es) c =
     (case wert_of U SF sub e of
        Inl err \<Rightarrow> Inl err
      | Inr wert \<Rightarrow>
         (case evaluate f 1 (map (\<lambda>x. [x]) wert) mu of
            Inl err \<Rightarrow> Inl err
          | Inr vals \<Rightarrow>
              if length c \<le> e then Inl IndexError
              else if length (c ! e) \<noteq> length vals then Inl ValueError
              else element_loop f mu U SF sub es (c[e := vals])))"

text \<open>\<^verbatim>\<open>np.zeros(np.shape(subentities))\<close>\<close>

definition zeros_like :: "nat list list \<Rightarrow> real list list" where
  "zeros_like sub = map (\<lambda>row. replicate (length row) 0) sub"

text \<open>
  \<^verbatim>\<open>np.einsum('ji,ei,e,e,i->ej', SF, c_nl, C, vol, w)\<close>; operands whose axes do not
  agree raise.
\<close>

definition einsum_ji_ei_e_e_i ::
  "real list list \<Rightarrow> real list list \<Rightarrow> real list \<Rightarrow> real list \<Rightarrow> real list \<Rightarrow> error + real list list" where
  "einsum_ji_ei_e_e_i SF c_nl C vol w =
     (if length C = length c_nl \<and> length vol = length c_nl
         \<and> (\<forall>row \<in> set c_nl. length row = length w) \<and> (\<forall>row \<in> set SF. length row = length w)
      then Inr (map (\<lambda>e. map (\<lambda>j. \<Sum>i\<leftarrow>[0..<length w]. SF ! j ! i * c_nl ! e ! i * C ! e * vol ! e * w ! i)
                             [0..<length SF])
                  [0..<length c_nl])
      else Inl ValueError)"

text \<open>\<^verbatim>\<open>np.einsum('pi,qi,ei,e,e,i->epq', SF, SF, c_nl_prime, C, vol, w)\<close>\<close>

definition einsum_pi_qi_ei_e_e_i ::
  "real list list \<Rightarrow> real list list \<Rightarrow> real list \<Rightarrow> real list \<Rightarrow> real list
     \<Rightarrow> error + real list list list" where
  "einsum_pi_qi_ei_e_e_i SF c_nl C vol w =
     (if length C = length c_nl \<and> length vol = length c_nl
         \<and> (\<forall>row \<in> set c_nl. length row = length w) \<and> (\<forall>row \<in> set SF. length row = length w)
      then Inr (tensor3 (length c_nl) (length SF) (length SF)
                  (\<lambda>e p q. \<Sum>i\<leftarrow>[0..<length w].
                      SF ! p ! i * SF ! q ! i * c_nl ! e ! i * C ! e * vol ! e * w ! i))
      else Inl ValueError)"

text \<open>
  \<^verbatim>\<open>coo_matrix((data, (idx, zeros)), shape=(n, 1)).toarray().ravel()\<close>: the vector of
  length \<open>n\<close> whose entry \<open>d\<close> is the sum of the data with index \<open>d\<close>. Arrays of different
  lengths and an index outside the shape raise.
\<close>

definition coo_vector :: "real list \<Rightarrow> nat list \<Rightarrow> nat \<Rightarrow> error + real list" where
  "coo_vector data idx n =
     (if length data \<noteq> length idx \<or> (\<exists>i \<in> set idx. n \<le> i) then Inl ValueError
      else Inr (map (\<lambda>d. \<Sum>t\<leftarrow>zip data idx. if snd t = d then fst t else 0) [0..<n]))"

text \<open>\<^verbatim>\<open>A[DI] = 0\<close> for an array \<open>A\<close>\<close>

definition set_zero :: "real list \<Rightarrow> nat list \<Rightarrow> error + real list" where
  "set_zero A DI =
     (if \<forall>d \<in> set DI. d < length A
      then Inr (map (\<lambda>i. if i \<in> set DI then 0 else A ! i) [0..<length A])
      else Inl IndexError)"

text \<open>
  \<^verbatim>\<open>NonlinearReactionOperator.apply\<close> with the default
  \<^verbatim>\<open>element_contribution=False\<close>.
\<close>

definition NonlinearReactionOperator_apply ::
  "NonlinearReactionOperator \<Rightarrow> real list \<Rightarrow> real list \<Rightarrow> error + real list" where
  "NonlinearReactionOperator_apply op U mu =
     (let g = grid op;
          (q, w) = quadrature g (reference_element g) 2;
          SF = shape_functions_at (reference_element g) q;
          sub = subentities g
      in case evaluate (reaction_coefficient op) (dim g) (centers g) mu of
           Inl err \<Rightarrow> Inl err
         | Inr C \<Rightarrow>
        (case element_loop (reaction_function op) mu U SF sub
                [0..<size_of g 0] (zeros_like sub) of
           Inl err \<Rightarrow> Inl err
         | Inr c_nl \<Rightarrow>
        (case einsum_ji_ei_e_e_i SF c_nl C (volumes g) w of
           Inl err \<Rightarrow> Inl err
         | Inr SF_INTS \<Rightarrow>
        (case coo_vector (concat SF_INTS) (concat sub) (size_of g (dim g)) of
           Inl err \<Rightarrow> Inl err
         | Inr A \<Rightarrow>
        (case boundary_info op of
           None \<Rightarrow> Inl AttributeError
         | Some bi \<Rightarrow>
             if has_dirichlet bi then set_zero A (dirichlet_boundaries bi) else Inr A)))))"

text \<open>
  \<^verbatim>\<open>np.where(mask[I], 0, data)\<close> with its failures: an index outside the mask, and
  arrays of different lengths.
\<close>

definition where_dirichlet :: "bool list \<Rightarrow> nat list \<Rightarrow> real list \<Rightarrow> error + real list" where
  "where_dirichlet msk I data =
     (if \<exists>i \<in> set I. length msk \<le> i then Inl IndexError
      else if length I \<noteq> length data then Inl ValueError
      else Inr (dirichlet_clear msk I data))"

text \<open>
  \<^verbatim>\<open>NonlinearReactionOperator.jacobian\<close> with the default
  \<^verbatim>\<open>element_contribution=False\<close>.
\<close>

definition NonlinearReactionOperator_jacobian ::
  "NonlinearReactionOperator \<Rightarrow> real list \<Rightarrow> real list \<Rightarrow> error + matrix" where
  "NonlinearReactionOperator_jacobian op U mu =
     (let g = grid op;
          (q, w) = quadrature g (reference_element g) 2;
          SF = shape_functions_at (reference_element g) q;
          sub = subentities g;
          SF_I0 = repeat_ravel sub (dim g + 1);
          SF_I1 = tile_ravel sub (dim g + 1)
      in case evaluate (reaction_coefficient op) (dim g) (centers g) mu of
           Inl err \<Rightarrow> Inl err
         | Inr C \<Rightarrow>
        (case element_loop (reaction_function_derivative op) mu U SF sub
                [0..<size_of g 0] (zeros_like sub) of
           Inl err \<Rightarrow> Inl err
         | Inr c_nl_prime \<Rightarrow>
        (case einsum_pi_qi_ei_e_e_i SF c_nl_prime C (volumes g) w of
           Inl err \<Rightarrow> Inl err
         | Inr T \<Rightarrow>
        (case boundary_info op of
           None \<Rightarrow> Inl AttributeError
         | Some bi \<Rightarrow>
        (case (if has_dirichlet bi then where_dirichlet (dirichlet_mask bi) SF_I0 (ravel3 T)
               else Inr (ravel3 T)) of
           Inl err \<Rightarrow> Inl err
         | Inr SF_INTS \<Rightarrow>
             coo_matrix_checked SF_INTS SF_I0 SF_I1 (size_of g (dim g)) (size_of g (dim g)))))))"

text \<open>\<^verbatim>\<open>np.where(self.rho != 0)[0]\<close>\<close>

definition NonZeroIndices :: "real list \<Rightarrow> nat list" where
  "NonZeroIndices r = filter (\<lambda>e. r ! e \<noteq> 0) [0..<length r]"

text \<open>
  The loop \<^verbatim>\<open>for e in NonZeroIndices: A_e = A_e + self.rho[e] * coo_matrix(...).toarray()\<close>
  of \<^verbatim>\<open>element_NonlinearReactionOperator.apply\<close>. \<open>A_e\<close> is \<open>None\<close> as long as it is
  the empty sparse matrix it starts as, and an array after the first addition. The slices
  \<^verbatim>\<open>[3 * e:3 * (e + 1)]\<close> go with the three column indices \<^verbatim>\<open>[0, 0, 0]\<close>.
\<close>

fun accumulate_vectors ::
  "real list \<Rightarrow> real list \<Rightarrow> nat list \<Rightarrow> nat \<Rightarrow> nat list \<Rightarrow> real list option
     \<Rightarrow> error + real list option" where
  "accumulate_vectors r SF_INTS SF_I n [] A_e = Inr A_e"
| "accumulate_vectors r SF_INTS SF_I n (e # es) A_e =
     (if length (take 3 (drop (3 * e) SF_I)) \<noteq> 3 then Inl ValueError
      else case coo_vector (take 3 (drop (3 * e) SF_INTS)) (take 3 (drop (3 * e) SF_I)) n of
             Inl err \<Rightarrow> Inl err
           | Inr v \<Rightarrow>
               accumulate_vectors r SF_INTS SF_I n es
                 (Some (case A_e of
                          None \<Rightarrow> map (\<lambda>x. r ! e * x) v
                        | Some a \<Rightarrow> map2 (+) a (map (\<lambda>x. r ! e * x) v))))"

text \<open>
  \<^verbatim>\<open>element_NonlinearReactionOperator.apply\<close>. The Dirichlet DOFs are asked for and the
  assignment \<^verbatim>\<open>A_e[DI] = 0\<close> is made whether or not there is a Dirichlet boundary; a
  sparse matrix in coordinate format supports no item assignment.
\<close>

definition element_NonlinearReactionOperator_apply ::
  "element_NonlinearReactionOperator \<Rightarrow> real list \<Rightarrow> real list \<Rightarrow> error + real list" where
  "element_NonlinearReactionOperator_apply op U mu =
     (let g = grid op;
          (q, w) = quadrature g (reference_element g) 2;
          SF = shape_functions_at (reference_element g) q;
          sub = subentities g
      in case evaluate (reaction_coefficient op) (dim g) (centers g) mu of
           Inl err \<Rightarrow> Inl err
         | Inr C \<Rightarrow>
        (case element_loop (reaction_function op) mu U SF sub
                (NonZeroIndices (rho op)) (zeros_like sub) of
           Inl err \<Rightarrow> Inl err
         | Inr c_nl \<Rightarrow>
        (case einsum_ji_ei_e_e_i SF c_nl C (volumes g) w of
           Inl err \<Rightarrow> Inl err
         | Inr SF_INTS \<Rightarrow>
        (case accumulate_vectors (rho op) (concat SF_INTS) (concat sub) (size_of g (dim g))
                (NonZeroIndices (rho op)) None of
           Inl err \<Rightarrow> Inl err
         | Inr A_e \<Rightarrow>
        (case boundary_info op of
           None \<Rightarrow> Inl AttributeError
         | Some bi \<Rightarrow>
        (case call_dirichlet_boundaries bi of
           Inl err \<Rightarrow> Inl err
         | Inr DI \<Rightarrow>
            (case A_e of
               None \<Rightarrow> Inl TypeError
             | Some a \<Rightarrow> set_zero a DI)))))))"

text \<open>
  The loop \<^verbatim>\<open>for e in NonZeroIndices: A_e_op = A_e_op + self.rho[e] * coo_matrix(...)\<close>
  of \<^verbatim>\<open>element_NonlinearReactionOperator.jacobian\<close>, on sparse matrices throughout.
\<close>

fun accumulate_matrices ::
  "real list \<Rightarrow> real list \<Rightarrow> nat list \<Rightarrow> nat list \<Rightarrow> nat \<Rightarrow> nat list \<Rightarrow> matrix \<Rightarrow> error + matrix" where
  "accumulate_matrices r SF_INTS SF_I0 SF_I1 n [] A = Inr A"
| "accumulate_matrices r SF_INTS SF_I0 SF_I1 n (e # es) A =
     (case coo_matrix_checked (take 9 (drop (9 * e) SF_INTS)) (take 9 (drop (9 * e) SF_I0))
              (take 9 (drop (9 * e) SF_I1)) n n of
        Inl err \<Rightarrow> Inl err
      | Inr B \<Rightarrow>
          accumulate_matrices r SF_INTS SF_I0 SF_I1 n es
            (map2 (map2 (+)) A (map (map (\<lambda>x. r ! e * x)) B)))"

text \<open>
  \<^verbatim>\<open>element_NonlinearReactionOperator.jacobian\<close>. After the loop the Dirichlet DOFs are
  asked for, whether or not there is a Dirichlet boundary, and not used.
\<close>

definition element_NonlinearReactionOperator_jacobian ::
  "element_NonlinearReactionOperator \<Rightarrow> real list \<Rightarrow> real list \<Rightarrow> error + matrix" where
  "element_NonlinearReactionOperator_jacobian op U mu =
     (let g = grid op;
          (q, w) = quadrature g (reference_element g) 2;
          SF = shape_functions_at (reference_element g) q;
          sub = subentities g;
          SF_I0 = repeat_ravel sub (dim g + 1);
          SF_I1 = tile_ravel sub (dim g + 1);
          n = size_of g (dim g)
      in case evaluate (reaction_coefficient op) (dim g) (centers g) mu of
           Inl err \<Rightarrow> Inl err
         | Inr C \<Rightarrow>
        (case element_loop (reaction_function_derivative op) mu U SF sub
                [0..<size_of g 0] (zeros_like sub) of
           Inl err \<Rightarrow> Inl err
         | Inr c_nl_prime \<Rightarrow>
        (case einsum_pi_qi_ei_e_e_i SF c_nl_prime C (volumes g) w of
           Inl err \<Rightarrow> Inl err
         | Inr T \<Rightarrow>
        (case boundary_info op of
           None \<Rightarrow> Inl AttributeError
         | Some bi \<Rightarrow>
        (case (if has_dirichlet bi then where_dirichlet (dirichlet_mask bi) SF_I0 (ravel3 T)
               else Inr (ravel3 T)) of
           Inl err \<Rightarrow> Inl err
         | Inr SF_INTS \<Rightarrow>
        (case accumulate_matrices (rho op) SF_INTS SF_I0 SF_I1 n (NonZeroIndices (rho op))
                (replicate n (replicate n 0)) of
           Inl err \<Rightarrow> Inl err
         | Inr A_e_op \<Rightarrow>
        (case call_dirichlet_boundaries bi of
           Inl err \<Rightarrow> Inl err
         | Inr DI \<Rightarrow> Inr A_e_op)))))))"

subsection \<open>The quadratic functional\<close>

record quadratic_functional = grid_operator +
  u_d :: "real list"
  mu_d :: "real list"

record element_quadratic_functional = quadratic_functional +
  rho :: "real list"



text \<open>
  The difference \<^verbatim>\<open>a - b\<close> of two arrays of rank one: entry by entry when the lengths
  agree; an array of length one is broadcast to the length of the other; other lengths
  raise.
\<close>

definition np_sub :: "real list \<Rightarrow> real list \<Rightarrow> error + real list" where
  "np_sub a b =
     (if length a = length b then Inr (map2 (-) a b)
      else if length b = 1 then Inr (map (\<lambda>x. x - b ! 0) a)
      else if length a = 1 then Inr (map (\<lambda>y. a ! 0 - y) b)
      else Inl ValueError)"

text \<open>\<^verbatim>\<open>np.linalg.norm(v)\<close>\<close>

definition norm2 :: "real list \<Rightarrow> real" where
  "norm2 v = sqrt (\<Sum>x\<leftarrow>v. x * x)"

text \<open>
  \<^verbatim>\<open>ExpressionFunction('u[0] * u[0]', dim_domain = 1, variable = 'u')\<close> and
  \<^verbatim>\<open>ExpressionFunction('2 * u[0]', dim_domain = 1, variable = 'u')\<close>, functions of a point
  \<open>u\<close> with one coordinate.
\<close>

definition quadatric_function :: function_data where
  "quadatric_function =
     \<lparr>is_Function = True, dim_domain = 1, shape_range = [],
      scalar_value = (\<lambda>u mu. u ! 0 * u ! 0), vector_value = (\<lambda>u mu. []),
      matrix_value = (\<lambda>u mu. [])\<rparr>"

definition quadatric_function_derivative :: function_data where
  "quadatric_function_derivative =
     \<lparr>is_Function = True, dim_domain = 1, shape_range = [],
      scalar_value = (\<lambda>u mu. 2 * u ! 0), vector_value = (\<lambda>u mu. []),
      matrix_value = (\<lambda>u mu. [])\<rparr>"

text \<open>\<^verbatim>\<open>np.einsum('ei,e,i->e', F, vol, w)\<close>\<close>

definition einsum_ei_e_i :: "real list list \<Rightarrow> real list \<Rightarrow> real list \<Rightarrow> error + real list" where
  "einsum_ei_e_i F vol w =
     (if length vol = length F \<and> (\<forall>row \<in> set F. length row = length w)
      then Inr (map (\<lambda>e. \<Sum>i\<leftarrow>[0..<length w]. F ! e ! i * vol ! e * w ! i) [0..<length F])
      else Inl ValueError)"

text \<open>\<^verbatim>\<open>np.einsum('ji,ei,e,i->ej', SF, F, vol, w)\<close>\<close>

definition einsum_ji_ei_e_i ::
  "real list list \<Rightarrow> real list list \<Rightarrow> real list \<Rightarrow> real list \<Rightarrow> error + real list list" where
  "einsum_ji_ei_e_i SF F vol w =
     (if length vol = length F
         \<and> (\<forall>row \<in> set F. length row = length w) \<and> (\<forall>row \<in> set SF. length row = length w)
      then Inr (map (\<lambda>e. map (\<lambda>j. \<Sum>i\<leftarrow>[0..<length w]. SF ! j ! i * F ! e ! i * vol ! e * w ! i)
                             [0..<length SF])
                  [0..<length F])
      else Inl ValueError)"

text \<open>
  \<^verbatim>\<open>quadratic_functional.apply\<close> with the default \<^verbatim>\<open>element_contribution=False\<close>.
\<close>

definition quadratic_functional_apply ::
  "quadratic_functional \<Rightarrow> real list \<Rightarrow> real list \<Rightarrow> error + real" where
  "quadratic_functional_apply op U mu =
     (let g = grid op;
          (q, w) = quadrature g (reference_element g) 2;
          SF = shape_functions_at (reference_element g) q;
          sub = subentities g
      in case np_sub U (u_d op) of
           Inl err \<Rightarrow> Inl err
         | Inr dofs \<Rightarrow>
        (case element_loop quadatric_function [] dofs SF sub [0..<size_of g 0] (zeros_like sub) of
           Inl err \<Rightarrow> Inl err
         | Inr F \<Rightarrow>
        (case einsum_ei_e_i F (volumes g) w of
           Inl err \<Rightarrow> Inl err
         | Inr SF_INTS \<Rightarrow>
        (case np_sub mu (mu_d op) of
           Inl err \<Rightarrow> Inl err
         | Inr diff \<Rightarrow> Inr (0.5 * sum_list SF_INTS + 0.5 * (norm2 diff)\<^sup>2)))))"

text \<open>
  \<^verbatim>\<open>quadratic_functional.jacobian\<close> with the default \<^verbatim>\<open>element_contribution=False\<close>;
  the result is the array wrapped by the returned operator.
\<close>

definition quadratic_functional_jacobian ::
  "quadratic_functional \<Rightarrow> real list \<Rightarrow> real list \<Rightarrow> error + real list" where
  "quadratic_functional_jacobian op U mu =
     (let g = grid op;
          (q, w) = quadrature g (reference_element g) 2;
          SF = shape_functions_at (reference_element g) q;
          sub = subentities g
      in case np_sub U (u_d op) of
           Inl err \<Rightarrow> Inl err
         | Inr dofs \<Rightarrow>
        (case element_loop quadatric_function_derivative [] dofs SF sub [0..<size_of g 0]
                (zeros_like sub) of
           Inl err \<Rightarrow> Inl err
         | Inr F \<Rightarrow>
        (case einsum_ji_ei_e_i SF F (volumes g) w of
           Inl err \<Rightarrow> Inl err
         | Inr SF_INTS \<Rightarrow> coo_vector (concat SF_INTS) (concat sub) (size_of g (dim g)))))"

text \<open>\<^verbatim>\<open>element_quadratic_functional.apply\<close>\<close>

definition element_quadratic_functional_apply ::
  "element_quadratic_functional \<Rightarrow> real list \<Rightarrow> real list \<Rightarrow> error + real" where
  "element_quadratic_functional_apply op U mu =
     (let g = grid op;
          NZ = NonZeroIndices (element_quadratic_functional.rho op);
          (q, w) = quadrature g (reference_element g) 2;
          SF = shape_functions_at (reference_element g) q
      in case take_rows (subentities g) NZ of
           Inl err \<Rightarrow> Inl err
         | Inr sub \<Rightarrow>
        (case np_sub U (u_d op) of
           Inl err \<Rightarrow> Inl err
         | Inr dofs \<Rightarrow>
        (case element_loop quadatric_function [] dofs SF sub [0..<length NZ] (zeros_like sub) of
           Inl err \<Rightarrow> Inl err
         | Inr F \<Rightarrow>
        (case take_rows (volumes g) NZ of
           Inl err \<Rightarrow> Inl err
         | Inr element_contribution_grid \<Rightarrow>
        (case einsum_ei_e_i F element_contribution_grid w of
           Inl err \<Rightarrow> Inl err
         | Inr SF_INTS \<Rightarrow>
        (case np_sub mu (mu_d op) of
           Inl err \<Rightarrow> Inl err
         | Inr diff \<Rightarrow>
            (let volume_grid = sum_list (volumes g);
                 norm_parameter = (norm2 diff)\<^sup>2
             in Inr (\<Sum>k\<leftarrow>[0..<length NZ].
                       element_quadratic_functional.rho op ! (NZ ! k)
                       * (0.5 * SF_INTS ! k
                          + 0.5 * element_contribution_grid ! k / volume_grid * norm_parameter)))))))))"

text \<open>
  The loop of \<^verbatim>\<open>element_quadratic_functional.jacobian\<close>, on sparse matrices with one
  column: the sum starts as the empty matrix with \<^verbatim>\<open>self.grid.size(2)\<close> rows, and the
  summands have \<^verbatim>\<open>self.grid.size(self.grid.dim)\<close> rows.
\<close>

fun accumulate_columns ::
  "real list \<Rightarrow> real list \<Rightarrow> nat list \<Rightarrow> nat \<Rightarrow> nat list \<Rightarrow> nat list \<Rightarrow> real list \<Rightarrow> error + real list" where
  "accumulate_columns r SF_INTS SF_I n NZ [] A_e = Inr A_e"
| "accumulate_columns r SF_INTS SF_I n NZ (e # es) A_e =
     (if length (take 3 (drop (3 * e) SF_I)) \<noteq> 3 then Inl ValueError
      else case coo_vector (take 3 (drop (3 * e) SF_INTS)) (take 3 (drop (3 * e) SF_I)) n of
             Inl err \<Rightarrow> Inl err
           | Inr v \<Rightarrow>
               if length A_e \<noteq> n then Inl ValueError
               else accumulate_columns r SF_INTS SF_I n NZ es
                      (map2 (+) A_e (map (\<lambda>x. r ! (NZ ! e) * x) v)))"

text \<open>\<^verbatim>\<open>element_quadratic_functional.jacobian\<close>\<close>

definition element_quadratic_functional_jacobian ::
  "element_quadratic_functional \<Rightarrow> real list \<Rightarrow> real list \<Rightarrow> error + real list" where
  "element_quadratic_functional_jacobian op U mu =
     (let g = grid op;
          NZ = NonZeroIndices (element_quadratic_functional.rho op);
          (q, w) = quadrature g (reference_element g) 2;
          SF = shape_functions_at (reference_element g) q
      in case take_rows (subentities g) NZ of
           Inl err \<Rightarrow> Inl err
         | Inr sub \<Rightarrow>
        (case np_sub U (u_d op) of
           Inl err \<Rightarrow> Inl err
         | Inr dofs \<Rightarrow>
        (case element_loop quadatric_function_derivative [] dofs SF sub [0..<length NZ]
                (zeros_like sub) of
           Inl err \<Rightarrow> Inl err
         | Inr F \<Rightarrow>
        (case take_rows (volumes g) NZ of
           Inl err \<Rightarrow> Inl err
         | Inr element_contribution_grid \<Rightarrow>
        (case einsum_ji_ei_e_i SF F element_contribution_grid w of
           Inl err \<Rightarrow> Inl err
         | Inr SF_INTS \<Rightarrow>
             accumulate_columns (element_quadratic_functional.rho op) (concat SF_INTS) (concat sub)
               (size_of g (dim g)) NZ [0..<length NZ] (replicate (size_of g 2) 0))))))"

text \<open>The diffusion function is scalar-valued, or absent.\<close>

definition scalar_diffusion :: "DiffusionOperator \<Rightarrow> bool" where
  "scalar_diffusion op =
     (case diffusion_function op of None \<Rightarrow> True | Some df \<Rightarrow> shape_range df = [])"

subsection \<open>Well-formed inputs and properties of matrices\<close>

text \<open>
  The number of shape functions of a reference element.
\<close>

definition n_local :: "reference_element \<Rightarrow> nat" where
  "n_local r = length (LagrangeShapeFunctions r)"

text \<open>
  The boundary information of a grid: the Dirichlet mask has one entry for each DOF, and
  the Dirichlet DOFs are the indices at which the mask holds, in increasing order.
\<close>

definition boundary_info_ok :: "grid \<Rightarrow> boundary_info \<Rightarrow> bool" where
  "boundary_info_ok g bi \<longleftrightarrow>
     length (dirichlet_mask bi) = size_of g (dim g)
     \<and> dirichlet_boundaries bi = filter (\<lambda>i. dirichlet_mask bi ! i) [0..<size_of g (dim g)]"

text \<open>
  The shapes of the arrays of a grid: one row of \<open>n_local\<close> DOFs, one centre, one volume,
  one integration element and one \<open>dim \<times> dim\<close> matrix for each element, every DOF index
  below \<open>size_of g (dim g)\<close>.
\<close>

definition grid_ok :: "grid \<Rightarrow> bool" where
  "grid_ok g \<longleftrightarrow>
     dim g = ref_dim (reference_element g)
     \<and> length (subentities g) = size_of g 0
     \<and> (\<forall>row \<in> set (subentities g).
           length row = n_local (reference_element g) \<and> (\<forall>d \<in> set row. d < size_of g (dim g)))
     \<and> length (centers g) = size_of g 0
     \<and> length (volumes g) = size_of g 0
     \<and> length (integration_elements g) = size_of g 0
     \<and> length (jacobian_inverse_transposed g) = size_of g 0
     \<and> (\<forall>J \<in> set (jacobian_inverse_transposed g). length J = dim g \<and> (\<forall>r \<in> set J. length r = dim g))"

text \<open>
  The order-2 quadrature rule of the reference element of the grid has as many weights as
  points.
\<close>

definition quadrature_shape :: "grid \<Rightarrow> bool" where
  "quadrature_shape g \<longleftrightarrow>
     (case quadrature g (reference_element g) 2 of (q, w) \<Rightarrow> length q = length w)"

text \<open>An operation returns a result: it does not raise.\<close>

definition returns :: "error + 'a \<Rightarrow> bool" where
  "returns r = (case r of Inl err \<Rightarrow> False | Inr y \<Rightarrow> True)"

text \<open>
  The condition of the early return of \<^verbatim>\<open>RobinBoundaryOperator._assemble\<close>:
  \<^verbatim>\<open>bi is None or not bi.has_robin or self.robin_data is None\<close>.
\<close>

definition no_robin :: "RobinBoundaryOperator \<Rightarrow> bool" where
  "no_robin op =
     (case boundary_info op of
        None \<Rightarrow> True
      | Some bi \<Rightarrow> \<not> has_robin bi \<or> robin_data op = None)"


text \<open>Symmetric, positive semi-definite, with a positive diagonal.\<close>

definition symmetric :: "matrix \<Rightarrow> nat \<Rightarrow> bool" where
  "symmetric A n \<longleftrightarrow> (\<forall>i<n. \<forall>j<n. A ! i ! j = A ! j ! i)"

definition quadratic_form :: "matrix \<Rightarrow> nat \<Rightarrow> real list \<Rightarrow> real" where
  "quadratic_form A n x = (\<Sum>i\<leftarrow>[0..<n]. \<Sum>j\<leftarrow>[0..<n]. x ! i * A ! i ! j * x ! j)"

definition positive_semidefinite :: "matrix \<Rightarrow> nat \<Rightarrow> bool" where
  "positive_semidefinite A n \<longleftrightarrow> (\<forall>x. length x = n \<longrightarrow> 0 \<le> quadratic_form A n x)"

definition positive_diagonal :: "matrix \<Rightarrow> nat \<Rightarrow> bool" where
  "positive_diagonal A n \<longleftrightarrow> (\<forall>i<n. 0 < A ! i ! i)"

definition symmetric_positive :: "matrix \<Rightarrow> nat \<Rightarrow> bool" where
  "symmetric_positive A n \<longleftrightarrow>
     symmetric A n \<and> positive_semidefinite A n \<and> positive_diagonal A n"

text \<open>
  A quadrature rule for the mass matrix: as many weights as points, no negative weight, and
  for every shape function a point with a positive weight at which it does not vanish.
\<close>

definition quadrature_ok :: "reference_element \<Rightarrow> real list list \<times> real list \<Rightarrow> bool" where
  "quadrature_ok r qw \<longleftrightarrow>
     (case qw of
        (q, w) \<Rightarrow> length q = length w \<and> (\<forall>x \<in> set w. 0 \<le> x)
          \<and> (\<forall>f \<in> set (LagrangeShapeFunctions r). \<exists>k<length w. 0 < w ! k \<and> f (q ! k) \<noteq> 0))"

text \<open>
  Positive integration elements, the DOFs of an element distinct, and every DOF in some
  element.
\<close>

definition grid_positive :: "grid \<Rightarrow> bool" where
  "grid_positive g \<longleftrightarrow>
     (\<forall>v \<in> set (integration_elements g). 0 < v)
     \<and> (\<forall>row \<in> set (subentities g). distinct row)
     \<and> (\<forall>d<size_of g (dim g). \<exists>row \<in> set (subentities g). d \<in> set row)"

text \<open>
  The Dirichlet treatment of a mass matrix that keeps it symmetric with a positive
  diagonal: none, or rows and columns cleared and the diagonal set to one.
\<close>

definition symmetric_treatment :: "L2Product \<Rightarrow> boundary_info \<Rightarrow> bool" where
  "symmetric_treatment op bi \<longleftrightarrow>
     \<not> has_dirichlet bi
     \<or> (\<not> dirichlet_clear_rows op \<and> \<not> dirichlet_clear_columns op)
     \<or> (dirichlet_clear_rows op \<and> dirichlet_clear_columns op \<and> \<not> dirichlet_clear_diag op)"

text \<open>No coefficient function, or one with positive values at the centres.\<close>

definition positive_coefficient :: "L2Product \<Rightarrow> real list \<Rightarrow> bool" where
  "positive_coefficient op mu =
     (case coefficient_function op of
        None \<Rightarrow> True
      | Some cf \<Rightarrow> \<forall>x \<in> set (centers (grid op)). 0 < scalar_value cf x mu)"

definition row_sum :: "matrix \<Rightarrow> nat \<Rightarrow> real" where
  "row_sum A i = sum_list (A ! i)"

definition zero_row_sums :: "matrix \<Rightarrow> nat \<Rightarrow> bool" where
  "zero_row_sums A n \<longleftrightarrow> (\<forall>i<n. row_sum A i = 0)"

definition unit_dirichlet :: "matrix \<Rightarrow> nat \<Rightarrow> nat list \<Rightarrow> bool \<Rightarrow> bool \<Rightarrow> bool" where
  "unit_dirichlet A n DI rows cols \<longleftrightarrow>
     (\<forall>d \<in> set DI. A ! d ! d = 1
        \<and> (rows \<longrightarrow> (\<forall>j<n. j \<noteq> d \<longrightarrow> A ! d ! j = 0))
        \<and> (cols \<longrightarrow> (\<forall>i<n. i \<noteq> d \<longrightarrow> A ! i ! d = 0)))"

subsection \<open>A concrete grid\<close>

text \<open>
  The rectangle with the vertices 0: (0,0), 1: (3,0), 2: (3,4), 3: (0,4), cut into the
  triangles (0,1,2) and (0,2,3), with the edges (0,1), (1,2), (0,2), (2,3), (0,3). The
  quadrature rules of the triangle are the centre rule
  (order 1) and the edge-centre rule with three points (order 2); the rules of the line
  and of the square have one point (order 1), two and four points (order 2).
\<close>

definition example_quadrature :: "reference_element \<Rightarrow> nat \<Rightarrow> real list list \<times> real list" where
  "example_quadrature r order =
     (case r of
        triangle \<Rightarrow> if order \<le> 1 then ([[1/3, 1/3]], [1/2])
                    else ([[1/2, 1/2], [0, 1/2], [1/2, 0]], [1/6, 1/6, 1/6])
      | line \<Rightarrow> if order \<le> 1 then ([[1/2]], [1])
                else ([[1/4], [3/4]], [1/2, 1/2])
      | square \<Rightarrow> if order \<le> 1 then ([[1/2, 1/2]], [1])
                  else ([[1/4, 1/4], [1/4, 3/4], [3/4, 1/4], [3/4, 3/4]], [1/4, 1/4, 1/4, 1/4]))"

definition example_grid :: grid where
  "example_grid =
     \<lparr>dim = 2, reference_element = triangle,
      size_of = (\<lambda>c. if c = 0 then 2 else if c = 1 then 5 else 4),
      subentities = [[0, 1, 2], [0, 2, 3]],
      centers = [[2, 4/3], [1, 8/3]],
      volumes = [6, 6],
      integration_elements = [12, 12],
      jacobian_inverse_transposed = [[[1/3, 0], [-1/4, 1/4]], [[1/3, -1/3], [0, 1/4]]],
      centers1 = [[3/2, 0], [3, 2], [3/2, 2], [3/2, 4], [0, 2]],
      integration_elements1 = [3, 4, 5, 3, 4],
      subentities1 = [[0, 1], [1, 2], [0, 2], [2, 3], [0, 3]],
      quadrature = example_quadrature\<rparr>"

text \<open>Vertex 0 is the only Dirichlet DOF.\<close>

definition example_boundary_info :: boundary_info where
  "example_boundary_info =
     \<lparr>has_dirichlet = True, has_robin = False,
      dirichlet_mask = [True, False, False, False],
      dirichlet_boundaries = [0],
      robin_boundaries = [], missing_type_error = AssertionError\<rparr>"

text \<open>A boundary information without any boundary type.\<close>

definition example_empty_boundary_info :: boundary_info where
  "example_empty_boundary_info =
     \<lparr>has_dirichlet = False, has_robin = False,
      dirichlet_mask = [], dirichlet_boundaries = [],
      robin_boundaries = [], missing_type_error = AssertionError\<rparr>"

text \<open>The mass matrix with the columns of the Dirichlet DOFs cleared and the rows kept.\<close>

definition example_L2Product_columns :: L2Product where
  "example_L2Product_columns =
     \<lparr>grid = example_grid, boundary_info = Some example_boundary_info,
      dirichlet_clear_columns = True, dirichlet_clear_diag = False,
      dirichlet_clear_rows = False, coefficient_function = None\<rparr>"

text \<open>
  The mass matrix with rows and columns cleared, as the discretizer builds the product
  \<^verbatim>\<open>l2_0\<close>.
\<close>

definition example_L2Product_l2_0 :: L2Product where
  "example_L2Product_l2_0 =
     \<lparr>grid = example_grid, boundary_info = Some example_boundary_info,
      dirichlet_clear_columns = True, dirichlet_clear_diag = False,
      dirichlet_clear_rows = True, coefficient_function = None\<rparr>"

text \<open>The mass matrix as \<^verbatim>\<open>L2ProductP1\<close> builds it by default: rows cleared, columns kept.\<close>

definition example_L2Product_default :: L2Product where
  "example_L2Product_default =
     \<lparr>grid = example_grid, boundary_info = Some example_boundary_info,
      dirichlet_clear_columns = False, dirichlet_clear_diag = False,
      dirichlet_clear_rows = True, coefficient_function = None\<rparr>"

text \<open>
  The unit interval, one element with the vertices 0 and 1, both on the Dirichlet boundary.
\<close>

definition example_line_grid :: grid where
  "example_line_grid =
     \<lparr>dim = 1, reference_element = line,
      size_of = (\<lambda>c. if c = 0 then 1 else 2),
      subentities = [[0, 1]],
      centers = [[1/2]],
      volumes = [1],
      integration_elements = [1],
      jacobian_inverse_transposed = [[[1]]],
      centers1 = [[0], [1]],
      integration_elements1 = [1, 1],
      subentities1 = [[0], [1]],
      quadrature = example_quadrature\<rparr>"

definition example_line_boundary_info :: boundary_info where
  "example_line_boundary_info =
     \<lparr>has_dirichlet = True, has_robin = False,
      dirichlet_mask = [True, True],
      dirichlet_boundaries = [0, 1],
      robin_boundaries = [], missing_type_error = AssertionError\<rparr>"

text \<open>
  The constant function 1 on the plane and on the line, and the functions \<open>u\<^sup>2\<close> and
  \<open>2 u\<close> of the state.
\<close>

definition example_coefficient :: function_data where
  "example_coefficient =
     \<lparr>is_Function = True, dim_domain = 2, shape_range = [],
      scalar_value = (\<lambda>x mu. 1), vector_value = (\<lambda>x mu. []), matrix_value = (\<lambda>x mu. [])\<rparr>"

definition example_line_coefficient :: function_data where
  "example_line_coefficient =
     \<lparr>is_Function = True, dim_domain = 1, shape_range = [],
      scalar_value = (\<lambda>x mu. 1), vector_value = (\<lambda>x mu. []), matrix_value = (\<lambda>x mu. [])\<rparr>"

definition example_reaction :: function_data where
  "example_reaction =
     \<lparr>is_Function = True, dim_domain = 1, shape_range = [],
      scalar_value = (\<lambda>u mu. u ! 0 * u ! 0), vector_value = (\<lambda>x mu. []), matrix_value = (\<lambda>x mu. [])\<rparr>"

definition example_reaction_derivative :: function_data where
  "example_reaction_derivative =
     \<lparr>is_Function = True, dim_domain = 1, shape_range = [],
      scalar_value = (\<lambda>u mu. 2 * u ! 0), vector_value = (\<lambda>x mu. []), matrix_value = (\<lambda>x mu. [])\<rparr>"

definition example_NonlinearReactionOperator :: "grid \<Rightarrow> boundary_info \<Rightarrow> NonlinearReactionOperator" where
  "example_NonlinearReactionOperator g bi =
     \<lparr>grid = g, boundary_info = Some bi, reaction_coefficient = example_coefficient,
      reaction_function = example_reaction,
      reaction_function_derivative = example_reaction_derivative\<rparr>"

text \<open>The nonlinear reaction operator on the line grid, with the coefficient on the line.\<close>

definition example_line_NonlinearReactionOperator :: NonlinearReactionOperator where
  "example_line_NonlinearReactionOperator =
     \<lparr>grid = example_line_grid, boundary_info = Some example_line_boundary_info,
      reaction_coefficient = example_line_coefficient,
      reaction_function = example_reaction,
      reaction_function_derivative = example_reaction_derivative\<rparr>"

definition example_element_NonlinearReactionOperator ::
  "grid \<Rightarrow> boundary_info \<Rightarrow> real list \<Rightarrow> element_NonlinearReactionOperator" where
  "example_element_NonlinearReactionOperator g bi r =
     \<lparr>grid = g, boundary_info = Some bi, reaction_coefficient = example_coefficient,
      reaction_function = example_reaction,
      reaction_function_derivative = example_reaction_derivative,
      element_NonlinearReactionOperator.rho = r\<rparr>"

text \<open>A Robin operator without Robin data.\<close>

definition example_RobinBoundaryOperator :: "grid \<Rightarrow> RobinBoundaryOperator" where
  "example_RobinBoundaryOperator g =
     \<lparr>grid = g, boundary_info = Some example_boundary_info, robin_data = None\<rparr>"

text \<open>Quadratic functionals with target state 0 and target parameter 1.\<close>

definition example_quadratic_functional :: "grid \<Rightarrow> quadratic_functional" where
  "example_quadratic_functional g =
     \<lparr>grid = g, u_d = replicate (size_of g (dim g)) 0, mu_d = [1]\<rparr>"

definition example_element_quadratic_functional :: "grid \<Rightarrow> real list \<Rightarrow> element_quadratic_functional" where
  "example_element_quadratic_functional g r =
     \<lparr>grid = g, u_d = replicate (size_of g (dim g)) 0, mu_d = [1],
      element_quadratic_functional.rho = r\<rparr>"

text \<open>The Laplace operator with constant diffusion coefficient 3.\<close>

definition example_DiffusionOperator :: DiffusionOperator where
  "example_DiffusionOperator =
     \<lparr>grid = example_grid, boundary_info = Some example_boundary_info,
      dirichlet_clear_columns = False, dirichlet_clear_diag = False,
      diffusion_function =
        Some \<lparr>is_Function = True, dim_domain = 2, shape_range = [],
              scalar_value = (\<lambda>x mu. 3), vector_value = (\<lambda>x mu. []), matrix_value = (\<lambda>x mu. [])\<rparr>,
      diffusion_constant = None\<rparr>"

text \<open>An advection operator with the constant advection function \<open>(1, 2)\<close>.\<close>

definition example_advection :: function_data where
  "example_advection =
     \<lparr>is_Function = True, dim_domain = 2, shape_range = [2],
      scalar_value = (\<lambda>x mu. 0), vector_value = (\<lambda>x mu. [1, 2]), matrix_value = (\<lambda>x mu. [])\<rparr>"

definition example_AdvectionOperator :: AdvectionOperator where
  "example_AdvectionOperator =
     \<lparr>grid = example_grid, boundary_info = Some example_boundary_info,
      dirichlet_clear_columns = True, dirichlet_clear_diag = False,
      advection_function = Some example_advection, advection_constant = None\<rparr>"

text \<open>
  The rectangle with the vertices 0: (0,0), 1: (1,0), 2: (2,0), 3: (0,1), 4: (1,1), 5: (2,1),
  cut into the unit squares (0,1,4,3) and (1,2,5,4); the vertices 0 and 3 of the left side
  are the Dirichlet DOFs.
\<close>

definition example_square_grid :: grid where
  "example_square_grid =
     \<lparr>dim = 2, reference_element = square,
      size_of = (\<lambda>c. if c = 0 then 2 else if c = 1 then 7 else 6),
      subentities = [[0, 1, 4, 3], [1, 2, 5, 4]],
      centers = [[1/2, 1/2], [3/2, 1/2]],
      volumes = [1, 1],
      integration_elements = [1, 1],
      jacobian_inverse_transposed = [[[1, 0], [0, 1]], [[1, 0], [0, 1]]],
      centers1 = [[1/2, 0], [3/2, 0], [1/2, 1], [3/2, 1], [0, 1/2], [1, 1/2], [2, 1/2]],
      integration_elements1 = [1, 1, 1, 1, 1, 1, 1],
      subentities1 = [[0, 1], [1, 2], [3, 4], [4, 5], [0, 3], [1, 4], [2, 5]],
      quadrature = example_quadrature\<rparr>"

definition example_square_boundary_info :: boundary_info where
  "example_square_boundary_info =
     \<lparr>has_dirichlet = True, has_robin = False,
      dirichlet_mask = [True, False, False, True, False, False],
      dirichlet_boundaries = [0, 3],
      robin_boundaries = [], missing_type_error = AssertionError\<rparr>"

text \<open>
  On the squares: the mass matrix with its default flags, the Laplace operator with
  diffusion coefficient 1 and diffusion constant 3, and the advection operator.
\<close>

definition example_square_L2Product :: L2Product where
  "example_square_L2Product =
     \<lparr>grid = example_square_grid, boundary_info = Some example_square_boundary_info,
      dirichlet_clear_columns = False, dirichlet_clear_diag = False,
      dirichlet_clear_rows = True, coefficient_function = None\<rparr>"

definition example_square_DiffusionOperator :: DiffusionOperator where
  "example_square_DiffusionOperator =
     \<lparr>grid = example_square_grid, boundary_info = Some example_square_boundary_info,
      dirichlet_clear_columns = False, dirichlet_clear_diag = False,
      diffusion_function = Some example_coefficient, diffusion_constant = Some 3\<rparr>"

definition example_square_AdvectionOperator :: AdvectionOperator where
  "example_square_AdvectionOperator =
     \<lparr>grid = example_square_grid, boundary_info = Some example_square_boundary_info,
      dirichlet_clear_columns = True, dirichlet_clear_diag = False,
      advection_function = Some example_advection, advection_constant = None\<rparr>"

text \<open>
  The contributions of one element block \<open>f\<close> with their global row and column indices.
\<close>

definition block_triplets :: "nat \<Rightarrow> (nat \<Rightarrow> nat \<Rightarrow> real) \<Rightarrow> nat list \<Rightarrow> (real \<times> nat \<times> nat) list" where
  "block_triplets k f row = concat (map (\<lambda>p. map (\<lambda>q. (f p q, row ! p, row ! q)) [0..<k]) [0..<k])"

subsection \<open>The contribution of one element to the assembled vector\<close>

text \<open>
  The vector that \<open>coo_matrix((SF_INTS[3*e:3*e+3], (SF_I0[3*e:3*e+3], zeros)), shape=(n, 1))\<close>
  holds for the element \<open>e\<close>: the entries of the element's local integrals, summed at
  the DOFs they belong to.
\<close>

definition element_vector :: "real list list \<Rightarrow> nat list list \<Rightarrow> nat \<Rightarrow> nat \<Rightarrow> real list" where
  "element_vector S sub n e =
     map (\<lambda>d. \<Sum>t\<leftarrow>zip (S ! e) (sub ! e). if snd t = d then fst t else 0) [0..<n]"

section \<open>Properties\<close>

subsection \<open>Shape functions\<close>

lemma upt_2: "[0..<2] = [0, Suc 0]"
  by (simp add: numeral_2_eq_2)

text \<open>
  C9. For each of the three reference elements and every point with as many coordinates as
  the element has dimensions, the order-1 shape functions sum to 1 and the gradients of the
  shape functions sum to the zero vector.
\<close>

theorem shape_functions_partition_of_unity:
  "length X = ref_dim r \<Longrightarrow> partition_of_unity r X"
  by (cases r) (simp_all add: partition_of_unity_def shape_values_def shape_gradients_def
      vec_sum_def upt_2 numeral_2_eq_2 algebra_simps)

theorem shape_functions_partition_of_unity_witness:
  "length [1/4, 1/2 :: real] = ref_dim square \<and> partition_of_unity square [1/4, 1/2]"
  using shape_functions_partition_of_unity [of "[1/4, 1/2]" square] by simp


subsection \<open>Dirichlet clearing\<close>

lemma dirichlet_clear_length:
  "length (dirichlet_clear msk I data) = min (length I) (length data)"
  by (simp add: dirichlet_clear_def)

lemma dirichlet_clear_nth:
  "k < length I \<Longrightarrow> k < length data \<Longrightarrow>
   dirichlet_clear msk I data ! k = (if msk ! (I ! k) then 0 else data ! k)"
  by (simp add: dirichlet_clear_def)

lemma dirichlet_clear_idem:
  "dirichlet_clear msk I (dirichlet_clear msk I data) = dirichlet_clear msk I data"
  by (rule nth_equalityI) (simp_all add: dirichlet_clear_length dirichlet_clear_nth)

lemma coo_entry_append:
  "length d1 = length r1 \<Longrightarrow> length c1 = length r1 \<Longrightarrow>
   coo_entry (d1 @ d2) (r1 @ r2) (c1 @ c2) i j = coo_entry d1 r1 c1 i j + coo_entry d2 r2 c2 i j"
  by (simp add: coo_entry_def)

lemma coo_entry_zero:
  assumes "length data = length I0" "length I1 = length I0"
    and "\<And>k. k < length I0 \<Longrightarrow> I0 ! k = i \<Longrightarrow> I1 ! k = j \<Longrightarrow> data ! k = 0"
  shows "coo_entry data I0 I1 i j = 0"
proof -
  have "\<forall>t \<in> set (zip data (zip I0 I1)). (case t of (v, r, c) \<Rightarrow> if r = i \<and> c = j then v else 0) = 0"
    using assms by (auto simp: in_set_zip)
  then show ?thesis
    unfolding coo_entry_def by (simp add: sum_list_eq_0_iff cong: map_cong)
qed

lemma coo_entry_diag:
  "coo_entry (replicate (length DI) 1) DI DI i j = (if i = j then of_nat (count_list DI i) else 0)"
  unfolding coo_entry_def by (induction DI) auto

lemma coo_matrix_nth:
  "i < m \<Longrightarrow> j < n \<Longrightarrow> coo_matrix data I0 I1 m n ! i ! j = coo_entry data I0 I1 i j"
  by (simp add: coo_matrix_def)

lemma distinct_count_one: "distinct xs \<Longrightarrow> x \<in> set xs \<Longrightarrow> count_list xs x = 1"
  by (induction xs) auto

lemma boundary_info_ok_dirichlet:
  assumes "boundary_info_ok g bi" "d \<in> set (dirichlet_boundaries bi)"
  shows "d < size_of g (dim g)" "dirichlet_mask bi ! d" "count_list (dirichlet_boundaries bi) d = 1"
proof -
  let ?n = "size_of g (dim g)"
  have DI: "dirichlet_boundaries bi = filter (\<lambda>i. dirichlet_mask bi ! i) [0..<?n]"
    using assms(1) by (simp add: boundary_info_ok_def)
  from assms(2) show "d < ?n" "dirichlet_mask bi ! d" unfolding DI by auto
  have "distinct (dirichlet_boundaries bi)" unfolding DI by simp
  with assms(2) show "count_list (dirichlet_boundaries bi) d = 1"
    by (simp add: distinct_count_one)
qed

text \<open>Entries of the treated contributions in a cleared row or column.\<close>

lemma treated_entry:
  assumes bi: "boundary_info_ok g bi" and hd: "has_dirichlet bi" and rc: "rows \<or> cols" and nd: "\<not> diag"
    and len: "length SF_INTS = length SF_I0" "length SF_I1 = length SF_I0"
    and ij: "i < size_of g (dim g)" "j < size_of g (dim g)"
    and cl: "(rows \<and> dirichlet_mask bi ! i) \<or> (cols \<and> dirichlet_mask bi ! j)"
  shows "assemble_system_matrix g bi rows cols diag (SF_INTS, SF_I0, SF_I1) ! i ! j
         = (if i = j then of_nat (count_list (dirichlet_boundaries bi) i) else 0)"
proof -
  let ?m = "dirichlet_mask bi"
  let ?d1 = "if rows then dirichlet_clear ?m SF_I0 SF_INTS else SF_INTS"
  let ?d2 = "if cols then dirichlet_clear ?m SF_I1 ?d1 else ?d1"
  have l1: "length ?d1 = length SF_I0" using len by (simp add: dirichlet_clear_length)
  have l2: "length ?d2 = length SF_I0" using len l1 by (simp add: dirichlet_clear_length)
  have z: "coo_entry ?d2 SF_I0 SF_I1 i j = 0"
  proof (rule coo_entry_zero [OF l2 len(2)])
    fix k assume k: "k < length SF_I0" "SF_I0 ! k = i" "SF_I1 ! k = j"
    have d1: "rows \<Longrightarrow> ?m ! i \<Longrightarrow> ?d1 ! k = 0"
      using k len by (simp add: dirichlet_clear_nth)
    show "?d2 ! k = 0"
      using cl k len l1 d1 by (auto simp: dirichlet_clear_nth)
  qed
  have "assemble_system_matrix g bi rows cols diag (SF_INTS, SF_I0, SF_I1) ! i ! j
        = coo_entry (?d2 @ replicate (length (dirichlet_boundaries bi)) 1)
            (SF_I0 @ dirichlet_boundaries bi) (SF_I1 @ dirichlet_boundaries bi) i j"
    using hd rc nd ij
    by (simp add: assemble_system_matrix_def contributions_matrix_def boundary_treatment_def Let_def coo_matrix_nth)
  also have "\<dots> = coo_entry ?d2 SF_I0 SF_I1 i j
        + coo_entry (replicate (length (dirichlet_boundaries bi)) 1)
            (dirichlet_boundaries bi) (dirichlet_boundaries bi) i j"
    by (rule coo_entry_append [OF l2 len(2)])
  finally show ?thesis by (simp add: z coo_entry_diag)
qed

lemma treated_unit_dirichlet:
  assumes "boundary_info_ok g bi" "has_dirichlet bi" "rows \<or> cols" "\<not> diag"
    and "length SF_INTS = length SF_I0" "length SF_I1 = length SF_I0"
  shows "unit_dirichlet (assemble_system_matrix g bi rows cols diag (SF_INTS, SF_I0, SF_I1))
           (size_of g (dim g)) (dirichlet_boundaries bi) rows cols"
  unfolding unit_dirichlet_def
proof (intro ballI conjI impI allI)
  fix d assume d: "d \<in> set (dirichlet_boundaries bi)"
  note D = boundary_info_ok_dirichlet [OF assms(1) d]
  show "assemble_system_matrix g bi rows cols diag (SF_INTS, SF_I0, SF_I1) ! d ! d = 1"
    using treated_entry [OF assms D(1) D(1)] D(2,3) assms(3) by auto
  { fix j assume "rows" "j < size_of g (dim g)" "j \<noteq> d"
    then show "assemble_system_matrix g bi rows cols diag (SF_INTS, SF_I0, SF_I1) ! d ! j = 0"
      using treated_entry [OF assms D(1), of j] D(2) by auto }
  { fix i assume "cols" "i < size_of g (dim g)" "i \<noteq> d"
    then show "assemble_system_matrix g bi rows cols diag (SF_INTS, SF_I0, SF_I1) ! i ! d = 0"
      using treated_entry [OF assms _ D(1), of i] D(2) by auto }
qed

subsection \<open>Scattering of element blocks\<close>

lemma length_concat_map_const:
  "(\<And>x. x \<in> set xs \<Longrightarrow> length (F x) = k) \<Longrightarrow> length (concat (map F xs)) = length xs * k"
  by (induction xs) auto

lemma length_concat_replicate: "length (concat (replicate k xs)) = k * length xs"
  by (induction k) auto

lemma length_ravel3_tensor3: "length (ravel3 (tensor3 E P Q f)) = E * (P * Q)"
proof -
  have "length (concat (map (\<lambda>e. concat (map (\<lambda>p. map (\<lambda>q. f e p q) [0..<Q]) [0..<P])) [0..<E]))
        = length [0..<E] * (P * Q)"
    by (rule length_concat_map_const) (simp add: length_concat_map_const)
  then show ?thesis by (simp add: ravel3_def tensor3_def o_def)
qed

lemma length_shape_functions_at: "length (shape_functions_at r q) = n_local r"
  by (simp add: shape_functions_at_def n_local_def)

lemma length_repeat_ravel:
  "(\<And>row. row \<in> set a \<Longrightarrow> length row = k') \<Longrightarrow> length (repeat_ravel a k) = length a * (k' * k)"
  unfolding repeat_ravel_def
  by (rule length_concat_map_const) (simp add: length_concat_map_const)

lemma length_tile_ravel:
  "(\<And>row. row \<in> set a \<Longrightarrow> length row = k') \<Longrightarrow> length (tile_ravel a k) = length a * (k * k')"
  unfolding tile_ravel_def
  by (rule length_concat_map_const) (simp add: length_concat_replicate)

lemma zip_concat_map:
  "(\<And>x. x \<in> set xs \<Longrightarrow> length (F x) = length (G x)) \<Longrightarrow>
   zip (concat (map F xs)) (concat (map G xs)) = concat (map (\<lambda>x. zip (F x) (G x)) xs)"
  by (induction xs) auto

lemma concat_replicate_map: "concat (replicate k xs) = concat (map (\<lambda>p. xs) [0..<k])"
  by (simp add: map_replicate_const)

lemma block_zip:
  assumes "length row = k"
  shows "zip (concat (map (\<lambda>p. map (\<lambda>q. f p q) [0..<k]) [0..<k]))
           (zip (concat (map (replicate k) row)) (concat (replicate k row)))
         = block_triplets k f row"
proof -
  have row: "row = map (\<lambda>p. row ! p) [0..<k]"
    by (metis assms map_nth)
  have r1: "concat (map (replicate k) row) = concat (map (\<lambda>p. replicate k (row ! p)) [0..<k])"
    by (subst row) (simp add: o_def)
  have r2: "concat (replicate k row) = concat (map (\<lambda>p. row) [0..<k])"
    by (rule concat_replicate_map)
  have inner: "zip (concat (map (\<lambda>p. replicate k (row ! p)) [0..<k])) (concat (map (\<lambda>p. row) [0..<k]))
      = concat (map (\<lambda>p. zip (replicate k (row ! p)) row) [0..<k])"
    by (rule zip_concat_map) (simp add: assms)
  have "zip (concat (map (\<lambda>p. map (\<lambda>q. f p q) [0..<k]) [0..<k]))
           (concat (map (\<lambda>p. zip (replicate k (row ! p)) row) [0..<k]))
        = concat (map (\<lambda>p. zip (map (\<lambda>q. f p q) [0..<k]) (zip (replicate k (row ! p)) row)) [0..<k])"
    by (rule zip_concat_map) (simp add: assms)
  moreover have "\<And>p. zip (map (\<lambda>q. f p q) [0..<k]) (zip (replicate k (row ! p)) row)
        = map (\<lambda>q. (f p q, row ! p, row ! q)) [0..<k]"
    by (rule nth_equalityI) (simp_all add: assms)
  ultimately show ?thesis
    by (simp add: r1 r2 inner block_triplets_def)
qed

text \<open>The triplets of the whole grid.\<close>

lemma scatter_zip:
  assumes "length sub = E" "\<And>row. row \<in> set sub \<Longrightarrow> length row = k"
  shows "zip (ravel3 (tensor3 E k k f)) (zip (repeat_ravel sub k) (tile_ravel sub k))
         = concat (map (\<lambda>e. block_triplets k (f e) (sub ! e)) [0..<E])"
proof -
  have sub: "sub = map (\<lambda>e. sub ! e) [0..<E]"
    by (metis assms(1) map_nth)
  have rows: "\<And>e. e < E \<Longrightarrow> length (sub ! e) = k"
    using assms by simp
  have r1: "repeat_ravel sub k = concat (map (\<lambda>e. concat (map (replicate k) (sub ! e))) [0..<E])"
    unfolding repeat_ravel_def by (subst sub) (simp add: o_def)
  have r2: "tile_ravel sub k = concat (map (\<lambda>e. concat (replicate k (sub ! e))) [0..<E])"
    unfolding tile_ravel_def by (subst sub) (simp add: o_def)
  have r0: "ravel3 (tensor3 E k k f)
      = concat (map (\<lambda>e. concat (map (\<lambda>p. map (\<lambda>q. f e p q) [0..<k]) [0..<k])) [0..<E])"
    by (simp add: ravel3_def tensor3_def o_def)
  have inner: "zip (repeat_ravel sub k) (tile_ravel sub k)
      = concat (map (\<lambda>e. zip (concat (map (replicate k) (sub ! e))) (concat (replicate k (sub ! e)))) [0..<E])"
    unfolding r1 r2
    by (rule zip_concat_map) (simp add: rows length_concat_map_const length_concat_replicate)
  have "zip (ravel3 (tensor3 E k k f)) (zip (repeat_ravel sub k) (tile_ravel sub k))
      = concat (map (\<lambda>e. zip (concat (map (\<lambda>p. map (\<lambda>q. f e p q) [0..<k]) [0..<k]))
           (zip (concat (map (replicate k) (sub ! e))) (concat (replicate k (sub ! e))))) [0..<E])"
    unfolding r0 inner
    by (rule zip_concat_map) (simp add: rows length_concat_map_const length_concat_replicate)
  also have "\<dots> = concat (map (\<lambda>e. block_triplets k (f e) (sub ! e)) [0..<E])"
    by (rule arg_cong [where f = concat], rule map_cong [OF refl]) (simp add: block_zip rows)
  finally show ?thesis .
qed


lemma sum_list_swap:
  "(\<Sum>x\<leftarrow>xs. \<Sum>y\<leftarrow>ys. f x y) = (\<Sum>y\<leftarrow>ys. \<Sum>x\<leftarrow>xs. (f x y :: real))"
  by (induction xs) (simp_all add: sum_list_addf)

lemma sum_list_delta:
  "(\<Sum>j\<leftarrow>[0..<n]. if c = j then v else 0) = (if c < n then (v::real) else 0)"
  by (induction n) auto

lemma sum_list_zero: "(\<And>x. x \<in> set xs \<Longrightarrow> f x = (0::real)) \<Longrightarrow> (\<Sum>x\<leftarrow>xs. f x) = 0"
  by (induction xs) auto

lemma sum_list_concat: "sum_list (concat xss) = (\<Sum>xs\<leftarrow>xss. sum_list (xs :: real list))"
  by (induction xss) auto

lemma sum_block_triplets:
  "(\<Sum>t\<leftarrow>block_triplets k f row. \<phi> t) = (\<Sum>p\<leftarrow>[0..<k]. \<Sum>q\<leftarrow>[0..<k]. (\<phi> (f p q, row ! p, row ! q) :: real))"
  by (simp add: block_triplets_def map_concat sum_list_concat o_def)

lemma sum_scatter:
  assumes "length sub = E" "\<And>row. row \<in> set sub \<Longrightarrow> length row = k"
  shows "(\<Sum>t\<leftarrow>zip (ravel3 (tensor3 E k k f)) (zip (repeat_ravel sub k) (tile_ravel sub k)). \<phi> t)
         = (\<Sum>e\<leftarrow>[0..<E]. \<Sum>p\<leftarrow>[0..<k]. \<Sum>q\<leftarrow>[0..<k]. (\<phi> (f e p q, sub ! e ! p, sub ! e ! q) :: real))"
  by (simp add: scatter_zip [OF assms] map_concat sum_list_concat o_def sum_block_triplets)

lemma coo_row_sum:
  assumes "\<And>c. c \<in> set I1 \<Longrightarrow> c < n"
  shows "(\<Sum>j\<leftarrow>[0..<n]. coo_entry data I0 I1 i j)
         = (\<Sum>t\<leftarrow>zip data (zip I0 I1). case t of (v, r, c) \<Rightarrow> if r = i then v else 0)"
proof -
  have "(\<Sum>j\<leftarrow>[0..<n]. coo_entry data I0 I1 i j)
      = (\<Sum>t\<leftarrow>zip data (zip I0 I1). \<Sum>j\<leftarrow>[0..<n]. case t of (v, r, c) \<Rightarrow> if r = i \<and> c = j then v else 0)"
    unfolding coo_entry_def by (rule sum_list_swap)
  also have "\<dots> = (\<Sum>t\<leftarrow>zip data (zip I0 I1). case t of (v, r, c) \<Rightarrow> if r = i then v else 0)"
  proof (rule arg_cong [where f = sum_list], rule map_cong [OF refl])
    fix t assume t: "t \<in> set (zip data (zip I0 I1))"
    obtain v r c where [simp]: "t = (v, r, c)" by (cases t) auto
    from t have "c \<in> set I1" by (auto dest!: set_zip_rightD)
    then have c: "c < n" by (rule assms)
    have "(\<Sum>j\<leftarrow>[0..<n]. if r = i \<and> c = j then v else 0) = (if r = i then v else 0)"
      using sum_list_delta [where c = c and n = n and v = v] c by (cases "r = i") simp_all
    then show "(\<Sum>j\<leftarrow>[0..<n]. case t of (v, r, c) \<Rightarrow> if r = i \<and> c = j then v else 0)
        = (case t of (v, r, c) \<Rightarrow> if r = i then v else 0)" by simp
  qed
  finally show ?thesis .
qed

subsection \<open>Row sums of the stiffness matrix\<close>

lemma upt_3: "[0..<3] = [0, Suc 0, 2]"
  by (simp add: numeral_3_eq_3 numeral_2_eq_2)

lemma upt_1: "[0..<Suc 0] = [0]" by simp

lemma grads_sum_zero:
  assumes "r \<in> {line, triangle}" "LagrangeShapeFunctionsGrads r = GradArray G"
  shows "(\<Sum>q\<leftarrow>[0..<length G]. \<Sum>j\<leftarrow>[0..<length (G ! q)]. J j * G ! q ! j) = (0::real)"
  using assms by (cases r) (auto simp: upt_2 upt_3 numeral_2_eq_2)

lemma grads_shape:
  assumes "r \<in> {line, triangle}" "LagrangeShapeFunctionsGrads r = GradArray G"
  shows "length G = ref_dim r + 1" "n_local r = ref_dim r + 1"
  using assms by (cases r; auto simp: n_local_def)+

lemma map_ravel3_tensor3:
  "map h (ravel3 (tensor3 E P Q f)) = ravel3 (tensor3 E P Q (\<lambda>e p q. h (f e p q)))"
  by (simp add: ravel3_def tensor3_def map_concat o_def)

lemma einsum_eij_pj_nth:
  "e < length JIT \<Longrightarrow> p < length G \<Longrightarrow> i < length (JIT ! e) \<Longrightarrow>
   einsum_eij_pj JIT G ! e ! p ! i = (\<Sum>j\<leftarrow>[0..<length (G ! p)]. JIT ! e ! i ! j * G ! p ! j)"
  by (simp add: einsum_eij_pj_def)

lemma sum_list_cong: "(\<And>x. x \<in> set xs \<Longrightarrow> f x = g x) \<Longrightarrow> (\<Sum>x\<leftarrow>xs. f x) = (\<Sum>x\<leftarrow>xs. (g x :: real))"
  by (rule arg_cong [where f = sum_list]) (rule map_cong [OF refl])

text \<open>Each row of an element stiffness block sums to zero.\<close>

lemma local_row_sum_zero:
  assumes r: "r \<in> {line, triangle}" "LagrangeShapeFunctionsGrads r = GradArray G"
    and e: "e < length JIT" "length (JIT ! e) = d"
  shows "(\<Sum>q\<leftarrow>[0..<length G]. \<Sum>i\<leftarrow>[0..<d]. a i * (einsum_eij_pj JIT G ! e ! q ! i)) = 0"
proof -
  have "(\<Sum>q\<leftarrow>[0..<length G]. \<Sum>i\<leftarrow>[0..<d]. a i * (einsum_eij_pj JIT G ! e ! q ! i))
      = (\<Sum>i\<leftarrow>[0..<d]. \<Sum>q\<leftarrow>[0..<length G]. a i * (einsum_eij_pj JIT G ! e ! q ! i))"
    by (rule sum_list_swap)
  also have "\<dots> = (\<Sum>i\<leftarrow>[0..<d]. a i * (\<Sum>q\<leftarrow>[0..<length G]. einsum_eij_pj JIT G ! e ! q ! i))"
    by (simp add: sum_list_const_mult)
  also have "\<dots> = (\<Sum>i\<leftarrow>[0..<d]. a i * 0)"
  proof (rule sum_list_cong)
    fix i assume "i \<in> set [0..<d]"
    then have i: "i < length (JIT ! e)" using e by simp
    have "(\<Sum>q\<leftarrow>[0..<length G]. einsum_eij_pj JIT G ! e ! q ! i)
        = (\<Sum>q\<leftarrow>[0..<length G]. \<Sum>j\<leftarrow>[0..<length (G ! q)]. JIT ! e ! i ! j * G ! q ! j)"
      by (rule sum_list_cong) (simp add: einsum_eij_pj_nth [OF e(1) _ i])
    also have "\<dots> = 0" by (rule grads_sum_zero [OF r])
    finally show "a i * (\<Sum>q\<leftarrow>[0..<length G]. einsum_eij_pj JIT G ! e ! q ! i) = a i * 0" by simp
  qed
  finally show ?thesis by simp
qed


lemma row_sum_coo_matrix:
  "i < m \<Longrightarrow> row_sum (coo_matrix data I0 I1 m n) i = (\<Sum>j\<leftarrow>[0..<n]. coo_entry data I0 I1 i j)"
  by (simp add: row_sum_def coo_matrix_def)

lemma set_tile_ravel: "set (tile_ravel a k) \<subseteq> (\<Union>row \<in> set a. set row)"
  by (auto simp: tile_ravel_def)

lemma scattered_row_sum_zero:
  assumes sub: "length sub = E" "\<And>row. row \<in> set sub \<Longrightarrow> length row = k"
      "\<And>row c. row \<in> set sub \<Longrightarrow> c \<in> set row \<Longrightarrow> c < n"
    and F: "\<And>e p. e < E \<Longrightarrow> p < k \<Longrightarrow> (\<Sum>q\<leftarrow>[0..<k]. F e p q) = 0"
    and i: "i < n"
  shows "row_sum (coo_matrix (ravel3 (tensor3 E k k F)) (repeat_ravel sub k) (tile_ravel sub k) n n) i = 0"
proof -
  have cols: "\<And>c. c \<in> set (tile_ravel sub k) \<Longrightarrow> c < n"
    using set_tile_ravel [of sub k] sub(3) by blast
  have "row_sum (coo_matrix (ravel3 (tensor3 E k k F)) (repeat_ravel sub k) (tile_ravel sub k) n n) i
      = (\<Sum>t\<leftarrow>zip (ravel3 (tensor3 E k k F)) (zip (repeat_ravel sub k) (tile_ravel sub k)).
           case t of (v, r, c) \<Rightarrow> if r = i then v else 0)"
    by (simp add: row_sum_coo_matrix [OF i] coo_row_sum [OF cols])
  also have "\<dots> = (\<Sum>e\<leftarrow>[0..<E]. \<Sum>p\<leftarrow>[0..<k]. \<Sum>q\<leftarrow>[0..<k]. if sub ! e ! p = i then F e p q else 0)"
    by (simp add: sum_scatter [OF sub(1,2)])
  also have "\<dots> = 0"
  proof (rule sum_list_zero, rule sum_list_zero)
    fix e p assume "e \<in> set [0..<E]" "p \<in> set [0..<k]"
    then have "(\<Sum>q\<leftarrow>[0..<k]. F e p q) = 0" using F by simp
    then show "(\<Sum>q\<leftarrow>[0..<k]. if sub ! e ! p = i then F e p q else 0) = 0"
      by (cases "sub ! e ! p = i") simp_all
  qed
  finally show ?thesis .
qed

lemma length_einsum_eij_pj: "length (einsum_eij_pj JIT G) = length JIT"
  by (simp add: einsum_eij_pj_def)

text \<open>The rows of the stiffness matrix of a line or triangle grid.\<close>

lemma diffusion_P1_row_sums_zero:
  assumes ok: "grid_ok (grid op)"
    and ref: "reference_element (grid op) \<in> {line, triangle}"
    and sd: "scalar_diffusion op"
  shows "case DiffusionOperatorP1_contributions op mu of
           Inl err \<Rightarrow> False
         | Inr c \<Rightarrow> zero_row_sums (contributions_matrix (grid op) c)
                      (size_of (grid op) (dim (grid op)))"
proof -
  have scal: "\<forall>df. diffusion_function op = Some df \<longrightarrow> shape_range df = []"
    using sd by (auto simp: scalar_diffusion_def)
  define g where "g = grid op"
  define n where "n = size_of g (dim g)"
  define k where "k = Suc (dim g)"
  define JIT where "JIT = jacobian_inverse_transposed g"
  obtain G where G: "LagrangeShapeFunctionsGrads (reference_element g) = GradArray G"
    using ref unfolding g_def by (cases "reference_element (grid op)") auto
  have r: "reference_element g \<in> {line, triangle}" using ref by (simp add: g_def)
  have dimg: "dim g = ref_dim (reference_element g)" using ok by (simp add: grid_ok_def g_def)
  have lenG: "length G = k" and nl: "n_local (reference_element g) = k"
    using grads_shape [OF r G] by (simp_all add: k_def dimg)
  define E where "E = length JIT"
  have sub: "length (subentities g) = E" "\<And>row. row \<in> set (subentities g) \<Longrightarrow> length row = k"
      "\<And>row c. row \<in> set (subentities g) \<Longrightarrow> c \<in> set row \<Longrightarrow> c < n"
    using ok nl by (auto simp: grid_ok_def g_def E_def JIT_def n_def)
  have J: "\<And>e. e < E \<Longrightarrow> length (JIT ! e) = dim g"
    using ok by (auto simp: grid_ok_def g_def E_def JIT_def)
  define GR where "GR = einsum_eij_pj JIT G"
  have zero: "\<And>a e. e < E \<Longrightarrow> (\<Sum>q\<leftarrow>[0..<k]. \<Sum>i\<leftarrow>[0..<dim g]. a i * (GR ! e ! q ! i)) = 0"
    unfolding GR_def lenG [symmetric]
    by (rule local_row_sum_zero [OF r G]) (simp_all add: E_def J)
  have gen: "\<And>F. (\<And>e p. e < E \<Longrightarrow> p < k \<Longrightarrow> (\<Sum>q\<leftarrow>[0..<k]. F e p q) = 0) \<Longrightarrow>
      \<forall>i<n. row_sum (contributions_matrix g
        (ravel3 (tensor3 E k k F), repeat_ravel (subentities g) k, tile_ravel (subentities g) k)) i = 0"
    unfolding contributions_matrix_def n_def [symmetric]
    by (simp add: scattered_row_sum_zero [OF sub])
  have F1: "\<And>e p c. e < E \<Longrightarrow>
      (\<Sum>q\<leftarrow>[0..<k]. (\<Sum>i\<leftarrow>[0..<dim g]. GR ! e ! p ! i * GR ! e ! q ! i * volumes g ! e) * c) = 0"
  proof -
    fix e p c assume e: "e < E"
    have "(\<Sum>q\<leftarrow>[0..<k]. (\<Sum>i\<leftarrow>[0..<dim g]. GR ! e ! p ! i * GR ! e ! q ! i * volumes g ! e) * c)
        = (\<Sum>q\<leftarrow>[0..<k]. \<Sum>i\<leftarrow>[0..<dim g]. (GR ! e ! p ! i * volumes g ! e * c) * (GR ! e ! q ! i))"
      by (simp only: sum_list_mult_const [symmetric] sum_list_const_mult [symmetric] mult_ac)
    then show "(\<Sum>q\<leftarrow>[0..<k]. (\<Sum>i\<leftarrow>[0..<dim g]. GR ! e ! p ! i * GR ! e ! q ! i * volumes g ! e) * c) = 0"
      using zero [OF e] by simp
  qed
  have F2: "\<And>e p c D. e < E \<Longrightarrow>
      (\<Sum>q\<leftarrow>[0..<k]. (\<Sum>i\<leftarrow>[0..<dim g]. GR ! e ! p ! i * GR ! e ! q ! i * volumes g ! e * D ! e) * c) = 0"
  proof -
    fix e p c and D :: "real list" assume e: "e < E"
    have "(\<Sum>q\<leftarrow>[0..<k]. (\<Sum>i\<leftarrow>[0..<dim g]. GR ! e ! p ! i * GR ! e ! q ! i * volumes g ! e * D ! e) * c)
        = (\<Sum>q\<leftarrow>[0..<k]. \<Sum>i\<leftarrow>[0..<dim g]. (GR ! e ! p ! i * volumes g ! e * D ! e * c) * (GR ! e ! q ! i))"
      by (simp only: sum_list_mult_const [symmetric] sum_list_const_mult [symmetric] mult_ac)
    then show "(\<Sum>q\<leftarrow>[0..<k]. (\<Sum>i\<leftarrow>[0..<dim g]. GR ! e ! p ! i * GR ! e ! q ! i * volumes g ! e * D ! e) * c) = 0"
      using zero [OF e] by simp
  qed
  have lenGR: "length GR = E" by (simp add: GR_def length_einsum_eij_pj E_def)
  show ?thesis
  proof (cases "diffusion_function op")
    case None
    show ?thesis
    proof (cases "diffusion_constant op")
      case N2: None
      have "\<forall>i<n. row_sum (contributions_matrix g
        (ravel3 (tensor3 E k k (\<lambda>e p q. (\<Sum>i\<leftarrow>[0..<dim g]. GR ! e ! p ! i * GR ! e ! q ! i * volumes g ! e))),
           repeat_ravel (subentities g) k, tile_ravel (subentities g) k)) i = 0"
        by (rule gen) (use F1 [where c = 1] in simp)
      then show ?thesis
        using None N2 G
        by (simp add: zero_row_sums_def DiffusionOperatorP1_contributions_def DiffusionOperatorP1_SF_INTS_def Let_def
            einsum_epi_eqi_e_def g_def [symmetric] JIT_def [symmetric] GR_def [symmetric]
            lenG lenGR k_def [symmetric] n_def [symmetric])
    next
      case (Some c)
      have "\<forall>i<n. row_sum (contributions_matrix g
        (ravel3 (tensor3 E k k (\<lambda>e p q. (\<Sum>i\<leftarrow>[0..<dim g]. GR ! e ! p ! i * GR ! e ! q ! i * volumes g ! e) * c)),
           repeat_ravel (subentities g) k, tile_ravel (subentities g) k)) i = 0"
        by (rule gen) (use F1 in simp)
      then show ?thesis
        using None Some G
        by (simp add: zero_row_sums_def DiffusionOperatorP1_contributions_def DiffusionOperatorP1_SF_INTS_def Let_def
            einsum_epi_eqi_e_def g_def [symmetric] JIT_def [symmetric] GR_def [symmetric]
            lenG lenGR k_def [symmetric] n_def [symmetric] map_ravel3_tensor3)
    qed
  next
    case (Some df)
    then have sr: "shape_range df = []" using scal by simp
    define D where "D = map (\<lambda>x. scalar_value df x mu) (centers g)"
    show ?thesis
    proof (cases "diffusion_constant op")
      case N2: None
      have "\<forall>i<n. row_sum (contributions_matrix g
        (ravel3 (tensor3 E k k (\<lambda>e p q. (\<Sum>i\<leftarrow>[0..<dim g]. GR ! e ! p ! i * GR ! e ! q ! i * volumes g ! e * D ! e))),
           repeat_ravel (subentities g) k, tile_ravel (subentities g) k)) i = 0"
        by (rule gen) (use F2 [where c = 1] in simp)
      then show ?thesis
        using Some N2 G sr
        by (simp add: zero_row_sums_def DiffusionOperatorP1_contributions_def DiffusionOperatorP1_SF_INTS_def Let_def
            einsum_epi_eqi_e_e_def g_def [symmetric] JIT_def [symmetric] GR_def [symmetric]
            lenG lenGR k_def [symmetric] n_def [symmetric] D_def [symmetric])
    next
      case S2: (Some c)
      have "\<forall>i<n. row_sum (contributions_matrix g
        (ravel3 (tensor3 E k k (\<lambda>e p q. (\<Sum>i\<leftarrow>[0..<dim g]. GR ! e ! p ! i * GR ! e ! q ! i * volumes g ! e * D ! e) * c)),
           repeat_ravel (subentities g) k, tile_ravel (subentities g) k)) i = 0"
        by (rule gen) (use F2 in simp)
      then show ?thesis
        using Some S2 G sr
        by (simp add: zero_row_sums_def DiffusionOperatorP1_contributions_def DiffusionOperatorP1_SF_INTS_def Let_def
            einsum_epi_eqi_e_e_def g_def [symmetric] JIT_def [symmetric] GR_def [symmetric]
            lenG lenGR k_def [symmetric] n_def [symmetric] D_def [symmetric] map_ravel3_tensor3)
    qed
  qed
qed

lemma example_grid_ok: "grid_ok example_grid"
  by (simp add: grid_ok_def example_grid_def n_local_def)

lemma example_boundary_info_ok: "boundary_info_ok example_grid example_boundary_info"
  by (simp add: boundary_info_ok_def example_grid_def example_boundary_info_def upt_rec)


lemma square_grads_sum_zero:
  assumes "LagrangeShapeFunctionsGrads square = GradFun f" "j < 2"
  shows "(\<Sum>q\<leftarrow>[0..<4]. f x ! q ! j) = (0::real)"
proof -
  have 4: "[0..<4] = [0, 1, 2, 3]" by (simp add: upt_rec)
  from assms(2) have "j = 0 \<or> j = 1" by auto
  with assms(1) show ?thesis by (auto simp: 4)
qed

lemma length_gradients_at: "length (gradients_at f q) = 4"
  by (simp add: gradients_at_def)

lemma gradients_at_nth:
  "p < 4 \<Longrightarrow> j < 2 \<Longrightarrow> c < length q \<Longrightarrow> gradients_at f q ! p ! j ! c = f (q ! c) ! p ! j"
  "p < 4 \<Longrightarrow> length (gradients_at f q ! p) = 2"
  by (simp_all add: gradients_at_def)

lemma einsum_eij_pjc_nth:
  "e < length JIT \<Longrightarrow> p < length G \<Longrightarrow> i < length (JIT ! e) \<Longrightarrow> c < C \<Longrightarrow>
   einsum_eij_pjc JIT G C ! e ! p ! i ! c = (\<Sum>j\<leftarrow>[0..<length (G ! p)]. JIT ! e ! i ! j * G ! p ! j ! c)"
  by (simp add: einsum_eij_pjc_def)

lemma length_einsum_eij_pjc: "length (einsum_eij_pjc JIT G C) = length JIT"
  by (simp add: einsum_eij_pjc_def)

lemma square_transformed_grads_sum_zero:
  assumes f: "LagrangeShapeFunctionsGrads square = GradFun f"
    and e: "e < length JIT" "i < length (JIT ! e)" "c < length qs"
  shows "(\<Sum>q\<leftarrow>[0..<4]. einsum_eij_pjc JIT (gradients_at f qs) (length qs) ! e ! q ! i ! c) = 0"
proof -
  have "(\<Sum>q\<leftarrow>[0..<4]. einsum_eij_pjc JIT (gradients_at f qs) (length qs) ! e ! q ! i ! c)
      = (\<Sum>q\<leftarrow>[0..<4]. \<Sum>j\<leftarrow>[0..<2]. JIT ! e ! i ! j * f (qs ! c) ! q ! j)"
  proof (rule sum_list_cong)
    fix q assume "q \<in> set [0..<4]"
    then have q: "q < 4" by simp
    have "einsum_eij_pjc JIT (gradients_at f qs) (length qs) ! e ! q ! i ! c
        = (\<Sum>j\<leftarrow>[0..<2]. JIT ! e ! i ! j * gradients_at f qs ! q ! j ! c)"
      using q by (simp add: einsum_eij_pjc_nth [OF e(1) _ e(2,3)] length_gradients_at gradients_at_nth(2))
    also have "\<dots> = (\<Sum>j\<leftarrow>[0..<2]. JIT ! e ! i ! j * f (qs ! c) ! q ! j)"
      by (rule sum_list_cong) (simp add: gradients_at_nth(1) [OF q _ e(3)])
    finally show "einsum_eij_pjc JIT (gradients_at f qs) (length qs) ! e ! q ! i ! c
        = (\<Sum>j\<leftarrow>[0..<2]. JIT ! e ! i ! j * f (qs ! c) ! q ! j)" .
  qed
  also have "\<dots> = (\<Sum>j\<leftarrow>[0..<2]. \<Sum>q\<leftarrow>[0..<4]. JIT ! e ! i ! j * f (qs ! c) ! q ! j)"
    by (rule sum_list_swap)
  also have "\<dots> = (\<Sum>j\<leftarrow>[0..<2]. JIT ! e ! i ! j * (\<Sum>q\<leftarrow>[0..<4]. f (qs ! c) ! q ! j))"
    by (simp only: sum_list_const_mult)
  also have "\<dots> = (\<Sum>j\<leftarrow>[0..<2]. JIT ! e ! i ! j * 0)"
    by (rule sum_list_cong) (simp add: square_grads_sum_zero [OF f])
  finally show ?thesis by simp
qed

text \<open>Each row of an element stiffness block of the square sums to zero.\<close>

lemma local_row_sum_zero_square:
  assumes f: "LagrangeShapeFunctionsGrads square = GradFun f"
    and e: "e < length JIT" "length (JIT ! e) = d" and w: "length w = length qs"
  shows "(\<Sum>q\<leftarrow>[0..<4]. \<Sum>i\<leftarrow>[0..<d]. \<Sum>c\<leftarrow>[0..<length w].
            a i c * (einsum_eij_pjc JIT (gradients_at f qs) (length qs) ! e ! q ! i ! c)) = 0"
proof -
  let ?GR = "einsum_eij_pjc JIT (gradients_at f qs) (length qs)"
  have "(\<Sum>q\<leftarrow>[0..<4]. \<Sum>i\<leftarrow>[0..<d]. \<Sum>c\<leftarrow>[0..<length w]. a i c * (?GR ! e ! q ! i ! c))
      = (\<Sum>i\<leftarrow>[0..<d]. \<Sum>q\<leftarrow>[0..<4]. \<Sum>c\<leftarrow>[0..<length w]. a i c * (?GR ! e ! q ! i ! c))"
    by (rule sum_list_swap)
  also have "\<dots> = (\<Sum>i\<leftarrow>[0..<d]. \<Sum>c\<leftarrow>[0..<length w]. \<Sum>q\<leftarrow>[0..<4]. a i c * (?GR ! e ! q ! i ! c))"
    by (rule sum_list_cong) (rule sum_list_swap)
  also have "\<dots> = (\<Sum>i\<leftarrow>[0..<d]. \<Sum>c\<leftarrow>[0..<length w]. a i c * (\<Sum>q\<leftarrow>[0..<4]. ?GR ! e ! q ! i ! c))"
    by (simp only: sum_list_const_mult)
  also have "\<dots> = 0"
  proof (rule sum_list_zero, rule sum_list_zero)
    fix i c assume "i \<in> set [0..<d]" "c \<in> set [0..<length w]"
    then have "i < length (JIT ! e)" "c < length qs" using e w by simp_all
    then show "a i c * (\<Sum>q\<leftarrow>[0..<4]. ?GR ! e ! q ! i ! c) = 0"
      by (simp add: square_transformed_grads_sum_zero [OF f e(1)])
  qed
  finally show ?thesis .
qed

text \<open>The rows of the stiffness matrix of a square grid.\<close>

lemma diffusion_Q1_row_sums_zero:
  assumes ok: "grid_ok (grid op)"
    and ref: "reference_element (grid op) = square"
    and qs: "quadrature_shape (grid op)"
    and sd: "scalar_diffusion op"
  shows "case DiffusionOperatorQ1_contributions op mu of
           Inl err \<Rightarrow> False
         | Inr c \<Rightarrow> zero_row_sums (contributions_matrix (grid op) c)
                      (size_of (grid op) (dim (grid op)))"
proof -
  have scal: "\<forall>df. diffusion_function op = Some df \<longrightarrow> shape_range df = []"
    using sd by (auto simp: scalar_diffusion_def)
  define g where "g = grid op"
  define n where "n = size_of g (dim g)"
  define JIT where "JIT = jacobian_inverse_transposed g"
  define ie where "ie = integration_elements g"
  obtain q w where qw: "quadrature g square 2 = (q, w)"
    by (cases "quadrature g square 2") auto
  have lw: "length w = length q"
    using qs qw ref by (simp add: quadrature_shape_def g_def)
  obtain f where f: "LagrangeShapeFunctionsGrads square = GradFun f" by simp
  have r: "reference_element g = square" using ref by (simp add: g_def)
  have dimg: "dim g = 2" using ok r by (simp add: grid_ok_def g_def)
  define E where "E = length JIT"
  have sub: "length (subentities g) = E" "\<And>row. row \<in> set (subentities g) \<Longrightarrow> length row = 4"
      "\<And>row c. row \<in> set (subentities g) \<Longrightarrow> c \<in> set row \<Longrightarrow> c < n"
    using ok r by (auto simp: grid_ok_def g_def E_def JIT_def n_def n_local_def)
  have J: "\<And>e. e < E \<Longrightarrow> length (JIT ! e) = dim g"
    using ok by (auto simp: grid_ok_def g_def E_def JIT_def)
  define GR where "GR = einsum_eij_pjc JIT (gradients_at f q) (length q)"
  have zero: "\<And>a e. e < E \<Longrightarrow>
      (\<Sum>q\<leftarrow>[0..<4]. \<Sum>i\<leftarrow>[0..<dim g]. \<Sum>c\<leftarrow>[0..<length w]. a i c * (GR ! e ! q ! i ! c)) = 0"
    unfolding GR_def
    by (rule local_row_sum_zero_square [OF f _ _ lw]) (simp_all add: E_def J)
  have gen: "\<And>F. (\<And>e p. e < E \<Longrightarrow> p < 4 \<Longrightarrow> (\<Sum>q\<leftarrow>[0..<4]. F e p q) = 0) \<Longrightarrow>
      \<forall>i<n. row_sum (contributions_matrix g
        (ravel3 (tensor3 E 4 4 F), repeat_ravel (subentities g) 4, tile_ravel (subentities g) 4)) i = 0"
    unfolding contributions_matrix_def n_def [symmetric]
    by (simp add: scattered_row_sum_zero [OF sub])
  have F1: "\<And>e p c. e < E \<Longrightarrow>
      (\<Sum>q\<leftarrow>[0..<4]. (\<Sum>i\<leftarrow>[0..<dim g]. \<Sum>k\<leftarrow>[0..<length w].
          GR ! e ! p ! i ! k * GR ! e ! q ! i ! k * w ! k * ie ! e) * c) = 0"
  proof -
    fix e p c assume e: "e < E"
    have "(\<Sum>q\<leftarrow>[0..<4]. (\<Sum>i\<leftarrow>[0..<dim g]. \<Sum>k\<leftarrow>[0..<length w].
          GR ! e ! p ! i ! k * GR ! e ! q ! i ! k * w ! k * ie ! e) * c)
        = (\<Sum>q\<leftarrow>[0..<4]. \<Sum>i\<leftarrow>[0..<dim g]. \<Sum>k\<leftarrow>[0..<length w].
            (GR ! e ! p ! i ! k * w ! k * ie ! e * c) * (GR ! e ! q ! i ! k))"
      by (simp only: sum_list_mult_const [symmetric] sum_list_const_mult [symmetric] mult_ac)
    then show "(\<Sum>q\<leftarrow>[0..<4]. (\<Sum>i\<leftarrow>[0..<dim g]. \<Sum>k\<leftarrow>[0..<length w].
          GR ! e ! p ! i ! k * GR ! e ! q ! i ! k * w ! k * ie ! e) * c) = 0"
      using zero [OF e] by simp
  qed
  have F2: "\<And>e p c D. e < E \<Longrightarrow>
      (\<Sum>q\<leftarrow>[0..<4]. (\<Sum>i\<leftarrow>[0..<dim g]. \<Sum>k\<leftarrow>[0..<length w].
          GR ! e ! p ! i ! k * GR ! e ! q ! i ! k * w ! k * ie ! e * D ! e) * c) = 0"
  proof -
    fix e p c and D :: "real list" assume e: "e < E"
    have "(\<Sum>q\<leftarrow>[0..<4]. (\<Sum>i\<leftarrow>[0..<dim g]. \<Sum>k\<leftarrow>[0..<length w].
          GR ! e ! p ! i ! k * GR ! e ! q ! i ! k * w ! k * ie ! e * D ! e) * c)
        = (\<Sum>q\<leftarrow>[0..<4]. \<Sum>i\<leftarrow>[0..<dim g]. \<Sum>k\<leftarrow>[0..<length w].
            (GR ! e ! p ! i ! k * w ! k * ie ! e * D ! e * c) * (GR ! e ! q ! i ! k))"
      by (simp only: sum_list_mult_const [symmetric] sum_list_const_mult [symmetric] mult_ac)
    then show "(\<Sum>q\<leftarrow>[0..<4]. (\<Sum>i\<leftarrow>[0..<dim g]. \<Sum>k\<leftarrow>[0..<length w].
          GR ! e ! p ! i ! k * GR ! e ! q ! i ! k * w ! k * ie ! e * D ! e) * c) = 0"
      using zero [OF e] by simp
  qed
  have lenGR: "length GR = E" by (simp add: GR_def length_einsum_eij_pjc E_def)
  note feq = f [simplified]
  note defs = zero_row_sums_def DiffusionOperatorQ1_contributions_def DiffusionOperatorQ1_SF_INTS_def
    Let_def g_def [symmetric] r qw feq JIT_def [symmetric] GR_def [symmetric] ie_def [symmetric]
    length_gradients_at lenGR n_def [symmetric]
  show ?thesis
  proof (cases "diffusion_function op")
    case None
    show ?thesis
    proof (cases "diffusion_constant op")
      case N2: None
      have "\<forall>i<n. row_sum (contributions_matrix g
        (ravel3 (tensor3 E 4 4 (\<lambda>e p q. (\<Sum>i\<leftarrow>[0..<dim g]. \<Sum>k\<leftarrow>[0..<length w].
            GR ! e ! p ! i ! k * GR ! e ! q ! i ! k * w ! k * ie ! e))),
           repeat_ravel (subentities g) 4, tile_ravel (subentities g) 4)) i = 0"
        by (rule gen) (use F1 [where c = 1] in simp)
      then show ?thesis
        using None N2 by (simp add: defs einsum_epic_eqic_c_e_def)
    next
      case (Some c)
      have "\<forall>i<n. row_sum (contributions_matrix g
        (ravel3 (tensor3 E 4 4 (\<lambda>e p q. (\<Sum>i\<leftarrow>[0..<dim g]. \<Sum>k\<leftarrow>[0..<length w].
            GR ! e ! p ! i ! k * GR ! e ! q ! i ! k * w ! k * ie ! e) * c)),
           repeat_ravel (subentities g) 4, tile_ravel (subentities g) 4)) i = 0"
        by (rule gen) (use F1 in simp)
      then show ?thesis
        using None Some by (simp add: defs einsum_epic_eqic_c_e_def map_ravel3_tensor3)
    qed
  next
    case (Some df)
    then have sr: "shape_range df = []" using scal by simp
    define D where "D = map (\<lambda>x. scalar_value df x mu) (centers g)"
    show ?thesis
    proof (cases "diffusion_constant op")
      case N2: None
      have "\<forall>i<n. row_sum (contributions_matrix g
        (ravel3 (tensor3 E 4 4 (\<lambda>e p q. (\<Sum>i\<leftarrow>[0..<dim g]. \<Sum>k\<leftarrow>[0..<length w].
            GR ! e ! p ! i ! k * GR ! e ! q ! i ! k * w ! k * ie ! e * D ! e))),
           repeat_ravel (subentities g) 4, tile_ravel (subentities g) 4)) i = 0"
        by (rule gen) (use F2 [where c = 1] in simp)
      then show ?thesis
        using Some N2 sr by (simp add: defs einsum_epic_eqic_c_e_e_def D_def [symmetric])
    next
      case S2: (Some c)
      have "\<forall>i<n. row_sum (contributions_matrix g
        (ravel3 (tensor3 E 4 4 (\<lambda>e p q. (\<Sum>i\<leftarrow>[0..<dim g]. \<Sum>k\<leftarrow>[0..<length w].
            GR ! e ! p ! i ! k * GR ! e ! q ! i ! k * w ! k * ie ! e * D ! e) * c)),
           repeat_ravel (subentities g) 4, tile_ravel (subentities g) 4)) i = 0"
        by (rule gen) (use F2 in simp)
      then show ?thesis
        using Some S2 sr
        by (simp add: defs einsum_epic_eqic_c_e_e_def D_def [symmetric] map_ravel3_tensor3)
    qed
  qed
qed

lemma example_square_grid_ok: "grid_ok example_square_grid"
  by (simp add: grid_ok_def example_square_grid_def n_local_def)

lemma example_square_boundary_info_ok:
  "boundary_info_ok example_square_grid example_square_boundary_info"
  by (simp add: boundary_info_ok_def example_square_grid_def example_square_boundary_info_def upt_rec)

text \<open>
  C3. For every well-shaped grid (of lines, triangles or squares) and every scalar diffusion
  coefficient (a constant one in particular, or none), the assembly of the diffusion
  operator of the grid (\<^verbatim>\<open>DiffusionOperatorQ1\<close> on squares, \<^verbatim>\<open>DiffusionOperatorP1\<close>
  on lines and triangles) reaches the boundary treatment, and in the matrix of its
  contributions before the Dirichlet clearing every row sums to zero.
\<close>

theorem diffusion_row_sums_zero:
  assumes ok: "grid_ok (grid op)" and qs: "quadrature_shape (grid op)"
    and sd: "scalar_diffusion op"
  shows "case (if reference_element (grid op) = square
               then DiffusionOperatorQ1_contributions op mu
               else DiffusionOperatorP1_contributions op mu) of
           Inl err \<Rightarrow> False
         | Inr c \<Rightarrow> zero_row_sums (contributions_matrix (grid op) c)
                      (size_of (grid op) (dim (grid op)))"
proof (cases "reference_element (grid op) = square")
  case True
  then show ?thesis
    using diffusion_Q1_row_sums_zero [OF ok True qs sd, of mu] by simp
next
  case False
  then have ref: "reference_element (grid op) \<in> {line, triangle}"
    by (cases "reference_element (grid op)") auto
  show ?thesis
    using diffusion_P1_row_sums_zero [OF ok ref sd, of mu] False by simp
qed

theorem diffusion_row_sums_zero_witness:
  "grid_ok (grid example_square_DiffusionOperator)
   \<and> quadrature_shape (grid example_square_DiffusionOperator)
   \<and> scalar_diffusion example_square_DiffusionOperator
   \<and> (case (if reference_element (grid example_square_DiffusionOperator) = square
             then DiffusionOperatorQ1_contributions example_square_DiffusionOperator []
             else DiffusionOperatorP1_contributions example_square_DiffusionOperator []) of
         Inl err \<Rightarrow> False
       | Inr c \<Rightarrow> zero_row_sums (contributions_matrix (grid example_square_DiffusionOperator) c)
                    (size_of (grid example_square_DiffusionOperator)
                       (dim (grid example_square_DiffusionOperator))))"
proof -
  have g: "grid example_square_DiffusionOperator = example_square_grid"
    by (simp add: example_square_DiffusionOperator_def)
  have h1: "grid_ok (grid example_square_DiffusionOperator)"
    by (simp add: g example_square_grid_ok)
  have h2: "quadrature_shape (grid example_square_DiffusionOperator)"
    by (simp add: g quadrature_shape_def example_square_grid_def example_quadrature_def)
  have h3: "scalar_diffusion example_square_DiffusionOperator"
    by (simp add: example_square_DiffusionOperator_def scalar_diffusion_def example_coefficient_def)
  show ?thesis
    using diffusion_row_sums_zero [OF h1 h2 h3, of "[]"] h1 h2 h3 by simp
qed

text \<open>
  The matrices of the contributions on the two squares and on the two triangles, before the
  boundary treatment.
\<close>

lemma diffusion_contributions_on_examples:
  "(case DiffusionOperatorQ1_contributions example_square_DiffusionOperator [] of
      Inl err \<Rightarrow> Inl err
    | Inr c \<Rightarrow> Inr (contributions_matrix example_square_grid c))
   = Inr [[15/8, -3/8, 0, -3/8, -9/8, 0],
          [-3/8, 15/4, -3/8, -9/8, -3/4, -9/8],
          [0, -3/8, 15/8, 0, -9/8, -3/8],
          [-3/8, -9/8, 0, 15/8, -3/8, 0],
          [-9/8, -3/4, -9/8, -3/8, 15/4, -3/8],
          [0, -9/8, -3/8, 0, -3/8, 15/8]]"
  "(case DiffusionOperatorP1_contributions example_DiffusionOperator [] of
      Inl err \<Rightarrow> Inl err
    | Inr c \<Rightarrow> Inr (contributions_matrix example_grid c))
   = Inr [[25/8, -2, 0, -9/8], [-2, 25/8, -9/8, 0], [0, -9/8, 25/8, -2], [-9/8, 0, -2, 25/8]]"
  by code_simp+

subsection \<open>The diagonal of the Dirichlet DOFs\<close>

lemma L2Product_SF_INTS_length:
  "length (L2Product_SF_INTS op qw mu)
   = length (integration_elements (grid op))
       * (n_local (reference_element (grid op)) * n_local (reference_element (grid op)))"
  by (cases qw)
     (simp add: L2Product_SF_INTS_def Let_def einsum_iq_jq_q_e_def einsum_iq_jq_q_e_e_def
        length_ravel3_tensor3 shape_functions_at_def n_local_def split: option.split)

lemma P1_n_local:
  "grid_ok g \<Longrightarrow> reference_element g \<in> {line, triangle} \<Longrightarrow> n_local (reference_element g) = dim g + 1"
  by (cases "reference_element g") (auto simp: grid_ok_def n_local_def)

lemma DiffusionOperatorP1_SF_INTS_length:
  assumes "reference_element (grid op) \<in> {line, triangle}"
  shows "\<exists>SF_INTS. DiffusionOperatorP1_SF_INTS op mu = Inr SF_INTS
     \<and> length SF_INTS = length (jacobian_inverse_transposed (grid op))
         * (n_local (reference_element (grid op)) * n_local (reference_element (grid op)))"
  using assms
  by (cases "reference_element (grid op)")
     (auto simp: DiffusionOperatorP1_SF_INTS_def Let_def einsum_epi_eqi_e_def einsum_epi_eqi_e_e_def
        einsum_epi_eqj_e_eij_def length_ravel3_tensor3 length_einsum_eij_pj n_local_def
        split: option.split)

lemma square_n_local: "n_local square = 4"
  by (simp add: n_local_def)

lemma unit_dirichlet_assembled:
  assumes bi: "boundary_info_ok g bi" "has_dirichlet bi" "rows \<or> cols" "\<not> diag"
    and ok: "grid_ok g" and k: "n_local (reference_element g) = k"
    and len: "length SF_INTS = size_of g 0 * (k * k)"
  shows "unit_dirichlet
           (assemble_system_matrix g bi rows cols diag
              (SF_INTS, repeat_ravel (subentities g) k, tile_ravel (subentities g) k))
           (size_of g (dim g)) (dirichlet_boundaries bi) rows cols"
proof -
  have rows: "\<And>row. row \<in> set (subentities g) \<Longrightarrow> length row = k"
    using ok k by (simp add: grid_ok_def)
  have E: "length (subentities g) = size_of g 0"
    using ok by (simp add: grid_ok_def)
  have I0: "length (repeat_ravel (subentities g) k) = size_of g 0 * (k * k)"
    using length_repeat_ravel [of "subentities g" k k] rows E by simp
  have I1: "length (tile_ravel (subentities g) k) = size_of g 0 * (k * k)"
    using length_tile_ravel [of "subentities g" k k] rows E by simp
  show ?thesis
    by (rule treated_unit_dirichlet [OF bi]) (simp_all add: len I0 I1)
qed

lemma DiffusionOperatorQ1_SF_INTS_length:
  assumes "reference_element (grid op) = square"
  shows "\<exists>SF_INTS. DiffusionOperatorQ1_SF_INTS op mu = Inr SF_INTS
     \<and> length SF_INTS = length (jacobian_inverse_transposed (grid op)) * (4 * 4)"
proof -
  obtain q w where qw: "quadrature (grid op) square 2 = (q, w)"
    by (cases "quadrature (grid op) square 2") auto
  show ?thesis
    using assms
    by (auto simp: DiffusionOperatorQ1_SF_INTS_def Let_def qw einsum_epic_eqic_c_e_def
        einsum_epic_eqic_c_e_e_def einsum_epic_eqjc_c_e_eij_def length_ravel3_tensor3
        length_einsum_eij_pjc length_gradients_at split: option.split)
qed

lemma AdvectionOperatorP1_unit_dirichlet:
  assumes ok: "grid_ok (grid op)" "boundary_info_ok (grid op) bi" and hd: "has_dirichlet bi"
    and ref: "reference_element (grid op) \<in> {line, triangle}"
    and av: "boundary_info op = Some bi" "\<not> dirichlet_clear_diag op" "advection_function op = Some af"
  shows "case AdvectionOperatorP1_assemble op mu of
            Inl err \<Rightarrow> False
          | Inr A \<Rightarrow> unit_dirichlet A (size_of (grid op) (dim (grid op))) (dirichlet_boundaries bi)
                      True (dirichlet_clear_columns op)"
proof -
  define g where "g = grid op"
  obtain q w where qw: "quadrature g (reference_element g) (Suc 0) = (q, w)"
    by (cases "quadrature g (reference_element g) (Suc 0)") auto
  obtain G where G: "LagrangeShapeFunctionsGrads (reference_element g) = GradArray G"
    using ref by (cases "reference_element g") (auto simp: g_def)
  have k: "n_local (reference_element g) = Suc (dim g)"
    using P1_n_local [OF ok(1) ref] by (simp add: g_def)
  have E: "length (jacobian_inverse_transposed g) = size_of g 0"
    using ok(1) by (simp add: grid_ok_def g_def)
  have U: "\<And>S. length S = size_of g 0 * (Suc (dim g) * Suc (dim g)) \<Longrightarrow>
      unit_dirichlet
        (assemble_system_matrix g bi True (dirichlet_clear_columns op) (dirichlet_clear_diag op)
           (S, repeat_ravel (subentities g) (Suc (dim g)), tile_ravel (subentities g) (Suc (dim g))))
        (size_of g (dim g)) (dirichlet_boundaries bi) True (dirichlet_clear_columns op)"
    by (rule unit_dirichlet_assembled [OF ok(2) [folded g_def] hd _ av(2) ok(1) [folded g_def] k]) simp_all
  show ?thesis
    using av(1,3)
    by (cases "advection_constant op")
       (simp_all add: AdvectionOperatorP1_assemble_def Let_def g_def [symmetric] qw G
          einsum_pc_eqi_c_e_ei_def U length_ravel3_tensor3 length_einsum_eij_pj
          length_shape_functions_at k E)
qed

lemma AdvectionOperatorQ1_unit_dirichlet:
  assumes ok: "grid_ok (grid op)" "boundary_info_ok (grid op) bi" and hd: "has_dirichlet bi"
    and ref: "reference_element (grid op) = square"
    and av: "boundary_info op = Some bi" "\<not> dirichlet_clear_diag op" "advection_function op = Some af"
  shows "case AdvectionOperatorQ1_assemble op mu of
            Inl err \<Rightarrow> False
          | Inr A \<Rightarrow> unit_dirichlet A (size_of (grid op) (dim (grid op))) (dirichlet_boundaries bi)
                      True (dirichlet_clear_columns op)"
proof -
  define g where "g = grid op"
  have r: "reference_element g = square" using ref by (simp add: g_def)
  obtain q w where qw: "quadrature g square 2 = (q, w)"
    by (cases "quadrature g square 2") auto
  have k: "n_local (reference_element g) = 4"
    using r by (simp add: square_n_local)
  have E: "length (jacobian_inverse_transposed g) = size_of g 0"
    using ok(1) by (simp add: grid_ok_def g_def)
  have U: "\<And>S. length S = size_of g 0 * (4 * 4) \<Longrightarrow>
      unit_dirichlet
        (assemble_system_matrix g bi True (dirichlet_clear_columns op) (dirichlet_clear_diag op)
           (S, repeat_ravel (subentities g) 4, tile_ravel (subentities g) 4))
        (size_of g (dim g)) (dirichlet_boundaries bi) True (dirichlet_clear_columns op)"
    by (rule unit_dirichlet_assembled [OF ok(2) [folded g_def] hd _ av(2) ok(1) [folded g_def] k]) simp_all
  show ?thesis
    using av(1,3)
    by (cases "advection_constant op")
       (simp_all add: AdvectionOperatorQ1_assemble_def Let_def g_def [symmetric] r qw
          einsum_pc_eqic_c_e_ei_def U length_ravel3_tensor3 length_einsum_eij_pjc
          length_shape_functions_at square_n_local E)
qed

text \<open>
  C2 (amended). On a well-shaped grid with a Dirichlet boundary, when
  \<^verbatim>\<open>dirichlet_clear_diag\<close> is false and rows or columns are cleared, the matrix assembled
  by each of \<^verbatim>\<open>L2ProductP1\<close>, \<^verbatim>\<open>DiffusionOperatorP1\<close> and \<^verbatim>\<open>AdvectionOperatorP1\<close>
  (on lines and triangles) and of \<^verbatim>\<open>L2ProductQ1\<close>, \<^verbatim>\<open>DiffusionOperatorQ1\<close> and
  \<^verbatim>\<open>AdvectionOperatorQ1\<close> (on squares) has the entry 1 at \<open>(d, d)\<close> for every Dirichlet
  DOF \<open>d\<close>; the other entries of row \<open>d\<close> are zero when the rows are cleared, which the
  diffusion and advection operators always do, and the other entries of column \<open>d\<close> are
  zero when the columns are cleared. The advection operator has an advection function
  (without one its assembly calls \<^verbatim>\<open>None\<close>).
\<close>

theorem dirichlet_unit_diagonal:
  assumes ok: "grid_ok g" "boundary_info_ok g bi" and hd: "has_dirichlet bi"
    and l2: "grid l2 = g" "boundary_info l2 = Some bi" "\<not> dirichlet_clear_diag l2"
      "dirichlet_clear_rows l2 \<or> dirichlet_clear_columns l2"
    and df: "grid dop = g" "boundary_info dop = Some bi" "\<not> dirichlet_clear_diag dop"
    and av: "grid aop = g" "boundary_info aop = Some bi" "\<not> dirichlet_clear_diag aop"
      "advection_function aop = Some af"
  shows "(case (if reference_element g = square then L2ProductQ1_assemble l2 mu
                else L2ProductP1_assemble l2 mu) of
            Inl err \<Rightarrow> False
          | Inr A \<Rightarrow> unit_dirichlet A (size_of g (dim g)) (dirichlet_boundaries bi)
                      (dirichlet_clear_rows l2) (dirichlet_clear_columns l2))
       \<and> (case (if reference_element g = square then DiffusionOperatorQ1_assemble dop mu
                else DiffusionOperatorP1_assemble dop mu) of
            Inl err \<Rightarrow> False
          | Inr A \<Rightarrow> unit_dirichlet A (size_of g (dim g)) (dirichlet_boundaries bi)
                      True (dirichlet_clear_columns dop))
       \<and> (case (if reference_element g = square then AdvectionOperatorQ1_assemble aop mu
                else AdvectionOperatorP1_assemble aop mu) of
            Inl err \<Rightarrow> False
          | Inr A \<Rightarrow> unit_dirichlet A (size_of g (dim g)) (dirichlet_boundaries bi)
                      True (dirichlet_clear_columns aop))"
proof -
  have E: "length (integration_elements g) = size_of g 0"
      "length (jacobian_inverse_transposed g) = size_of g 0"
    using ok(1) by (simp_all add: grid_ok_def)
  note U = unit_dirichlet_assembled [OF ok(2) hd _ _ ok(1)]
  show ?thesis
  proof (cases "reference_element g = square")
    case True
    have k: "n_local (reference_element g) = 4" using True by (simp add: square_n_local)
    have A: "length (L2Product_SF_INTS l2 (quadrature g square 2) mu) = size_of g 0 * (4 * 4)"
      by (simp only: L2Product_SF_INTS_length l2(1) k E)
    have first: "case L2ProductQ1_assemble l2 mu of
            Inl err \<Rightarrow> False
          | Inr A \<Rightarrow> unit_dirichlet A (size_of g (dim g)) (dirichlet_boundaries bi)
                      (dirichlet_clear_rows l2) (dirichlet_clear_columns l2)"
      using U [OF l2(4) l2(3) k A] l2(1,2)
      by (simp add: L2ProductQ1_assemble_def Let_def)
    obtain S where S: "DiffusionOperatorQ1_SF_INTS dop mu = Inr S"
        "length S = size_of g 0 * (4 * 4)"
      using DiffusionOperatorQ1_SF_INTS_length [of dop mu] True df(1) E by auto
    have second: "case DiffusionOperatorQ1_assemble dop mu of
            Inl err \<Rightarrow> False
          | Inr A \<Rightarrow> unit_dirichlet A (size_of g (dim g)) (dirichlet_boundaries bi)
                      True (dirichlet_clear_columns dop)"
      using U [OF _ df(3) k S(2), where rows = True] df(1,2) S(1)
      by (simp add: DiffusionOperatorQ1_assemble_def DiffusionOperatorQ1_contributions_def Let_def)
    have third: "case AdvectionOperatorQ1_assemble aop mu of
            Inl err \<Rightarrow> False
          | Inr A \<Rightarrow> unit_dirichlet A (size_of g (dim g)) (dirichlet_boundaries bi)
                      True (dirichlet_clear_columns aop)"
      by (rule AdvectionOperatorQ1_unit_dirichlet [of aop bi af mu, unfolded av(1), OF ok hd True av(2,3,4)])
    from first second third True show ?thesis by simp
  next
    case False
    then have ref: "reference_element g \<in> {line, triangle}"
      by (cases "reference_element g") auto
    have k: "n_local (reference_element g) = dim g + 1" by (rule P1_n_local [OF ok(1) ref])
    have A: "length (L2Product_SF_INTS l2 (quadrature g (reference_element g) 2) mu)
        = size_of g 0 * ((dim g + 1) * (dim g + 1))"
      by (simp only: L2Product_SF_INTS_length l2(1) k E)
    have first: "case L2ProductP1_assemble l2 mu of
            Inl err \<Rightarrow> False
          | Inr A \<Rightarrow> unit_dirichlet A (size_of g (dim g)) (dirichlet_boundaries bi)
                      (dirichlet_clear_rows l2) (dirichlet_clear_columns l2)"
      using U [OF l2(4) l2(3) k A] l2(1,2)
      by (simp add: L2ProductP1_assemble_def Let_def)
    obtain S where S: "DiffusionOperatorP1_SF_INTS dop mu = Inr S"
        "length S = size_of g 0 * ((dim g + 1) * (dim g + 1))"
      using DiffusionOperatorP1_SF_INTS_length [of dop mu] ref df(1) k E by auto
    have second: "case DiffusionOperatorP1_assemble dop mu of
            Inl err \<Rightarrow> False
          | Inr A \<Rightarrow> unit_dirichlet A (size_of g (dim g)) (dirichlet_boundaries bi)
                      True (dirichlet_clear_columns dop)"
      using U [OF _ df(3) k S(2), where rows = True] df(1,2) S(1)
      by (simp add: DiffusionOperatorP1_assemble_def DiffusionOperatorP1_contributions_def Let_def)
    have third: "case AdvectionOperatorP1_assemble aop mu of
            Inl err \<Rightarrow> False
          | Inr A \<Rightarrow> unit_dirichlet A (size_of g (dim g)) (dirichlet_boundaries bi)
                      True (dirichlet_clear_columns aop)"
      by (rule AdvectionOperatorP1_unit_dirichlet [of aop bi af mu, unfolded av(1), OF ok hd ref av(2,3,4)])
    from first second third False show ?thesis by simp
  qed
qed

theorem dirichlet_unit_diagonal_witness:
  "grid_ok example_grid \<and> boundary_info_ok example_grid example_boundary_info
   \<and> has_dirichlet example_boundary_info
   \<and> (case (if reference_element example_grid = square
             then L2ProductQ1_assemble example_L2Product_default []
             else L2ProductP1_assemble example_L2Product_default []) of
            Inl err \<Rightarrow> False
          | Inr A \<Rightarrow> unit_dirichlet A (size_of example_grid (dim example_grid))
                      (dirichlet_boundaries example_boundary_info)
                      (dirichlet_clear_rows example_L2Product_default)
                      (dirichlet_clear_columns example_L2Product_default))
   \<and> (case (if reference_element example_grid = square
             then DiffusionOperatorQ1_assemble example_DiffusionOperator []
             else DiffusionOperatorP1_assemble example_DiffusionOperator []) of
            Inl err \<Rightarrow> False
          | Inr A \<Rightarrow> unit_dirichlet A (size_of example_grid (dim example_grid))
                      (dirichlet_boundaries example_boundary_info)
                      True (dirichlet_clear_columns example_DiffusionOperator))
   \<and> (case (if reference_element example_grid = square
             then AdvectionOperatorQ1_assemble example_AdvectionOperator []
             else AdvectionOperatorP1_assemble example_AdvectionOperator []) of
            Inl err \<Rightarrow> False
          | Inr A \<Rightarrow> unit_dirichlet A (size_of example_grid (dim example_grid))
                      (dirichlet_boundaries example_boundary_info)
                      True (dirichlet_clear_columns example_AdvectionOperator))"
proof -
  have h2: "has_dirichlet example_boundary_info"
    by (simp add: example_boundary_info_def)
  have l2: "grid example_L2Product_default = example_grid"
      "boundary_info example_L2Product_default = Some example_boundary_info"
      "\<not> dirichlet_clear_diag example_L2Product_default"
      "dirichlet_clear_rows example_L2Product_default \<or> dirichlet_clear_columns example_L2Product_default"
    by (simp_all add: example_L2Product_default_def)
  have df: "grid example_DiffusionOperator = example_grid"
      "boundary_info example_DiffusionOperator = Some example_boundary_info"
      "\<not> dirichlet_clear_diag example_DiffusionOperator"
    by (simp_all add: example_DiffusionOperator_def)
  have av: "grid example_AdvectionOperator = example_grid"
      "boundary_info example_AdvectionOperator = Some example_boundary_info"
      "\<not> dirichlet_clear_diag example_AdvectionOperator"
      "advection_function example_AdvectionOperator = Some example_advection"
    by (simp_all add: example_AdvectionOperator_def)
  show ?thesis
    using dirichlet_unit_diagonal [OF example_grid_ok example_boundary_info_ok h2 l2 df av, of "[]"]
      example_grid_ok example_boundary_info_ok h2
    by simp
qed

text \<open>The matrices assembled on the two squares and by the advection operator on the two triangles.\<close>

lemma assembled_on_examples:
  "L2ProductQ1_assemble example_square_L2Product []
   = Inr [[1, 0, 0, 0, 0, 0],
          [15/256, 25/128, 15/256, 9/256, 15/128, 9/256],
          [0, 15/256, 25/256, 0, 9/256, 15/256],
          [0, 0, 0, 1, 0, 0],
          [9/256, 15/128, 9/256, 15/256, 25/128, 15/256],
          [0, 9/256, 15/256, 0, 15/256, 25/256]]"
  "DiffusionOperatorQ1_assemble example_square_DiffusionOperator []
   = Inr [[1, 0, 0, 0, 0, 0],
          [-3/8, 15/4, -3/8, -9/8, -3/4, -9/8],
          [0, -3/8, 15/8, 0, -9/8, -3/8],
          [0, 0, 0, 1, 0, 0],
          [-9/8, -3/4, -9/8, -3/8, 15/4, -3/8],
          [0, -9/8, -3/8, 0, -3/8, 15/8]]"
  "AdvectionOperatorQ1_assemble example_square_AdvectionOperator []
   = Inr [[1, 0, 0, 0, 0, 0],
          [0, 5/8, 11/32, 0, 5/8, 9/32],
          [0, 1/32, 5/32, 0, 3/32, 7/32],
          [0, 0, 0, 1, 0, 0],
          [0, -5/8, -3/32, 0, -5/8, -1/32],
          [0, -9/32, -13/32, 0, -11/32, -15/32]]"
  "AdvectionOperatorP1_assemble example_AdvectionOperator []
   = Inr [[1, 0, 0, 0], [0, 1/3, 1/3, 0], [0, -1, -5/3, -2/3], [0, 0, -1/3, -1/3]]"
  by code_simp+

text \<open>Without an advection function the advection operators cannot be assembled.\<close>

lemma advection_without_function:
  assumes "advection_function op = None"
  shows "\<not> returns (AdvectionOperatorP1_assemble op mu)"
    "\<not> returns (AdvectionOperatorQ1_assemble op mu)"
  using assms
  by (auto simp: returns_def AdvectionOperatorP1_assemble_def AdvectionOperatorQ1_assemble_def
      Let_def split: prod.splits shape_grads.splits)

text \<open>
  With only the columns cleared, the row of the Dirichlet DOF 0 keeps its entries outside
  the diagonal: the claim that they are all zero fails.
\<close>

theorem dirichlet_row_kept_counterexample:
  "has_dirichlet example_boundary_info
   \<and> dirichlet_clear_columns example_L2Product_columns
   \<and> \<not> dirichlet_clear_diag example_L2Product_columns
   \<and> L2ProductP1_assemble example_L2Product_columns []
       = Inr [[1, 1/2, 1, 1/2], [0, 1, 1/2, 0], [0, 1/2, 2, 1/2], [0, 0, 1/2, 1]]
   \<and> \<not> unit_dirichlet [[1, 1/2, 1, 1/2], [0, 1, 1/2, 0], [0, 1/2, 2, 1/2], [0, 0, 1/2, 1]]
         4 (dirichlet_boundaries example_boundary_info) True True"
proof -
  have a: "has_dirichlet example_boundary_info
   \<and> dirichlet_clear_columns example_L2Product_columns
   \<and> \<not> dirichlet_clear_diag example_L2Product_columns"
    by (simp add: example_boundary_info_def example_L2Product_columns_def)
  have b: "L2ProductP1_assemble example_L2Product_columns []
       = Inr [[1, 1/2, 1, 1/2], [0, 1, 1/2, 0], [0, 1/2, 2, 1/2], [0, 0, 1/2, 1]]"
    by code_simp
  have c: "\<not> unit_dirichlet [[1, 1/2, 1, 1/2], [0, 1, 1/2, 0], [0, 1/2, 2, 1/2], [0, 0, 1/2, 1]]
         4 (dirichlet_boundaries example_boundary_info) True True"
    by (auto simp: unit_dirichlet_def example_boundary_info_def intro!: exI [of _ 1])
  from a b c show ?thesis by simp
qed


text \<open>
  C5. Clearing the contributions of the Dirichlet rows (or columns) a second time changes
  nothing, and the matrix built from the contributions cleared twice is the matrix built
  from the contributions cleared once.
\<close>

theorem dirichlet_clearing_idempotent:
  "dirichlet_clear (dirichlet_mask bi) SF_I0 (dirichlet_clear (dirichlet_mask bi) SF_I0 SF_INTS)
     = dirichlet_clear (dirichlet_mask bi) SF_I0 SF_INTS
   \<and> dirichlet_clear (dirichlet_mask bi) SF_I1 (dirichlet_clear (dirichlet_mask bi) SF_I1 SF_INTS)
     = dirichlet_clear (dirichlet_mask bi) SF_I1 SF_INTS
   \<and> contributions_matrix g
       (dirichlet_clear (dirichlet_mask bi) SF_I0 (dirichlet_clear (dirichlet_mask bi) SF_I0 SF_INTS), SF_I0, SF_I1)
     = contributions_matrix g (dirichlet_clear (dirichlet_mask bi) SF_I0 SF_INTS, SF_I0, SF_I1)"
  by (simp add: dirichlet_clear_idem)

subsection \<open>The operations of the nonlinear operator and their reference element\<close>


lemma wert_of_Inr:
  assumes "wert_of U SF sub e = Inr wert"
  shows "e < length sub" "length (sub ! e) = length SF" "length wert = 3"
  using assms
  by (auto simp: wert_of_def take_indices_def np_dot_def reshape_3_1_def
      split: if_splits sum.splits)

lemma evaluate_Inr:
  assumes "evaluate f d x mu = Inr vals"
  shows "dim_domain f = d" "vals = map (\<lambda>p. scalar_value f p mu) x"
  using assms by (auto simp: evaluate_def split: if_splits)

lemma element_loop_first:
  assumes "element_loop f mu U SF sub (e # es) (zeros_like sub) = Inr c"
  shows "length SF = 3"
proof -
  from assms obtain wert where w: "wert_of U SF sub e = Inr wert"
    by (auto split: sum.splits)
  note W = wert_of_Inr [OF w]
  from assms w obtain vals where v: "evaluate f 1 (map (\<lambda>x. [x]) wert) mu = Inr vals"
    by (auto split: sum.splits)
  have "length vals = length wert"
    using evaluate_Inr(2) [OF v] by simp
  moreover from assms w v have "length (zeros_like sub ! e) = length vals"
    by (auto split: if_splits)
  ultimately show ?thesis using W by (simp add: zeros_like_def)
qed












text \<open>On the triangle grid the operations return.\<close>

lemma nonlinear_operations_on_triangle:
  "NonlinearReactionOperator_apply (example_NonlinearReactionOperator example_grid example_boundary_info)
     [1, 2, 3, 4] [] = Inr [0, 17/4, 53/4, 37/4]"
  "NonlinearReactionOperator_jacobian (example_NonlinearReactionOperator example_grid example_boundary_info)
     [1, 2, 3, 4] [] = Inr [[0, 0, 0, 0], [3/4, 2, 5/4, 0], [2, 5/4, 5, 7/4], [5/4, 0, 7/4, 3]]"
  "quadratic_functional_jacobian (example_quadratic_functional example_grid) [1, 2, 3, 4] [1]
     = Inr [8, 4, 10, 6]"
  "element_quadratic_functional_jacobian (example_element_quadratic_functional example_grid [1, 1])
     [1, 2, 3, 4] [1] = Inr [8, 4, 10, 6]"
  by code_simp+

subsection \<open>Robin boundary operator without Robin data\<close>

lemma coo_matrix_empty: "coo_matrix [] [] [] n n = replicate n (replicate n 0)"
  by (simp add: coo_matrix_def coo_entry_def map_replicate_const)

text \<open>
  C8. On every grid whose dimension is the dimension of its reference element (1 for the
  line, 2 for the triangle and the square), \<^verbatim>\<open>RobinBoundaryOperator._assemble\<close>
  without Robin data, or with a boundary information that has no Robin boundary (or without
  boundary information), returns the zero matrix of shape \<^verbatim>\<open>size(dim) x size(dim)\<close>.
\<close>

theorem robin_zero_matrix:
  assumes "dim (grid op) = ref_dim (reference_element (grid op))" "no_robin op"
  shows "RobinBoundaryOperator_assemble op mu
         = Inr (replicate (size_of (grid op) (dim (grid op)))
                  (replicate (size_of (grid op) (dim (grid op))) 0))"
proof -
  have "dim (grid op) \<le> 2"
    using assms(1) by (cases "reference_element (grid op)") simp_all
  then show ?thesis
    using assms(2)
    by (auto simp: RobinBoundaryOperator_assemble_def Let_def no_robin_def coo_matrix_empty
        split: option.splits)
qed

theorem robin_zero_matrix_witness:
  "dim (grid (example_RobinBoundaryOperator example_grid))
     = ref_dim (reference_element (grid (example_RobinBoundaryOperator example_grid)))
   \<and> no_robin (example_RobinBoundaryOperator example_grid)
   \<and> RobinBoundaryOperator_assemble (example_RobinBoundaryOperator example_grid) []
       = Inr (replicate (size_of (grid (example_RobinBoundaryOperator example_grid))
                           (dim (grid (example_RobinBoundaryOperator example_grid))))
                (replicate (size_of (grid (example_RobinBoundaryOperator example_grid))
                             (dim (grid (example_RobinBoundaryOperator example_grid)))) 0))"
proof -
  have h1: "dim (grid (example_RobinBoundaryOperator example_grid))
     = ref_dim (reference_element (grid (example_RobinBoundaryOperator example_grid)))"
    by (simp add: example_RobinBoundaryOperator_def example_grid_def)
  have h2: "no_robin (example_RobinBoundaryOperator example_grid)"
    by (simp add: no_robin_def example_RobinBoundaryOperator_def example_boundary_info_def)
  show ?thesis
    using robin_zero_matrix [OF h1 h2, of "[]"] h1 h2 by simp
qed

text \<open>
  The assembly starts with a test of the dimension: on a grid of a dimension greater than 2
  it raises \<^verbatim>\<open>NotImplementedError\<close> before it looks at the Robin data. A well-shaped grid
  has the dimension of its reference element, which is at most 2.
\<close>

lemma robin_not_implemented:
  "2 < dim (grid op) \<Longrightarrow> RobinBoundaryOperator_assemble op mu = Inl NotImplementedError"
  by (simp add: RobinBoundaryOperator_assemble_def Let_def)

lemma grid_ok_dim: "grid_ok g \<Longrightarrow> dim g \<le> 2"
  by (cases "reference_element g") (simp_all add: grid_ok_def)

text \<open>
  C4. On the line grid the constructor of \<^verbatim>\<open>L2ProductQ1\<close> fails with an assertion, as
  the claim says, and the one of \<^verbatim>\<open>L2ProductP1\<close> succeeds. The constructor of
  \<^verbatim>\<open>NonlinearReactionOperator\<close> succeeds as well, with a reaction coefficient on the
  line, although the operator works on triangles only: the failure comes from
  \<^verbatim>\<open>apply\<close>, as the \<^verbatim>\<open>ValueError\<close> of \<^verbatim>\<open>np.reshape(wert, (3, 1))\<close> for the two
  values of the state at the quadrature points of the line.
\<close>

theorem nonlinear_init_unchecked:
  "L2ProductP1_init example_line_grid (Some example_line_boundary_info) True False False None
     = Inr \<lparr>grid = example_line_grid, boundary_info = Some example_line_boundary_info,
            dirichlet_clear_columns = False, dirichlet_clear_diag = False,
            dirichlet_clear_rows = True, coefficient_function = None\<rparr>
   \<and> L2ProductQ1_init example_line_grid (Some example_line_boundary_info) True False False None
     = Inl AssertionError
   \<and> NonlinearReactionOperator_init example_line_grid (Some example_line_boundary_info)
       example_line_coefficient example_reaction example_reaction_derivative
     = Inr example_line_NonlinearReactionOperator
   \<and> NonlinearReactionOperator_apply example_line_NonlinearReactionOperator [1, 2] []
     = Inl ValueError"
proof -
  have "NonlinearReactionOperator_apply example_line_NonlinearReactionOperator [1, 2] []
     = Inl ValueError"
    by code_simp
  then show ?thesis
    by (simp add: L2ProductP1_init_def L2ProductQ1_init_def NonlinearReactionOperator_init_def
        example_line_NonlinearReactionOperator_def example_line_grid_def)
qed

subsection \<open>The quadratic functional as a sum over the elements\<close>

lemma NonZeroIndices_ones: "NonZeroIndices (replicate E 1) = [0..<E]"
  by (simp add: NonZeroIndices_def)

lemma take_rows_all: "length a = E \<Longrightarrow> take_rows a [0..<E] = Inr a"
  by (auto simp: take_rows_def map_nth)

lemma sum_list_nth: "(\<Sum>k\<leftarrow>[0..<length xs]. xs ! k) = sum_list (xs :: real list)"
  by (simp add: map_nth)

lemma einsum_ei_e_i_length: "einsum_ei_e_i F vol w = Inr S \<Longrightarrow> length S = length vol"
  by (auto simp: einsum_ei_e_i_def split: if_splits)

lemma apportioned_sum:
  assumes "length S = E" "length vol = E" "sum_list vol \<noteq> 0"
  shows "(\<Sum>k\<leftarrow>[0..<E]. replicate E (1::real) ! ([0..<E] ! k)
            * (0.5 * S ! k + 0.5 * vol ! k / sum_list vol * c))
         = 0.5 * sum_list S + 0.5 * c"
proof -
  define a where "a = 0.5 * c / sum_list vol"
  have "(\<Sum>k\<leftarrow>[0..<E]. replicate E (1::real) ! ([0..<E] ! k)
            * (0.5 * S ! k + 0.5 * vol ! k / sum_list vol * c))
      = (\<Sum>k\<leftarrow>[0..<E]. 0.5 * S ! k + a * vol ! k)"
    by (rule sum_list_cong) (simp add: a_def)
  also have "\<dots> = (\<Sum>k\<leftarrow>[0..<E]. 0.5 * S ! k) + (\<Sum>k\<leftarrow>[0..<E]. a * vol ! k)"
    by (rule sum_list_addf)
  also have "\<dots> = 0.5 * (\<Sum>k\<leftarrow>[0..<E]. S ! k) + a * (\<Sum>k\<leftarrow>[0..<E]. vol ! k)"
    by (simp only: sum_list_const_mult)
  also have "\<dots> = 0.5 * sum_list S + a * sum_list vol"
    using sum_list_nth [of S] sum_list_nth [of vol] assms(1,2) by simp
  finally show ?thesis using assms(3) by (simp add: a_def)
qed

text \<open>
  C6. On a grid with one row of DOFs and one volume for each element and a total volume
  that is not zero, \<^verbatim>\<open>element_quadratic_functional.apply\<close> with all weights 1 returns what
  \<^verbatim>\<open>quadratic_functional.apply\<close> returns for the same state, target state and parameters
  (the same value, or the same exception): the element terms sum to the L2 term, and the
  volume fractions, which sum to one, give back the parameter term.
\<close>

theorem element_quadratic_functional_sums_to_global:
  assumes "length (subentities g) = size_of g 0" "length (volumes g) = size_of g 0"
    "sum_list (volumes g) \<noteq> 0"
  shows "element_quadratic_functional_apply
           \<lparr>grid = g, u_d = ud, mu_d = mud,
            element_quadratic_functional.rho = replicate (size_of g 0) 1\<rparr> U mu
         = quadratic_functional_apply \<lparr>grid = g, u_d = ud, mu_d = mud\<rparr> U mu"
proof -
  obtain q w where qw: "quadrature g (reference_element g) 2 = (q, w)"
    by (cases "quadrature g (reference_element g) 2") auto
  have fin: "\<forall>S d c. einsum_ei_e_i S (volumes g) w = Inr d \<longrightarrow>
    (\<Sum>k\<leftarrow>[0..<size_of g 0]. replicate (size_of g 0) (1::real) ! ([0..<size_of g 0] ! k)
            * (0.5 * d ! k + 0.5 * volumes g ! k / sum_list (volumes g) * c))
         = 0.5 * sum_list d + 0.5 * c"
    by (intro allI impI, rule apportioned_sum) (use assms in \<open>simp_all add: einsum_ei_e_i_length\<close>)
  show ?thesis
    using assms(1,2) fin
    by (simp add: element_quadratic_functional_apply_def quadratic_functional_apply_def Let_def qw
        NonZeroIndices_ones take_rows_all
        split: sum.splits)
qed

theorem element_quadratic_functional_sums_to_global_witness:
  "length (subentities example_grid) = size_of example_grid 0
   \<and> length (volumes example_grid) = size_of example_grid 0
   \<and> sum_list (volumes example_grid) \<noteq> 0
   \<and> element_quadratic_functional_apply
           \<lparr>grid = example_grid, u_d = [0, 0, 0, 0], mu_d = [1],
            element_quadratic_functional.rho = replicate (size_of example_grid 0) 1\<rparr> [1, 2, 3, 4] [3]
         = quadratic_functional_apply \<lparr>grid = example_grid, u_d = [0, 0, 0, 0], mu_d = [1]\<rparr>
             [1, 2, 3, 4] [3]"
proof -
  have h1: "length (subentities example_grid) = size_of example_grid 0"
    by (simp add: example_grid_def)
  have h2: "length (volumes example_grid) = size_of example_grid 0"
    by (simp add: example_grid_def)
  have h3: "sum_list (volumes example_grid) \<noteq> 0"
    by (simp add: example_grid_def)
  show ?thesis
    using element_quadratic_functional_sums_to_global [OF h1 h2 h3] h1 h2 h3 by simp
qed

text \<open>On the triangle grid the value is returned.\<close>

lemma quadratic_functional_on_triangle:
  "quadratic_functional_apply \<lparr>grid = example_grid, u_d = [0, 0, 0, 0], mu_d = [1]\<rparr>
     [1, 2, 3, 4] [3] = Inr (39/2)"
  by (simp add: quadratic_functional_apply_def Let_def example_grid_def example_quadrature_def
      shape_functions_at_def np_sub_def zeros_like_def wert_of_def take_indices_def np_dot_def
      reshape_3_1_def quadatric_function_def evaluate_def einsum_ei_e_i_def norm2_def upt_2 upt_3
      numeral_2_eq_2 [symmetric])

subsection \<open>The mass matrix\<close>

lemma sum_list_upt_sum: "(\<Sum>i\<leftarrow>[0..<n]. f i) = (\<Sum>i<n. (f i :: real))"
  by (simp add: interv_sum_list_conv_sum_set_nat atLeast0LessThan)

lemma sum_list_delta2:
  "(\<Sum>i\<leftarrow>[0..<n]. \<Sum>j\<leftarrow>[0..<n]. if r = i \<and> c = j then g i j else 0)
   = (if r < n \<and> c < n then (g r c :: real) else 0)"
proof -
  have "(\<Sum>i\<leftarrow>[0..<n]. \<Sum>j\<leftarrow>[0..<n]. if r = i \<and> c = j then g i j else 0)
      = (\<Sum>i\<leftarrow>[0..<n]. if r = i then (if c < n then g r c else 0) else 0)"
  proof (rule sum_list_cong)
    fix i
    show "(\<Sum>j\<leftarrow>[0..<n]. if r = i \<and> c = j then g i j else 0)
        = (if r = i then (if c < n then g r c else 0) else 0)"
      using sum_list_delta [where c = c and n = n and v = "g r c"]
      by (cases "r = i") (auto intro!: sum_list_cong sum_list_zero
          simp: sum_list_delta [where c = c and n = n and v = "g r c", symmetric])
  qed
  also have "\<dots> = (if r < n then (if c < n then g r c else 0) else 0)"
    by (rule sum_list_delta)
  finally show ?thesis by simp
qed

text \<open>The quadratic form of a matrix given by its contributions.\<close>

lemma quadratic_form_triplets:
  "(\<Sum>i\<leftarrow>[0..<n]. \<Sum>j\<leftarrow>[0..<n].
      x i * (\<Sum>t\<leftarrow>T. case t of (v, r, c) \<Rightarrow> if r = i \<and> c = j then v else 0) * x j)
   = (\<Sum>t\<leftarrow>T. case t of (v, r, c) \<Rightarrow> if r < n \<and> c < n then x r * v * x c else (0::real))"
proof (induction T)
  case Nil
  show ?case by (simp add: sum_list_0)
next
  case (Cons t T)
  obtain v r c where t: "t = (v, r, c)" by (cases t) auto
  let ?S = "\<lambda>i j. \<Sum>t\<leftarrow>T. case t of (v, r, c) \<Rightarrow> if r = i \<and> c = j then v else 0"
  have "(\<Sum>i\<leftarrow>[0..<n]. \<Sum>j\<leftarrow>[0..<n].
      x i * (\<Sum>t\<leftarrow>(v, r, c) # T. case t of (v, r, c) \<Rightarrow> if r = i \<and> c = j then v else 0) * x j)
    = (\<Sum>i\<leftarrow>[0..<n]. (\<Sum>j\<leftarrow>[0..<n]. if r = i \<and> c = j then x i * v * x j else 0)
         + (\<Sum>j\<leftarrow>[0..<n]. x i * ?S i j * x j))"
    by (intro sum_list_cong, simp only: sum_list_addf [symmetric], intro sum_list_cong)
       (simp add: algebra_simps)
  also have "\<dots> = (\<Sum>i\<leftarrow>[0..<n]. \<Sum>j\<leftarrow>[0..<n]. if r = i \<and> c = j then x i * v * x j else 0)
      + (\<Sum>i\<leftarrow>[0..<n]. \<Sum>j\<leftarrow>[0..<n]. x i * ?S i j * x j)"
    by (rule sum_list_addf)
  also have "\<dots> = (if r < n \<and> c < n then x r * v * x c else 0)
      + (\<Sum>t\<leftarrow>T. case t of (v, r, c) \<Rightarrow> if r < n \<and> c < n then x r * v * x c else 0)"
    by (simp only: sum_list_delta2 Cons.IH)
  finally show ?case by (simp add: t)
qed

text \<open>A Gram-type block is a weighted sum of squares.\<close>

lemma gram_block:
  "(\<Sum>p<k. \<Sum>q<k. a p * (\<Sum>i<m. B p i * B q i * W i) * a q)
   = (\<Sum>i<m. W i * (\<Sum>p<k. a p * B p i)\<^sup>2 :: real)"
proof -
  have "(\<Sum>i<m. W i * (\<Sum>p<k. a p * B p i)\<^sup>2)
      = (\<Sum>i<m. \<Sum>p<k. \<Sum>q<k. a p * (B p i * B q i * W i) * a q)"
    by (simp add: power2_eq_square sum_product sum_distrib_left algebra_simps)
  also have "\<dots> = (\<Sum>p<k. \<Sum>i<m. \<Sum>q<k. a p * (B p i * B q i * W i) * a q)"
    by (rule sum.swap)
  also have "\<dots> = (\<Sum>p<k. \<Sum>q<k. \<Sum>i<m. a p * (B p i * B q i * W i) * a q)"
    by (intro sum.cong refl sum.swap)
  also have "\<dots> = (\<Sum>p<k. \<Sum>q<k. a p * (\<Sum>i<m. B p i * B q i * W i) * a q)"
    by (simp add: sum_distrib_left sum_distrib_right)
  finally show ?thesis by simp
qed

text \<open>The quadratic form of scattered element blocks.\<close>

lemma quadratic_form_scattered:
  assumes sub: "length sub = E" "\<And>row. row \<in> set sub \<Longrightarrow> length row = k"
      "\<And>row c. row \<in> set sub \<Longrightarrow> c \<in> set row \<Longrightarrow> c < n"
  shows "(\<Sum>i\<leftarrow>[0..<n]. \<Sum>j\<leftarrow>[0..<n].
            x i * coo_entry (ravel3 (tensor3 E k k F)) (repeat_ravel sub k) (tile_ravel sub k) i j * x j)
         = (\<Sum>e<E. \<Sum>p<k. \<Sum>q<k. x (sub ! e ! p) * F e p q * x (sub ! e ! q))"
proof -
  have in_range: "\<And>e p. e < E \<Longrightarrow> p < k \<Longrightarrow> sub ! e ! p < n"
    using sub by (metis nth_mem)
  have "(\<Sum>i\<leftarrow>[0..<n]. \<Sum>j\<leftarrow>[0..<n].
            x i * coo_entry (ravel3 (tensor3 E k k F)) (repeat_ravel sub k) (tile_ravel sub k) i j * x j)
      = (\<Sum>t\<leftarrow>zip (ravel3 (tensor3 E k k F)) (zip (repeat_ravel sub k) (tile_ravel sub k)).
           case t of (v, r, c) \<Rightarrow> if r < n \<and> c < n then x r * v * x c else 0)"
    unfolding coo_entry_def by (rule quadratic_form_triplets)
  also have "\<dots> = (\<Sum>e\<leftarrow>[0..<E]. \<Sum>p\<leftarrow>[0..<k]. \<Sum>q\<leftarrow>[0..<k].
      if sub ! e ! p < n \<and> sub ! e ! q < n then x (sub ! e ! p) * F e p q * x (sub ! e ! q) else 0)"
    by (simp add: sum_scatter [OF sub(1,2)])
  also have "\<dots> = (\<Sum>e<E. \<Sum>p<k. \<Sum>q<k.
      if sub ! e ! p < n \<and> sub ! e ! q < n then x (sub ! e ! p) * F e p q * x (sub ! e ! q) else 0)"
    by (simp only: sum_list_upt_sum)
  also have "\<dots> = (\<Sum>e<E. \<Sum>p<k. \<Sum>q<k. x (sub ! e ! p) * F e p q * x (sub ! e ! q))"
    by (intro sum.cong refl) (simp add: in_range)
  finally show ?thesis .
qed

lemma quadratic_form_gram:
  assumes sub: "length sub = E" "\<And>row. row \<in> set sub \<Longrightarrow> length row = k"
      "\<And>row c. row \<in> set sub \<Longrightarrow> c \<in> set row \<Longrightarrow> c < n"
    and F: "\<And>e p q. F e p q = (\<Sum>i<m. B p i * B q i * W e i)"
  shows "(\<Sum>i\<leftarrow>[0..<n]. \<Sum>j\<leftarrow>[0..<n].
            x i * coo_entry (ravel3 (tensor3 E k k F)) (repeat_ravel sub k) (tile_ravel sub k) i j * x j)
         = (\<Sum>e<E. \<Sum>i<m. W e i * (\<Sum>p<k. x (sub ! e ! p) * B p i)\<^sup>2)"
proof -
  have "(\<Sum>e<E. \<Sum>p<k. \<Sum>q<k. x (sub ! e ! p) * F e p q * x (sub ! e ! q))
      = (\<Sum>e<E. \<Sum>i<m. W e i * (\<Sum>p<k. x (sub ! e ! p) * B p i)\<^sup>2)"
    unfolding F by (intro sum.cong refl gram_block)
  then show ?thesis
    by (simp only: quadratic_form_scattered [OF sub])
qed

text \<open>An entry is the quadratic form at two unit vectors; a diagonal entry at one.\<close>

lemma diagonal_entry_quadratic_form:
  assumes "d < n"
  shows "M d d = (\<Sum>i\<leftarrow>[0..<n]. \<Sum>j\<leftarrow>[0..<n].
           (if i = d then 1 else 0) * M i j * (if j = d then 1 else (0::real)))"
proof -
  have "(\<Sum>i\<leftarrow>[0..<n]. \<Sum>j\<leftarrow>[0..<n].
           (if i = d then 1 else 0) * M i j * (if j = d then 1 else (0::real)))
      = (\<Sum>i\<leftarrow>[0..<n]. \<Sum>j\<leftarrow>[0..<n]. if d = i \<and> d = j then M i j else 0)"
    by (intro sum_list_cong) auto
  also have "\<dots> = M d d"
    using assms by (simp only: sum_list_delta2) simp
  finally show ?thesis by simp
qed

lemma symmetric_scattered:
  assumes sub: "length sub = E" "\<And>row. row \<in> set sub \<Longrightarrow> length row = k"
    and F: "\<And>e p q. F e p q = F e q p"
  shows "coo_entry (ravel3 (tensor3 E k k F)) (repeat_ravel sub k) (tile_ravel sub k) i j
       = coo_entry (ravel3 (tensor3 E k k F)) (repeat_ravel sub k) (tile_ravel sub k) j i"
proof -
  have e: "\<And>i j. coo_entry (ravel3 (tensor3 E k k F)) (repeat_ravel sub k) (tile_ravel sub k) i j
      = (\<Sum>e<E. \<Sum>p<k. \<Sum>q<k. if sub ! e ! p = i \<and> sub ! e ! q = j then F e p q else 0)"
    unfolding coo_entry_def by (simp add: sum_scatter [OF sub] sum_list_upt_sum)
  have "(\<Sum>e<E. \<Sum>p<k. \<Sum>q<k. if sub ! e ! p = i \<and> sub ! e ! q = j then F e p q else 0)
      = (\<Sum>e<E. \<Sum>q<k. \<Sum>p<k. if sub ! e ! p = i \<and> sub ! e ! q = j then F e p q else 0)"
    by (intro sum.cong refl sum.swap)
  also have "\<dots> = (\<Sum>e<E. \<Sum>q<k. \<Sum>p<k. if sub ! e ! q = j \<and> sub ! e ! p = i then F e q p else 0)"
    by (intro sum.cong refl) (auto simp: F)
  finally show ?thesis unfolding e .
qed

lemma coo_entry_cong:
  assumes "length data = length I0" "length data' = length I0" "length I1 = length I0"
    and "\<And>k. k < length I0 \<Longrightarrow> I0 ! k = i \<Longrightarrow> I1 ! k = j \<Longrightarrow> data ! k = data' ! k"
  shows "coo_entry data I0 I1 i j = coo_entry data' I0 I1 i j"
proof -
  have "map (\<lambda>t. case t of (v, r, c) \<Rightarrow> if r = i \<and> c = j then v else 0) (zip data (zip I0 I1))
      = map (\<lambda>t. case t of (v, r, c) \<Rightarrow> if r = i \<and> c = j then v else 0) (zip data' (zip I0 I1))"
    by (rule nth_equalityI) (use assms in auto)
  then show ?thesis by (simp add: coo_entry_def)
qed

text \<open>The entries after clearing rows and columns and setting the diagonal to one.\<close>

lemma treated_entry_both:
  assumes bi: "boundary_info_ok g bi" and hd: "has_dirichlet bi"
    and len: "length SF_INTS = length SF_I0" "length SF_I1 = length SF_I0"
    and ij: "i < size_of g (dim g)" "j < size_of g (dim g)"
  shows "assemble_system_matrix g bi True True False (SF_INTS, SF_I0, SF_I1) ! i ! j
         = (if dirichlet_mask bi ! i \<or> dirichlet_mask bi ! j then 0
            else coo_entry SF_INTS SF_I0 SF_I1 i j)
           + (if i = j \<and> dirichlet_mask bi ! i then 1 else 0)"
proof (cases "dirichlet_mask bi ! i \<or> dirichlet_mask bi ! j")
  case True
  have DI: "dirichlet_boundaries bi = filter (\<lambda>i. dirichlet_mask bi ! i) [0..<size_of g (dim g)]"
    using bi by (simp add: boundary_info_ok_def)
  have "i = j \<Longrightarrow> i \<in> set (dirichlet_boundaries bi)"
    using True ij unfolding DI by auto
  then have "i = j \<Longrightarrow> count_list (dirichlet_boundaries bi) i = 1 \<and> dirichlet_mask bi ! i"
    using boundary_info_ok_dirichlet [OF bi] by blast
  then show ?thesis
    using treated_entry [OF bi hd _ _ len ij, of True True False] True by auto
next
  case False
  let ?m = "dirichlet_mask bi"
  let ?d2 = "dirichlet_clear ?m SF_I1 (dirichlet_clear ?m SF_I0 SF_INTS)"
  have l1: "length (dirichlet_clear ?m SF_I0 SF_INTS) = length SF_I0"
    using len by (simp add: dirichlet_clear_length)
  have l2: "length ?d2 = length SF_I0" using len l1 by (simp add: dirichlet_clear_length)
  have same: "coo_entry ?d2 SF_I0 SF_I1 i j = coo_entry SF_INTS SF_I0 SF_I1 i j"
    by (rule coo_entry_cong [OF l2 len]) (use False len l1 in \<open>simp add: dirichlet_clear_nth\<close>)
  have "i \<notin> set (dirichlet_boundaries bi)"
    using boundary_info_ok_dirichlet(2) [OF bi] False by blast
  then have diag: "coo_entry (replicate (length (dirichlet_boundaries bi)) 1)
      (dirichlet_boundaries bi) (dirichlet_boundaries bi) i j = 0"
    by (auto simp: coo_entry_diag)
  have "assemble_system_matrix g bi True True False (SF_INTS, SF_I0, SF_I1) ! i ! j
      = coo_entry (?d2 @ replicate (length (dirichlet_boundaries bi)) 1)
          (SF_I0 @ dirichlet_boundaries bi) (SF_I1 @ dirichlet_boundaries bi) i j"
    using hd ij
    by (simp add: assemble_system_matrix_def contributions_matrix_def boundary_treatment_def
        Let_def coo_matrix_nth)
  also have "\<dots> = coo_entry ?d2 SF_I0 SF_I1 i j
      + coo_entry (replicate (length (dirichlet_boundaries bi)) 1)
          (dirichlet_boundaries bi) (dirichlet_boundaries bi) i j"
    by (rule coo_entry_append [OF l2 len(2)])
  finally show ?thesis using False by (simp add: same diag)
qed

text \<open>Clearing rows and columns and setting the diagonal to one keeps the three properties.\<close>

lemma treated_symmetric_positive:
  assumes A: "symmetric_positive A n"
    and B: "\<And>i j. i < n \<Longrightarrow> j < n \<Longrightarrow>
        B ! i ! j = (if msk ! i \<or> msk ! j then 0 else A ! i ! j) + (if i = j \<and> msk ! i then 1 else 0)"
  shows "symmetric_positive B n"
proof -
  have sym: "symmetric B n"
    using A unfolding symmetric_positive_def symmetric_def by (auto simp: B)
  have diag: "positive_diagonal B n"
    using A unfolding symmetric_positive_def positive_diagonal_def by (auto simp: B)
  have psd: "positive_semidefinite B n"
    unfolding positive_semidefinite_def
  proof (intro allI impI)
    fix x :: "real list" assume x: "length x = n"
    define y where "y = map (\<lambda>i. if msk ! i then 0 else x ! i) [0..<n]"
    have y: "length y = n" "\<And>i. i < n \<Longrightarrow> y ! i = (if msk ! i then 0 else x ! i)"
      by (simp_all add: y_def)
    have "0 \<le> quadratic_form A n y"
      using A y(1) unfolding symmetric_positive_def positive_semidefinite_def by blast
    moreover have "quadratic_form B n x
      = quadratic_form A n y
        + (\<Sum>i\<leftarrow>[0..<n]. \<Sum>j\<leftarrow>[0..<n]. if i = j \<and> msk ! i then x ! i * x ! j else 0)"
      unfolding quadratic_form_def
      by (simp only: sum_list_addf [symmetric], intro sum_list_cong) (auto simp: B y(2) algebra_simps)
    moreover have "0 \<le> (\<Sum>i\<leftarrow>[0..<n]. \<Sum>j\<leftarrow>[0..<n]. if i = j \<and> msk ! i then x ! i * x ! j else 0)"
    proof (rule sum_list_nonneg)
      fix s assume "s \<in> set (map (\<lambda>i. \<Sum>j\<leftarrow>[0..<n]. if i = j \<and> msk ! i then x ! i * x ! j else 0) [0..<n])"
      then obtain i where s: "s = (\<Sum>j\<leftarrow>[0..<n]. if i = j \<and> msk ! i then x ! i * x ! j else 0)"
        by auto
      show "0 \<le> s" unfolding s by (rule sum_list_nonneg) auto
    qed
    ultimately show "0 \<le> quadratic_form B n x" by simp
  qed
  from sym psd diag show ?thesis by (simp add: symmetric_positive_def)
qed

lemma mass_untreated_symmetric_positive:
  assumes sub: "length sub = E" "\<And>row. row \<in> set sub \<Longrightarrow> length row = k"
      "\<And>row c. row \<in> set sub \<Longrightarrow> c \<in> set row \<Longrightarrow> c < n"
    and F: "\<And>e p q. F e p q = (\<Sum>i<(m::nat). B p i * B q i * W e i)"
    and W: "\<And>e i. e < E \<Longrightarrow> i < m \<Longrightarrow> 0 \<le> W e i"
    and dist: "\<And>row. row \<in> set sub \<Longrightarrow> distinct row"
    and cover: "\<And>d. d < n \<Longrightarrow> \<exists>row \<in> set sub. d \<in> set row"
    and pos: "\<And>e p. e < E \<Longrightarrow> p < k \<Longrightarrow> \<exists>i<m. 0 < W e i \<and> B p i \<noteq> 0"
  shows "symmetric_positive
           (coo_matrix (ravel3 (tensor3 E k k F)) (repeat_ravel sub k) (tile_ravel sub k) n n) n"
proof -
  let ?A = "coo_matrix (ravel3 (tensor3 E k k F)) (repeat_ravel sub k) (tile_ravel sub k) n n"
  let ?c = "coo_entry (ravel3 (tensor3 E k k F)) (repeat_ravel sub k) (tile_ravel sub k)"
  have Fsym: "\<And>e p q. F e p q = F e q p"
    unfolding F by (simp add: mult.commute)
  have sym: "symmetric ?A n"
    unfolding symmetric_def
    using symmetric_scattered [OF sub(1,2) Fsym] by (simp add: coo_matrix_nth)
  have qf: "\<And>x. (\<Sum>i\<leftarrow>[0..<n]. \<Sum>j\<leftarrow>[0..<n]. x i * ?c i j * x j)
      = (\<Sum>e<E. \<Sum>i<m. W e i * (\<Sum>p<k. x (sub ! e ! p) * B p i)\<^sup>2)"
    by (rule quadratic_form_gram [OF sub F])
  have nonneg: "\<And>x e i. e < E \<Longrightarrow> i < m \<Longrightarrow> 0 \<le> W e i * (\<Sum>p<k. x (sub ! e ! p) * B p i)\<^sup>2"
    using W by simp
  have psd: "positive_semidefinite ?A n"
    unfolding positive_semidefinite_def
  proof (intro allI impI)
    fix x :: "real list" assume "length x = n"
    have "quadratic_form ?A n x = (\<Sum>i\<leftarrow>[0..<n]. \<Sum>j\<leftarrow>[0..<n]. x ! i * ?c i j * x ! j)"
      unfolding quadratic_form_def by (intro sum_list_cong) (simp add: coo_matrix_nth)
    also have "\<dots> = (\<Sum>e<E. \<Sum>i<m. W e i * (\<Sum>p<k. x ! (sub ! e ! p) * B p i)\<^sup>2)"
      by (rule qf)
    also have "0 \<le> \<dots>"
      by (intro sum_nonneg nonneg) simp_all
    finally show "0 \<le> quadratic_form ?A n x" .
  qed
  have diag: "positive_diagonal ?A n"
    unfolding positive_diagonal_def
  proof (intro allI impI)
    fix d assume d: "d < n"
    define x :: "nat \<Rightarrow> real" where "x = (\<lambda>i. if i = d then 1 else 0)"
    obtain row where row: "row \<in> set sub" "d \<in> set row" using cover [OF d] by blast
    then obtain e0 where e0: "e0 < E" "row = sub ! e0"
      using sub(1) by (metis in_set_conv_nth)
    from row(2) obtain p0 where p0: "p0 < length row" "row ! p0 = d"
      by (metis in_set_conv_nth)
    have k: "length row = k" using sub(2) row(1) .
    have p0k: "p0 < k" using p0(1) k by simp
    obtain i0 where i0: "i0 < m" "0 < W e0 i0" "B p0 i0 \<noteq> 0"
      using pos [OF e0(1) p0k] by blast
    have drow: "distinct row" using dist row(1) .
    have uniq: "\<And>p. p < k \<Longrightarrow> (sub ! e0 ! p = d) = (p = p0)"
      using drow p0 k e0(2) by (metis nth_eq_iff_index_eq)
    have "(\<Sum>p<k. x (sub ! e0 ! p) * B p i0) = (\<Sum>p<k. if p = p0 then B p i0 else 0)"
      by (intro sum.cong refl) (simp add: x_def uniq)
    also have "\<dots> = B p0 i0" using p0k by simp
    finally have inner: "(\<Sum>p<k. x (sub ! e0 ! p) * B p i0) = B p0 i0" .
    have t: "0 < W e0 i0 * (\<Sum>p<k. x (sub ! e0 ! p) * B p i0)\<^sup>2"
      unfolding inner using i0 by simp
    have "0 < (\<Sum>i<m. W e0 i * (\<Sum>p<k. x (sub ! e0 ! p) * B p i)\<^sup>2)"
      by (rule sum_pos2 [where i = i0]) (use i0(1) t nonneg [OF e0(1)] in auto)
    then have "0 < (\<Sum>e<E. \<Sum>i<m. W e i * (\<Sum>p<k. x (sub ! e ! p) * B p i)\<^sup>2)"
      by (rule sum_pos2 [where i = e0, rotated 2]) (use e0(1) nonneg in \<open>auto intro!: sum_nonneg\<close>)
    also have "\<dots> = (\<Sum>i\<leftarrow>[0..<n]. \<Sum>j\<leftarrow>[0..<n]. x i * ?c i j * x j)"
      by (rule qf [symmetric])
    also have "\<dots> = ?c d d"
      unfolding x_def by (rule diagonal_entry_quadratic_form [OF d, symmetric])
    finally show "0 < ?A ! d ! d" using d by (simp add: coo_matrix_nth)
  qed
  from sym psd diag show ?thesis by (simp add: symmetric_positive_def)
qed

lemma n_local_cases: "n_local r = (if r = square then 4 else ref_dim r + 1)"
  by (cases r) (simp_all add: n_local_def)

lemma L2Product_SF_INTS_tensor:
  "L2Product_SF_INTS op (q, w) mu
   = ravel3 (tensor3 (length (integration_elements (grid op)))
       (n_local (reference_element (grid op))) (n_local (reference_element (grid op)))
       (\<lambda>e p p'. \<Sum>i<length w.
           shape_functions_at (reference_element (grid op)) q ! p ! i
         * shape_functions_at (reference_element (grid op)) q ! p' ! i
         * (w ! i * integration_elements (grid op) ! e
            * (case coefficient_function op of None \<Rightarrow> 1
               | Some cf \<Rightarrow> map (\<lambda>x. scalar_value cf x mu) (centers (grid op)) ! e))))"
  by (simp add: L2Product_SF_INTS_def Let_def einsum_iq_jq_q_e_def einsum_iq_jq_q_e_e_def
      length_shape_functions_at sum_list_upt_sum mult.assoc split: option.split)

text \<open>
  C7 (amended). On a well-shaped grid with positive integration elements, every DOF in an
  element, and a quadrature rule of order 2 with weights that are not negative and reach
  every shape function, the mass matrix assembled by \<^verbatim>\<open>L2ProductP1\<close> (line, triangle) or
  \<^verbatim>\<open>L2ProductQ1\<close> (square) is symmetric and positive semi-definite with a positive
  diagonal, provided the coefficient function is absent or positive and the Dirichlet
  treatment is symmetric: no Dirichlet boundary or no clearing, or rows and columns both
  cleared with the diagonal set to one.
\<close>

theorem mass_matrix_symmetric_positive:
  assumes ok: "grid_ok g" "grid_positive g" "boundary_info_ok g bi"
      "quadrature_ok (reference_element g) (quadrature g (reference_element g) 2)"
    and op: "grid op = g" "boundary_info op = Some bi" "symmetric_treatment op bi"
      "positive_coefficient op mu"
  shows "case Prod_assemble op mu of
           Inl err \<Rightarrow> False
         | Inr A \<Rightarrow> symmetric_positive A (size_of g (dim g))"
proof -
  define r where "r = reference_element g"
  define n where "n = size_of g (dim g)"
  define k where "k = n_local r"
  define E where "E = size_of g 0"
  obtain q w where qw: "quadrature g r 2 = (q, w)" by (cases "quadrature g r 2") auto
  define SF where "SF = shape_functions_at r q"
  define Cf where "Cf = (\<lambda>e. case coefficient_function op of None \<Rightarrow> (1::real)
     | Some cf \<Rightarrow> map (\<lambda>x. scalar_value cf x mu) (centers g) ! e)"
  define W where "W = (\<lambda>e i. w ! i * integration_elements g ! e * Cf e)"
  define F where "F = (\<lambda>e p p'. \<Sum>i<length w. SF ! p ! i * SF ! p' ! i * W e i)"
  have lens: "length (subentities g) = E" "length (integration_elements g) = E"
      "length (centers g) = E"
    using ok(1) by (simp_all add: grid_ok_def E_def)
  have sub: "length (subentities g) = E" "\<And>row. row \<in> set (subentities g) \<Longrightarrow> length row = k"
      "\<And>row c. row \<in> set (subentities g) \<Longrightarrow> c \<in> set row \<Longrightarrow> c < n"
    using ok(1) by (auto simp: grid_ok_def E_def k_def r_def n_def)
  have dimg: "dim g = ref_dim r" using ok(1) by (simp add: grid_ok_def r_def)
  have data: "L2Product_SF_INTS op (q, w) mu = ravel3 (tensor3 E k k F)"
    unfolding L2Product_SF_INTS_tensor
    by (simp add: op(1) lens r_def [symmetric] k_def F_def W_def Cf_def SF_def cong: option.case_cong)
  have contributions: "Prod_assemble op mu
      = Inr (assemble_system_matrix g bi (dirichlet_clear_rows op) (dirichlet_clear_columns op)
          (dirichlet_clear_diag op) (ravel3 (tensor3 E k k F), repeat_ravel (subentities g) k,
             tile_ravel (subentities g) k))"
    using data qw
    by (cases r)
       (simp_all add: Prod_assemble_def L2ProductP1_assemble_def L2ProductQ1_assemble_def Let_def
         op(1,2) r_def [symmetric] k_def n_local_cases dimg)
  have Cpos: "\<And>e. e < E \<Longrightarrow> 0 < Cf e"
    using op(4) lens(3) by (auto simp: Cf_def positive_coefficient_def op(1) split: option.splits)
  have iepos: "\<And>e. e < E \<Longrightarrow> 0 < integration_elements g ! e"
    using ok(2) lens(2) by (simp add: grid_positive_def)
  have qok: "length q = length w" "\<And>i. i < length w \<Longrightarrow> 0 \<le> w ! i"
      "\<And>f. f \<in> set (LagrangeShapeFunctions r) \<Longrightarrow> \<exists>i<length w. 0 < w ! i \<and> f (q ! i) \<noteq> 0"
    using ok(4) by (auto simp: quadrature_ok_def r_def [symmetric] qw)
  have Wnn: "\<And>e i. e < E \<Longrightarrow> i < length w \<Longrightarrow> 0 \<le> W e i"
    using Cpos iepos qok(2) by (simp add: W_def less_imp_le)
  have pos: "\<And>e p. e < E \<Longrightarrow> p < k \<Longrightarrow> \<exists>i<length w. 0 < W e i \<and> SF ! p ! i \<noteq> 0"
  proof -
    fix e p assume e: "e < E" and p: "p < k"
    then have "LagrangeShapeFunctions r ! p \<in> set (LagrangeShapeFunctions r)"
      by (simp add: k_def n_local_def)
    then obtain i where i: "i < length w" "0 < w ! i" "(LagrangeShapeFunctions r ! p) (q ! i) \<noteq> 0"
      using qok(3) by blast
    have "SF ! p ! i = (LagrangeShapeFunctions r ! p) (q ! i)"
      using p i(1) qok(1) by (simp add: SF_def shape_functions_at_def k_def n_local_def)
    moreover have "0 < W e i" using i(2) Cpos [OF e] iepos [OF e] by (simp add: W_def)
    ultimately show "\<exists>i<length w. 0 < W e i \<and> SF ! p ! i \<noteq> 0" using i by auto
  qed
  have A: "symmetric_positive
     (coo_matrix (ravel3 (tensor3 E k k F)) (repeat_ravel (subentities g) k)
        (tile_ravel (subentities g) k) n n) n"
  proof (rule mass_untreated_symmetric_positive [OF sub _ Wnn _ _ pos])
    show "\<And>e p p'. F e p p' = (\<Sum>i<length w. SF ! p ! i * SF ! p' ! i * W e i)"
      by (simp add: F_def)
    show "\<And>row. row \<in> set (subentities g) \<Longrightarrow> distinct row"
      using ok(2) by (simp add: grid_positive_def)
    show "\<And>d. d < n \<Longrightarrow> \<exists>row \<in> set (subentities g). d \<in> set row"
      using ok(2) by (simp add: grid_positive_def n_def)
  qed
  have len: "length (ravel3 (tensor3 E k k F)) = length (repeat_ravel (subentities g) k)"
      "length (tile_ravel (subentities g) k) = length (repeat_ravel (subentities g) k)"
    using length_repeat_ravel [of "subentities g" k k] length_tile_ravel [of "subentities g" k k] sub
    by (simp_all add: length_ravel3_tensor3)
  have "symmetric_positive
     (assemble_system_matrix g bi (dirichlet_clear_rows op) (dirichlet_clear_columns op)
          (dirichlet_clear_diag op) (ravel3 (tensor3 E k k F), repeat_ravel (subentities g) k,
             tile_ravel (subentities g) k)) n"
  proof (cases "has_dirichlet bi \<and> (dirichlet_clear_rows op \<or> dirichlet_clear_columns op)")
    case False
    then show ?thesis
      using A
      by (auto simp: assemble_system_matrix_def boundary_treatment_def contributions_matrix_def
          n_def Let_def)
  next
    case True
    with op(3) have flags: "dirichlet_clear_rows op" "dirichlet_clear_columns op"
        "\<not> dirichlet_clear_diag op" "has_dirichlet bi"
      by (auto simp: symmetric_treatment_def)
    show ?thesis
      unfolding flags(1,2) eq_True eq_False
    proof -
      have "symmetric_positive
        (assemble_system_matrix g bi True True False
           (ravel3 (tensor3 E k k F), repeat_ravel (subentities g) k, tile_ravel (subentities g) k)) n"
      proof (rule treated_symmetric_positive [OF A, where msk = "dirichlet_mask bi"])
        fix i j assume "i < n" "j < n"
        then show "assemble_system_matrix g bi True True False
           (ravel3 (tensor3 E k k F), repeat_ravel (subentities g) k, tile_ravel (subentities g) k) ! i ! j
           = (if dirichlet_mask bi ! i \<or> dirichlet_mask bi ! j then 0
              else coo_matrix (ravel3 (tensor3 E k k F)) (repeat_ravel (subentities g) k)
                     (tile_ravel (subentities g) k) n n ! i ! j)
             + (if i = j \<and> dirichlet_mask bi ! i then 1 else 0)"
          using treated_entry_both [OF ok(3) flags(4) len, of i j]
          by (simp add: n_def coo_matrix_nth)
      qed
      then show "symmetric_positive
        (assemble_system_matrix g bi (dirichlet_clear_rows op) (dirichlet_clear_columns op)
          (dirichlet_clear_diag op)
           (ravel3 (tensor3 E k k F), repeat_ravel (subentities g) k, tile_ravel (subentities g) k)) n"
        using flags by simp
    qed
  qed
  then show ?thesis by (simp add: contributions n_def)
qed

lemma example_grid_positive: "grid_positive example_grid"
proof -
  have "\<And>d::nat. d < 4 \<Longrightarrow> d = 0 \<or> d = 1 \<or> d = 2 \<or> d = 3" by arith
  then show ?thesis
    by (auto simp: grid_positive_def example_grid_def)
qed

lemma example_quadrature_ok:
  "quadrature_ok (reference_element example_grid)
     (quadrature example_grid (reference_element example_grid) 2)"
proof -
  have "\<exists>k<3. 0 < [1/6, 1/6, 1/6 :: real] ! k
      \<and> 1 - [[1/2, 1/2], [0, 1/2], [1/2, 0 :: real]] ! k ! 0 - [[1/2, 1/2], [0, 1/2], [1/2, 0]] ! k ! 1 \<noteq> 0"
    by (rule exI [of _ 1]) simp
  moreover have "\<exists>k<3. 0 < [1/6, 1/6, 1/6 :: real] ! k
      \<and> [[1/2, 1/2], [0, 1/2], [1/2, 0 :: real]] ! k ! 0 \<noteq> 0"
    by (rule exI [of _ 0]) simp
  moreover have "\<exists>k<3. 0 < [1/6, 1/6, 1/6 :: real] ! k
      \<and> [[1/2, 1/2], [0, 1/2], [1/2, 0 :: real]] ! k ! 1 \<noteq> 0"
    by (rule exI [of _ 0]) simp
  ultimately show ?thesis
    by (simp add: quadrature_ok_def example_grid_def example_quadrature_def numeral_3_eq_3)
qed

theorem mass_matrix_symmetric_positive_witness:
  "grid_ok example_grid \<and> grid_positive example_grid
   \<and> boundary_info_ok example_grid example_boundary_info
   \<and> quadrature_ok (reference_element example_grid)
        (quadrature example_grid (reference_element example_grid) 2)
   \<and> symmetric_treatment example_L2Product_l2_0 example_boundary_info
   \<and> positive_coefficient example_L2Product_l2_0 []
   \<and> (case Prod_assemble example_L2Product_l2_0 [] of
           Inl err \<Rightarrow> False
         | Inr A \<Rightarrow> symmetric_positive A (size_of example_grid (dim example_grid)))"
proof -
  have op: "grid example_L2Product_l2_0 = example_grid"
      "boundary_info example_L2Product_l2_0 = Some example_boundary_info"
    by (simp_all add: example_L2Product_l2_0_def)
  have h1: "symmetric_treatment example_L2Product_l2_0 example_boundary_info"
    by (simp add: symmetric_treatment_def example_L2Product_l2_0_def)
  have h2: "positive_coefficient example_L2Product_l2_0 []"
    by (simp add: positive_coefficient_def example_L2Product_l2_0_def)
  show ?thesis
    using mass_matrix_symmetric_positive [OF example_grid_ok example_grid_positive
        example_boundary_info_ok example_quadrature_ok op h1 h2]
      example_grid_ok example_grid_positive example_boundary_info_ok example_quadrature_ok h1 h2
    by simp
qed

text \<open>
  With the default flags of \<^verbatim>\<open>L2ProductP1\<close> (rows cleared, columns kept) and the
  Dirichlet DOF 0, the assembled matrix is not symmetric: the entry (0,1) is 0, the entry
  (1,0) is 1/2.
\<close>

theorem mass_matrix_rows_cleared_counterexample:
  "has_dirichlet example_boundary_info
   \<and> dirichlet_clear_rows example_L2Product_default
   \<and> \<not> dirichlet_clear_columns example_L2Product_default
   \<and> L2ProductP1_assemble example_L2Product_default []
       = Inr [[1, 0, 0, 0], [1/2, 1, 1/2, 0], [1, 1/2, 2, 1/2], [1/2, 0, 1/2, 1]]
   \<and> \<not> symmetric [[1, 0, 0, 0], [1/2, 1, 1/2, 0], [1, 1/2, 2, 1/2], [1/2, 0, 1/2, 1]] 4"
proof -
  have a: "has_dirichlet example_boundary_info
   \<and> dirichlet_clear_rows example_L2Product_default
   \<and> \<not> dirichlet_clear_columns example_L2Product_default"
    by (simp add: example_boundary_info_def example_L2Product_default_def)
  have b: "L2ProductP1_assemble example_L2Product_default []
       = Inr [[1, 0, 0, 0], [1/2, 1, 1/2, 0], [1, 1/2, 2, 1/2], [1/2, 0, 1/2, 1]]"
    by code_simp
  have c: "\<not> symmetric [[1, 0, 0, 0], [1/2, 1, 1/2, 0], [1, 1/2, 2, 1/2], [1/2, 0, 1/2, 1]] 4"
  proof
    assume "symmetric [[1, 0, 0, 0], [1/2, 1, 1/2, 0], [1, 1/2, 2, 1/2], [1/2, 0, 1/2, 1]] 4"
    from this [unfolded symmetric_def, rule_format, of 0 1] show False by simp
  qed
  from a b c show ?thesis by simp
qed

subsection \<open>The element-wise nonlinear reaction operator\<close>

text \<open>
  Over the reals, the element-wise accumulation of
  \<^verbatim>\<open>element_NonlinearReactionOperator.apply\<close> computes the sum of the element vectors
  weighted by \<open>rho\<close>, and with every weight equal to one it returns what
  \<^verbatim>\<open>NonlinearReactionOperator.apply\<close> returns, on a grid with at least one element and
  with a boundary information that has a Dirichlet boundary.
\<close>

lemma element_loop_shape:
  assumes "element_loop f mu U SF sub es c = Inr c'"
  shows "length c' = length c \<and> (\<forall>e<length c. length (c' ! e) = length (c ! e))"
  using assms
proof (induction es arbitrary: c)
  case Nil
  then show ?case by simp
next
  case (Cons e es)
  from Cons.prems obtain wert where w: "wert_of U SF sub e = Inr wert"
    by (auto split: sum.splits)
  from Cons.prems w obtain vals where v: "evaluate f 1 (map (\<lambda>x. [x]) wert) mu = Inr vals"
    by (auto split: sum.splits)
  from Cons.prems w v have e: "e < length c" "length (c ! e) = length vals"
    and rest: "element_loop f mu U SF sub es (c[e := vals]) = Inr c'"
    by (auto split: if_splits)
  from Cons.IH [OF rest] e show ?case
    by (auto simp: nth_list_update)
qed

lemma slice3:
  assumes "\<And>xs. xs \<in> set xss \<Longrightarrow> length xs = 3" "e < length xss"
  shows "take 3 (drop (3 * e) (concat xss)) = xss ! e"
  using assms
proof (induction xss arbitrary: e)
  case Nil
  then show ?case by simp
next
  case (Cons xs xss)
  have l: "length xs = 3" using Cons.prems(1) by simp
  show ?case
  proof (cases e)
    case 0
    then show ?thesis using l by simp
  next
    case (Suc e')
    then have "take 3 (drop (3 * e') (concat xss)) = xss ! e'"
      using Cons.IH [of e'] Cons.prems by simp
    then show ?thesis using Suc l by simp
  qed
qed

text \<open>The contribution vector of one element.\<close>

lemma accumulate_vectors_sum:
  assumes rows: "\<And>xs. xs \<in> set S \<Longrightarrow> length xs = 3" "\<And>xs. xs \<in> set sub \<Longrightarrow> length xs = 3"
      "length S = length sub"
    and rng: "\<And>row c. row \<in> set sub \<Longrightarrow> c \<in> set row \<Longrightarrow> c < n"
    and es: "\<And>e. e \<in> set es \<Longrightarrow> e < length sub"
    and a: "length a = n"
  shows "accumulate_vectors r (concat S) (concat sub) n es (Some a)
         = Inr (Some (map (\<lambda>d. a ! d + (\<Sum>e\<leftarrow>es. r ! e * element_vector S sub n e ! d)) [0..<n]))"
  using es a
proof (induction es arbitrary: a)
  case Nil
  have "map (\<lambda>d. a ! d) [0..<length a] = a" by (rule map_nth)
  with Nil show ?case by simp
next
  case (Cons e es)
  have e: "e < length sub" using Cons.prems(1) by simp
  have s1: "take 3 (drop (3 * e) (concat S)) = S ! e"
    using slice3 [of S e] rows e by simp
  have s2: "take 3 (drop (3 * e) (concat sub)) = sub ! e"
    using slice3 [of sub e] rows e by simp
  have l: "length (S ! e) = 3" "length (sub ! e) = 3"
    using rows e by simp_all
  have inr: "\<forall>i \<in> set (sub ! e). i < n"
    using rng e by (meson nth_mem)
  have cv: "coo_vector (S ! e) (sub ! e) n = Inr (element_vector S sub n e)"
    using l inr by (auto simp: coo_vector_def element_vector_def)
  let ?a' = "map2 (+) a (map (\<lambda>x. r ! e * x) (element_vector S sub n e))"
  have la: "length ?a' = n" using Cons.prems(2) by (simp add: element_vector_def)
  have "accumulate_vectors r (concat S) (concat sub) n (e # es) (Some a)
      = accumulate_vectors r (concat S) (concat sub) n es (Some ?a')"
    by (simp add: s1 s2 l cv)
  also have "\<dots> = Inr (Some (map (\<lambda>d. ?a' ! d + (\<Sum>e\<leftarrow>es. r ! e * element_vector S sub n e ! d)) [0..<n]))"
    by (rule Cons.IH) (use Cons.prems la in auto)
  also have "\<dots> = Inr (Some (map (\<lambda>d. a ! d + (\<Sum>e\<leftarrow>e # es. r ! e * element_vector S sub n e ! d)) [0..<n]))"
    using Cons.prems(2) by (simp add: element_vector_def algebra_simps)
  finally show ?case .
qed

lemma accumulate_vectors_first:
  assumes rows: "\<And>xs. xs \<in> set S \<Longrightarrow> length xs = 3" "\<And>xs. xs \<in> set sub \<Longrightarrow> length xs = 3"
      "length S = length sub"
    and rng: "\<And>row c. row \<in> set sub \<Longrightarrow> c \<in> set row \<Longrightarrow> c < n"
    and es: "\<And>e. e \<in> set es \<Longrightarrow> e < length sub" "es \<noteq> []"
  shows "accumulate_vectors r (concat S) (concat sub) n es None
         = Inr (Some (map (\<lambda>d. \<Sum>e\<leftarrow>es. r ! e * element_vector S sub n e ! d) [0..<n]))"
proof -
  from es(2) obtain e es' where ees: "es = e # es'" by (cases es) auto
  have e: "e < length sub" using es(1) ees by simp
  have s1: "take 3 (drop (3 * e) (concat S)) = S ! e"
    using slice3 [of S e] rows e by simp
  have s2: "take 3 (drop (3 * e) (concat sub)) = sub ! e"
    using slice3 [of sub e] rows e by simp
  have l: "length (S ! e) = 3" "length (sub ! e) = 3"
    using rows e by simp_all
  have inr: "\<forall>i \<in> set (sub ! e). i < n"
    using rng e by (meson nth_mem)
  have cv: "coo_vector (S ! e) (sub ! e) n = Inr (element_vector S sub n e)"
    using l inr by (auto simp: coo_vector_def element_vector_def)
  let ?a = "map (\<lambda>x. r ! e * x) (element_vector S sub n e)"
  have la: "length ?a = n" by (simp add: element_vector_def)
  have "accumulate_vectors r (concat S) (concat sub) n es None
      = accumulate_vectors r (concat S) (concat sub) n es' (Some ?a)"
    by (simp add: ees s1 s2 l cv)
  also have "\<dots> = Inr (Some (map (\<lambda>d. ?a ! d + (\<Sum>e\<leftarrow>es'. r ! e * element_vector S sub n e ! d)) [0..<n]))"
    by (rule accumulate_vectors_sum [OF rows rng _ la]) (use es(1) ees in auto)
  also have "\<dots> = Inr (Some (map (\<lambda>d. \<Sum>e\<leftarrow>es. r ! e * element_vector S sub n e ! d) [0..<n]))"
    by (simp add: ees element_vector_def)
  finally show ?thesis .
qed

lemma length_concat_map_eq:
  "(\<And>x. x \<in> set xs \<Longrightarrow> length (F x) = length (G x)) \<Longrightarrow>
   length (concat (map F xs)) = length (concat (map G xs))"
  by (induction xs) auto

lemma coo_vector_elements:
  assumes rows: "\<And>e. e < length sub \<Longrightarrow> length (S ! e) = length (sub ! e)" "length S = length sub"
    and rng: "\<And>row c. row \<in> set sub \<Longrightarrow> c \<in> set row \<Longrightarrow> c < n"
  shows "coo_vector (concat S) (concat sub) n
         = Inr (map (\<lambda>d. \<Sum>e\<leftarrow>[0..<length sub]. element_vector S sub n e ! d) [0..<n])"
proof -
  have S: "S = map (\<lambda>e. S ! e) [0..<length sub]" by (metis rows(2) map_nth)
  have sub: "sub = map (\<lambda>e. sub ! e) [0..<length sub]" by (metis map_nth)
  have z: "zip (concat S) (concat sub)
      = concat (map (\<lambda>e. zip (S ! e) (sub ! e)) [0..<length sub])"
    by (subst S, subst sub, subst zip_concat_map) (simp_all add: rows(1))
  have "length (concat (map (\<lambda>e. S ! e) [0..<length sub]))
      = length (concat (map (\<lambda>e. sub ! e) [0..<length sub]))"
    by (rule length_concat_map_eq) (simp add: rows(1))
  then have len: "length (concat S) = length (concat sub)"
    using S sub by simp
  have "\<not> (\<exists>i \<in> set (concat sub). n \<le> i)" using rng by fastforce
  then show ?thesis
    using len
    by (simp add: coo_vector_def z map_concat sum_list_concat o_def element_vector_def)
qed

lemma einsum_ji_ei_e_e_i_shape:
  assumes "einsum_ji_ei_e_e_i SF c_nl C vol w = Inr S"
  shows "length S = length c_nl" "\<And>xs. xs \<in> set S \<Longrightarrow> length xs = length SF"
  using assms by (auto simp: einsum_ji_ei_e_e_i_def split: if_splits)

lemma element_apply_all_ones:
  assumes ok: "grid_ok g" and E: "0 < size_of g 0"
    and bi: "case bi of None \<Rightarrow> True | Some b \<Rightarrow> has_dirichlet b"
  shows "element_NonlinearReactionOperator_apply
           \<lparr>grid = g, boundary_info = bi, reaction_coefficient = rc, reaction_function = rf,
            reaction_function_derivative = rfd,
            element_NonlinearReactionOperator.rho = replicate (size_of g 0) 1\<rparr> U mu
         = NonlinearReactionOperator_apply
           \<lparr>grid = g, boundary_info = bi, reaction_coefficient = rc, reaction_function = rf,
            reaction_function_derivative = rfd\<rparr> U mu"
proof -
  define r where "r = reference_element g"
  define n where "n = size_of g (dim g)"
  define sub where "sub = subentities g"
  obtain q w where qw: "quadrature g r 2 = (q, w)" by (cases "quadrature g r 2") auto
  define SF where "SF = shape_functions_at r q"
  define CC where "CC = evaluate rc (dim g) (centers g) mu"
  define loop where "loop = element_loop rf mu U SF sub [0..<size_of g 0] (zeros_like sub)"
  have lsub: "length sub = size_of g 0"
    and rows: "\<And>row. row \<in> set sub \<Longrightarrow> length row = length SF"
    and rng: "\<And>row c. row \<in> set sub \<Longrightarrow> c \<in> set row \<Longrightarrow> c < n"
    using ok by (auto simp: grid_ok_def sub_def SF_def length_shape_functions_at r_def n_def)
  have unfold_e: "element_NonlinearReactionOperator_apply
           \<lparr>grid = g, boundary_info = bi, reaction_coefficient = rc, reaction_function = rf,
            reaction_function_derivative = rfd,
            element_NonlinearReactionOperator.rho = replicate (size_of g 0) 1\<rparr> U mu
      = (case CC of Inl err \<Rightarrow> Inl err | Inr C \<Rightarrow>
          (case loop of Inl err \<Rightarrow> Inl err | Inr c_nl \<Rightarrow>
          (case einsum_ji_ei_e_e_i SF c_nl C (volumes g) w of Inl err \<Rightarrow> Inl err | Inr S \<Rightarrow>
          (case accumulate_vectors (replicate (size_of g 0) 1) (concat S) (concat sub) n
                  [0..<size_of g 0] None of Inl err \<Rightarrow> Inl err | Inr A_e \<Rightarrow>
          (case bi of None \<Rightarrow> Inl AttributeError | Some b \<Rightarrow>
          (case call_dirichlet_boundaries b of Inl err \<Rightarrow> Inl err | Inr DI \<Rightarrow>
            (case A_e of None \<Rightarrow> Inl TypeError | Some a \<Rightarrow> set_zero a DI)))))))"
    by (simp add: element_NonlinearReactionOperator_apply_def Let_def r_def [symmetric] qw
        NonZeroIndices_ones SF_def CC_def sub_def n_def loop_def
        cong: sum.case_cong option.case_cong)
  have unfold_f: "NonlinearReactionOperator_apply
           \<lparr>grid = g, boundary_info = bi, reaction_coefficient = rc, reaction_function = rf,
            reaction_function_derivative = rfd\<rparr> U mu
      = (case CC of Inl err \<Rightarrow> Inl err | Inr C \<Rightarrow>
          (case loop of Inl err \<Rightarrow> Inl err | Inr c_nl \<Rightarrow>
          (case einsum_ji_ei_e_e_i SF c_nl C (volumes g) w of Inl err \<Rightarrow> Inl err | Inr S \<Rightarrow>
          (case coo_vector (concat S) (concat sub) n of Inl err \<Rightarrow> Inl err | Inr A \<Rightarrow>
          (case bi of None \<Rightarrow> Inl AttributeError | Some b \<Rightarrow>
             if has_dirichlet b then set_zero A (dirichlet_boundaries b) else Inr A)))))"
    by (simp add: NonlinearReactionOperator_apply_def Let_def r_def [symmetric] qw
        SF_def CC_def sub_def n_def loop_def
        cong: sum.case_cong option.case_cong)
  show ?thesis
  proof (cases CC)
    case (Inl err)
    then show ?thesis by (simp add: unfold_e unfold_f)
  next
    case C: (Inr C)
    show ?thesis
    proof (cases loop)
      case (Inl err)
      then show ?thesis by (simp add: unfold_e unfold_f C)
    next
      case (Inr c_nl)
      have upt: "[0..<size_of g 0] = 0 # [1..<size_of g 0]"
        using E by (simp add: upt_conv_Cons)
      have SF3: "length SF = 3"
        using Inr element_loop_first [of rf mu U SF sub 0 "[1..<size_of g 0]" c_nl]
        by (simp add: loop_def upt)
      have lc: "length c_nl = size_of g 0"
        using element_loop_shape [OF Inr [unfolded loop_def]] lsub by (simp add: zeros_like_def)
      show ?thesis
      proof (cases "einsum_ji_ei_e_e_i SF c_nl C (volumes g) w")
        case (Inl err)
        then show ?thesis using Inr by (simp add: unfold_e unfold_f C)
      next
        case S: (Inr S)
        note sh = einsum_ji_ei_e_e_i_shape [OF S]
        have S3: "\<And>xs. xs \<in> set S \<Longrightarrow> length xs = 3" using sh(2) SF3 by simp
        have sub3: "\<And>xs. xs \<in> set sub \<Longrightarrow> length xs = 3" using rows SF3 by simp
        have lS: "length S = length sub" using sh(1) lc lsub by simp
        have full: "coo_vector (concat S) (concat sub) n
            = Inr (map (\<lambda>d. \<Sum>e\<leftarrow>[0..<size_of g 0]. element_vector S sub n e ! d) [0..<n])"
          using coo_vector_elements [of sub S n] lS S3 sub3 rng lsub by simp
        have "accumulate_vectors (replicate (size_of g 0) 1) (concat S) (concat sub) n
                [0..<size_of g 0] None
            = Inr (Some (map (\<lambda>d. \<Sum>e\<leftarrow>[0..<size_of g 0].
                     replicate (size_of g 0) 1 ! e * element_vector S sub n e ! d) [0..<n]))"
          by (rule accumulate_vectors_first [OF S3 sub3 lS rng]) (use lsub E in auto)
        also have "(\<lambda>d. \<Sum>e\<leftarrow>[0..<size_of g 0].
                     replicate (size_of g 0) (1::real) ! e * element_vector S sub n e ! d)
            = (\<lambda>d. \<Sum>e\<leftarrow>[0..<size_of g 0]. element_vector S sub n e ! d)"
          by (intro ext sum_list_cong) simp
        finally have elem: "accumulate_vectors (replicate (size_of g 0) 1) (concat S) (concat sub) n
                [0..<size_of g 0] None
            = Inr (Some (map (\<lambda>d. \<Sum>e\<leftarrow>[0..<size_of g 0]. element_vector S sub n e ! d) [0..<n]))" .
        show ?thesis
          using bi
          by (auto simp: unfold_e unfold_f Inr S C full elem call_dirichlet_boundaries_def
              split: option.splits)
      qed
    qed
  qed
qed

text \<open>
  Without a Dirichlet boundary \<^verbatim>\<open>NonlinearReactionOperator.apply\<close> returns its vector,
  and \<^verbatim>\<open>element_NonlinearReactionOperator.apply\<close> and \<^verbatim>\<open>.jacobian\<close>, which ask for
  the Dirichlet DOFs unguarded, raise the exception of the boundary information.
\<close>

lemma element_operator_without_dirichlet:
  "NonlinearReactionOperator_apply
     (example_NonlinearReactionOperator example_grid example_empty_boundary_info)
     [1, 2, 3, 4] [] = Inr [33/4, 17/4, 53/4, 37/4]
   \<and> element_NonlinearReactionOperator_apply
     (example_element_NonlinearReactionOperator example_grid example_empty_boundary_info [1, 1])
     [1, 2, 3, 4] [] = Inl AssertionError
   \<and> element_NonlinearReactionOperator_jacobian
     (example_element_NonlinearReactionOperator example_grid example_empty_boundary_info [1, 1])
     [1, 2, 3, 4] [] = Inl AssertionError"
  by code_simp

text \<open>
  C1. On the grid of two triangles with the state \<open>[1, 2, 3, 4]\<close>,
  \<^verbatim>\<open>NonlinearReactionOperator.apply\<close> returns its vector, and with all weights equal to
  one \<^verbatim>\<open>element_NonlinearReactionOperator.apply\<close> returns the same vector. With all
  weights equal to zero no element contributes: \<^verbatim>\<open>element_NonlinearReactionOperator.jacobian\<close>
  returns the zero matrix, but \<^verbatim>\<open>element_NonlinearReactionOperator.apply\<close> returns no
  zero vector. Its sum \<^verbatim>\<open>A_e\<close> is still the empty \<^verbatim>\<open>coo_matrix\<close> it starts as when
  \<^verbatim>\<open>A_e[DI] = 0\<close> is executed, and the assignment raises \<^verbatim>\<open>TypeError\<close>.
\<close>

theorem element_apply_zero_weights:
  "NonlinearReactionOperator_apply
     (example_NonlinearReactionOperator example_grid example_boundary_info)
     [1, 2, 3, 4] [] = Inr [0, 17/4, 53/4, 37/4]
   \<and> element_NonlinearReactionOperator_apply
     (example_element_NonlinearReactionOperator example_grid example_boundary_info [1, 1])
     [1, 2, 3, 4] [] = Inr [0, 17/4, 53/4, 37/4]
   \<and> element_NonlinearReactionOperator_jacobian
     (example_element_NonlinearReactionOperator example_grid example_boundary_info [0, 0])
     [1, 2, 3, 4] [] = Inr [[0, 0, 0, 0], [0, 0, 0, 0], [0, 0, 0, 0], [0, 0, 0, 0]]
   \<and> element_NonlinearReactionOperator_apply
     (example_element_NonlinearReactionOperator example_grid example_boundary_info [0, 0])
     [1, 2, 3, 4] [] = Inl TypeError"
  by code_simp

end
